theory Spec2Isabelle
  imports Main "HOL-Library.Word"
begin

section \<open>Shared data: timestamps, statuses, errors\<close>

text \<open>
  \<^verbatim>\<open>primitive.Timestamp\<close> of the MongoDB driver: two unsigned 32-bit fields, the
  seconds \<open>T\<close> and the ordinal \<open>I\<close>. Arithmetic on them wraps modulo \<open>2 ^ 32\<close>.
\<close>

type_synonym u32 = "32 word"
type_synonym byte = "8 word"

record Timestamp =
  T :: u32
  I :: u32

text \<open>
  \<^verbatim>\<open>primitive.CompareTimestamp\<close> of the driver, as its documentation states it:
  \<open>-1\<close>, \<open>0\<close> or \<open>1\<close>, comparing the seconds first and the ordinal on a tie. The
  theorems on the oplog reader below use it only through the reader's own test
  \<^verbatim>\<open>CompareTimestamp(ot.end, opts) == -1\<close>.
\<close>

definition CompareTimestamp :: "Timestamp \<Rightarrow> Timestamp \<Rightarrow> int" where
  "CompareTimestamp tp tp2 =
     (if T tp = T tp2 \<and> I tp = I tp2 then 0
      else if T tp > T tp2 then 1
      else if T tp < T tp2 then - 1
      else if I tp > I tp2 then 1
      else - 1)"

text \<open>
  Modelled from the spec: the type \<^verbatim>\<open>pbm.Status\<close> is declared outside the given
  sources; section 3 of the specification lists its values.
\<close>

datatype Status =
    StatusStarting
  | StatusRunning
  | StatusDumpDone
  | StatusDone
  | StatusCancelled
  | StatusError

text \<open>
  Errors as values. \<open>ErrNoDocuments\<close> is the driver's sentinel \<^verbatim>\<open>mongo.ErrNoDocuments\<close>,
  \<open>ErrConvergeTimeOut\<close> the package variable \<^verbatim>\<open>errConvergeTimeOut\<close>; both are compared
  by identity in the source, so each is a constructor of its own. \<open>New\<close> is
  \<^verbatim>\<open>errors.New\<close> (also any error produced by a collaborator), \<open>Errorf\<close> keeps the
  format string and its arguments unformatted, \<open>Wrapped e msg\<close> and
  \<open>Wrappedf e format args\<close> are the values \<^verbatim>\<open>errors.Wrap\<close> and \<^verbatim>\<open>errors.Wrapf\<close> build
  around a non-nil \<open>e\<close>.
\<close>

datatype fmt_arg =
    AStr string
  | AU32 u32
  | AInt int
  | ATs Timestamp
  | AStatus Status
  | ARaw "byte list"

datatype error =
    ErrNoDocuments
  | ErrConvergeTimeOut
  | New string
  | Errorf string "fmt_arg list"
  | Wrapped error string
  | Wrappedf error string "fmt_arg list"

text \<open>
  \<^verbatim>\<open>errors.Wrap(err, msg)\<close> and \<^verbatim>\<open>errors.Wrapf(err, format, args...)\<close> of
  \<^verbatim>\<open>github.com/pkg/errors\<close>: a nil error stays nil.
\<close>

fun Wrap :: "error option \<Rightarrow> string \<Rightarrow> error option" where
  "Wrap None msg = None"
| "Wrap (Some e) msg = Some (Wrapped e msg)"

fun Wrapf :: "error option \<Rightarrow> string \<Rightarrow> fmt_arg list \<Rightarrow> error option" where
  "Wrapf None format args = None"
| "Wrapf (Some e) format args = Some (Wrappedf e format args)"

text \<open>\<^verbatim>\<open>errors.Cause\<close>: the innermost error under the wrappers.\<close>

fun Cause :: "error \<Rightarrow> error" where
  "Cause (Wrapped e msg) = Cause e"
| "Cause (Wrappedf e format args) = Cause e"
| "Cause e = e"

section \<open>The node probe (\<^verbatim>\<open>pbm/node.go\<close>)\<close>

text \<open>
  Modelled from the spec: the type \<^verbatim>\<open>pbm.IsMaster\<close>, the answer to the \<^verbatim>\<open>isMaster\<close>
  command, and its methods \<^verbatim>\<open>IsSharded\<close> and \<^verbatim>\<open>IsLeader\<close> are declared outside the given
  sources. The record keeps the fields the code reads (section 4.3 of the
  specification: role, replica-set name, member list; \<open>IsMasterFlag\<close> is the field
  \<^verbatim>\<open>IsMaster\<close>), and takes the results of the two methods as given booleans.
\<close>

record IsMaster =
  SetName :: string
  Hosts :: "string list"
  IsMasterFlag :: bool
  Me :: string
  IsSharded :: bool
  IsLeader :: bool

text \<open>
  The value \<^verbatim>\<open>Lookup\<close> finds under a key of an oplog record: a BSON string, or the
  zero value when the record has no such key. (The operation type \<^verbatim>\<open>op\<close> of an oplog
  record is a string.)
\<close>

datatype RawValue = StringValue string | NoValue

text \<open>
  The driver's \<^verbatim>\<open>RawValue.String()\<close>, as its documentation states it: the value in
  extended JSON. A string is rendered between double quotes, with its double quotes
  and backslashes escaped (the driver escapes control and markup characters as well;
  nothing below depends on the escapes); the zero value is rendered as the empty
  string.
\<close>

definition escapeString :: "string \<Rightarrow> string" where
  "escapeString s =
     CHR 0x22 # concat (map (\<lambda>c. if c = CHR 0x22 \<or> c = CHR 0x5C then [CHR 0x5C, c] else [c]) s)
       @ [CHR 0x22]"

fun String :: "RawValue \<Rightarrow> string" where
  "String (StringValue s) = escapeString s"
| "String NoValue = []"

text \<open>One oplog record as the tailing loop reads it off the cursor.\<close>

record OplogDoc =
  ts :: "Timestamp option"
    \<comment> \<open>\<^verbatim>\<open>Lookup("ts").TimestampOK()\<close>: \<open>None\<close> when \<^verbatim>\<open>ok\<close> is false\<close>
  op :: RawValue
    \<comment> \<open>\<^verbatim>\<open>Lookup("op")\<close>\<close>
  raw :: "byte list"
    \<comment> \<open>\<^verbatim>\<open>[]byte(cur.Current)\<close>\<close>

text \<open>
  A driver cursor on the oplog: the documents \<^verbatim>\<open>Next\<close> yields, in order, until it
  returns false, and the error \<^verbatim>\<open>Err()\<close> reports from then on.
\<close>

record Cursor =
  docs :: "OplogDoc list"
  cur_err :: "error option"

text \<open>
  Modelled from the spec: the types \<^verbatim>\<open>pbm.AuthInfo\<close> and \<^verbatim>\<open>pbm.MongoVersion\<close> are
  declared outside the given sources. An \<^verbatim>\<open>AuthInfo\<close> lists the authenticated users
  and their roles, each a database and a name.
\<close>

record AuthUser =
  user_DB :: string
  user_User :: string

record AuthUserRoles =
  role_DB :: string
  role_Role :: string

record AuthInfo =
  Users :: "AuthUser list"
  UserRoles :: "AuthUserRoles list"

record MongoVersion =
  VersionString :: string
  Version :: "int list"

text \<open>
  The collections a session reaches, by database and collection name, each the list
  of its documents in storage order (\<open>None\<close>: there is no such collection), and the
  driver error a call runs into, if any. A document is its \<^verbatim>\<open>_id\<close> and the rest of its
  content.
\<close>

type_synonym namespace = "string \<times> string"

record Doc =
  doc_id :: string
  body :: "byte list"

datatype query = Nin "string list" | Ne string

datatype dbcall =
    FindCall namespace query
  | DeleteManyCall namespace query
  | DecodeCall Doc
  | InsertOneCall namespace Doc
  | DropCall namespace

record Session =
  colls :: "namespace \<Rightarrow> Doc list option"
  fails :: "dbcall \<Rightarrow> error option"

text \<open>
  The \<^verbatim>\<open>mongo.Client\<close> behind a node, as far as the code uses it: the decoded answer of
  the \<^verbatim>\<open>isMaster\<close> command, the cursor that \<^verbatim>\<open>Find\<close> opens on a collection of the
  \<^verbatim>\<open>local\<close> database for the filter \<^verbatim>\<open>ts >= start\<close>, the server's version, the
  authenticated user, and the session on the node's collections.
\<close>

record Client =
  runIsMaster :: "error + IsMaster"
  findOplog :: "string \<Rightarrow> Timestamp \<Rightarrow> error + Cursor"
  mongoVersion :: "error + MongoVersion"
  currentUser :: "error + AuthInfo"
  session :: Session

record Node =
  name :: string
  cn :: Client
  opts :: string

definition GetIsMaster :: "Node \<Rightarrow> error + IsMaster" where
  "GetIsMaster n =
     (case runIsMaster (cn n) of
        Inl err \<Rightarrow> Inl (Wrapped err ''run mongo command isMaster'')
      | Inr im \<Rightarrow> Inr im)"

definition ConnURI :: "Node \<Rightarrow> string" where
  "ConnURI n = opts n"

text \<open>
  Modelled from the spec: the methods \<^verbatim>\<open>GetMongoVersion\<close> and \<^verbatim>\<open>CurrentUser\<close> of
  \<^verbatim>\<open>pbm.Node\<close> are not in the given \<^verbatim>\<open>node.go\<close>; section 4.3 of the specification
  describes them as thin wrappers around the driver.
\<close>

definition GetMongoVersion :: "Node \<Rightarrow> error + MongoVersion" where
  "GetMongoVersion n = mongoVersion (cn n)"

definition CurrentUser :: "Node \<Rightarrow> error + AuthInfo" where
  "CurrentUser n = currentUser (cn n)"

section \<open>The oplog reader (\<^verbatim>\<open>pbm/backup/oplog.go\<close>)\<close>

text \<open>
  Modelled from the spec: the constant \<^verbatim>\<open>pbm.OperationNoop\<close> is declared outside the
  given sources; the specification gives the noop operation as \<^verbatim>\<open>op == "n"\<close>.
\<close>

definition OperationNoop :: string where
  "OperationNoop = ''n''"

record Oplog =
  node :: Node
  start :: Timestamp
  endTS :: Timestamp

definition NewOplog :: "Node \<Rightarrow> Oplog" where
  "NewOplog n = \<lparr>node = n, start = \<lparr>T = 0, I = 0\<rparr>, endTS = \<lparr>T = 0, I = 0\<rparr>\<rparr>"

definition SetTailingSpan :: "Oplog \<Rightarrow> Timestamp \<Rightarrow> Timestamp \<Rightarrow> Oplog" where
  "SetTailingSpan ot s e = ot\<lparr>start := s, endTS := e\<rparr>"

definition collectionName :: "Oplog \<Rightarrow> error + string" where
  "collectionName ot =
     (case GetIsMaster (node ot) of
        Inl err \<Rightarrow> Inl (Wrapped err ''get isMaster document'')
      | Inr isMaster \<Rightarrow>
          if length (Hosts isMaster) > 0 then Inr ''oplog.rs''
          else if \<not> IsMasterFlag isMaster then Inl (New ''not connected to master'')
          else Inr ''oplog.$main'')"

text \<open>
  The \<^verbatim>\<open>io.Writer\<close> handed to \<^verbatim>\<open>WriteTo\<close>: the bytes it has taken so far, and how many
  more it takes before it fails (\<open>None\<close>: it never fails). A write that does not fit
  is cut short and reports an error, as the contract of \<^verbatim>\<open>io.Writer\<close> demands.
\<close>

record Writer =
  out :: "byte list"
  room :: "nat option"

definition Write :: "Writer \<Rightarrow> byte list \<Rightarrow> nat \<times> error option \<times> Writer" where
  "Write w p =
     (case room w of
        None \<Rightarrow> (length p, None, w\<lparr>out := out w @ p\<rparr>)
      | Some k \<Rightarrow>
          if length p \<le> k
          then (length p, None, w\<lparr>out := out w @ p, room := Some (k - length p)\<rparr>)
          else (k, Some (New ''io: read/write on closed pipe''),
                w\<lparr>out := out w @ take k p, room := Some 0\<rparr>))"

text \<open>
  The loop \<^verbatim>\<open>for cur.Next(ctx) { ... }\<close> of \<^verbatim>\<open>WriteTo\<close> and its final
  \<^verbatim>\<open>return written, cur.Err()\<close>. The arguments are the end of the span, the cursor's
  final error, the documents still to come, the count \<^verbatim>\<open>written\<close> (an \<^verbatim>\<open>int64\<close>) and the
  writer.
\<close>

fun tail_loop ::
  "Timestamp \<Rightarrow> error option \<Rightarrow> OplogDoc list \<Rightarrow> 64 word \<Rightarrow> Writer
     \<Rightarrow> (64 word \<times> error option) \<times> Writer" where
  "tail_loop e cerr [] written w = ((written, cerr), w)"
| "tail_loop e cerr (d # ds) written w =
     (case ts d of
        None \<Rightarrow> ((written, Some (Errorf ''get the timestamp of record %v'' [ARaw (raw d)])), w)
      | Some t \<Rightarrow>
          if CompareTimestamp e t = - 1 then ((written, None), w)
          else if String (op d) = OperationNoop then tail_loop e cerr ds written w
          else
            (case Write w (raw d) of
               (n, Some err, w') \<Rightarrow> ((written, Some (Wrapped err ''write to pipe'')), w')
             | (n, None, w') \<Rightarrow> tail_loop e cerr ds (written + of_nat n) w'))"

definition WriteTo :: "Oplog \<Rightarrow> Writer \<Rightarrow> (64 word \<times> error option) \<times> Writer" where
  "WriteTo ot w =
     (if T (start ot) = 0 \<or> T (endTS ot) = 0
      then ((0, Some (Errorf ''oplog TailingSpan should be set, have start: %v, end: %v''
                        [ATs (start ot), ATs (endTS ot)])), w)
      else
        (case collectionName ot of
           Inl err \<Rightarrow> ((0, Some (Wrapped err ''determine oplog collection name'')), w)
         | Inr clName \<Rightarrow>
             (case findOplog (cn (node ot)) clName (start ot) of
                Inl err \<Rightarrow> ((0, Some (Wrapped err ''get the oplog cursor'')), w)
              | Inr cur \<Rightarrow> tail_loop (endTS ot) (cur_err cur) (docs cur) 0 w)))"

text \<open>
  A record is beyond the end of the span when the reader's test on its timestamp
  succeeds. \<open>read_bytes\<close> are the raw bytes of the records up to the first one beyond
  the end of the span. \<open>oplog_slice\<close> is what the specification asks of the slice, in
  its own words: those records without the noops, the records whose \<^verbatim>\<open>op\<close> is
  \<^verbatim>\<open>"n"\<close>; \<open>slice_bytes\<close> are their raw bytes.
\<close>

definition beyond :: "Timestamp \<Rightarrow> OplogDoc \<Rightarrow> bool" where
  "beyond e d = (case ts d of None \<Rightarrow> False | Some t \<Rightarrow> CompareTimestamp e t = - 1)"

definition read_bytes :: "Timestamp \<Rightarrow> OplogDoc list \<Rightarrow> byte list" where
  "read_bytes e ds = concat (map raw (takeWhile (\<lambda>d. \<not> beyond e d) ds))"

definition oplog_slice :: "Timestamp \<Rightarrow> OplogDoc list \<Rightarrow> OplogDoc list" where
  "oplog_slice e ds =
     filter (\<lambda>d. op d \<noteq> StringValue OperationNoop) (takeWhile (\<lambda>d. \<not> beyond e d) ds)"

definition slice_bytes :: "Timestamp \<Rightarrow> OplogDoc list \<Rightarrow> byte list" where
  "slice_bytes e ds = concat (map raw (oplog_slice e ds))"

text \<open>
  The writer takes \<open>n\<close> more bytes without failing; \<open>took w bs\<close> is the writer after it
  has taken the bytes \<open>bs\<close>.
\<close>

definition accepts :: "Writer \<Rightarrow> nat \<Rightarrow> bool" where
  "accepts w n = (case room w of None \<Rightarrow> True | Some k \<Rightarrow> n \<le> k)"

definition took :: "Writer \<Rightarrow> byte list \<Rightarrow> Writer" where
  "took w bs = w\<lparr>out := out w @ bs, room := map_option (\<lambda>k. k - length bs) (room w)\<rparr>"

section \<open>The metadata store as the restore sees it\<close>

text \<open>
  Modelled from the spec: the types of package \<^verbatim>\<open>pbm\<close> that describe a backup, a
  restore and a lock (\<^verbatim>\<open>BackupMeta\<close>, \<^verbatim>\<open>BackupReplset\<close>, \<^verbatim>\<open>RestoreCmd\<close>,
  \<^verbatim>\<open>RestoreMeta\<close>, \<^verbatim>\<open>RestoreReplset\<close>, \<^verbatim>\<open>Shard\<close>, \<^verbatim>\<open>LockHeader\<close>, \<^verbatim>\<open>LockData\<close>) and
  the constants \<^verbatim>\<open>StaleFrameSec\<close>, \<^verbatim>\<open>WaitActionStart\<close>, \<^verbatim>\<open>NoReplset\<close> and
  \<^verbatim>\<open>MetadataFileSuffix\<close> are declared outside the given sources. The records keep the
  fields the code reads and writes (section 3 of the specification), prefixed where
  two records share a field name. \<^verbatim>\<open>StaleFrameSec\<close> and \<^verbatim>\<open>WaitActionStart\<close> have the
  specification's default values and \<^verbatim>\<open>MetadataFileSuffix\<close> its object naming (section
  6); the specification gives no value for \<^verbatim>\<open>NoReplset\<close>, the name of the replica set
  of a node that is in none, and a name stands for it. The theorems below hold for
  any values of these constants; only the concrete runs evaluate them.
\<close>

definition StaleFrameSec :: u32 where
  "StaleFrameSec = 30"

text \<open>\<^verbatim>\<open>WaitActionStart\<close>, a \<^verbatim>\<open>time.Duration\<close>, in nanoseconds.\<close>

definition WaitActionStart :: int where
  "WaitActionStart = 30 * 1000000000"

definition NoReplset :: string where
  "NoReplset = ''pbmnoreplicaset''"

definition MetadataFileSuffix :: string where
  "MetadataFileSuffix = ''.pbm.json''"

record BackupReplset =
  brs_Name :: string
  DumpName :: string
  OplogName :: string

record BackupMeta =
  bm_Name :: string
  bm_Compression :: string
  bm_Status :: Status
  bm_Error :: string
  bm_Replsets :: "BackupReplset list"

record RestoreCmd =
  cmd_Name :: string
  cmd_BackupName :: string

record Condition =
  cond_Timestamp :: int
  cond_Status :: Status
  cond_Error :: string

record RestoreReplset =
  rs_Name :: string
  rs_StartTS :: int
  rs_Status :: Status
  rs_Error :: string
  rs_Conditions :: "Condition list"

record RestoreMeta =
  rm_Name :: string
  rm_Backup :: string
  rm_StartTS :: int
  rm_Status :: Status
  rm_Error :: string
  rm_Replsets :: "RestoreReplset list"
  rm_Hb :: Timestamp

record Shard =
  ID :: string
  Host :: string

datatype Command = CmdBackup | CmdRestore | CmdCancelBackup

record LockHeader =
  lock_Type :: Command
  lock_BackupName :: string
  lock_Replset :: string

record LockData =
  Heartbeat :: Timestamp

text \<open>
  What the metadata store \<^verbatim>\<open>r.cn\<close> answers at the moment of one poll: the restore's
  metadata by name, the cluster time, and the lock of a header. A lock that is not in
  the lock collection is the error \<open>ErrNoDocuments\<close>, the driver's answer to a
  \<^verbatim>\<open>FindOne\<close> that finds nothing.
\<close>

record View =
  GetRestoreMeta :: "string \<Rightarrow> error + RestoreMeta"
  ClusterTime :: "error + Timestamp"
  GetLockData :: "LockHeader \<Rightarrow> error + LockData"

text \<open>
  The text of a status update: the empty string of a normal transition, or the
  \<^verbatim>\<open>err.Error()\<close> of the error that failed the restore.
\<close>

datatype msg = NoMsg | ErrorText error

text \<open>The calls that change the cluster, in the order they are issued.\<close>

datatype effect =
    SetRestoreMetaCall RestoreMeta
  | HeartbeatStarted string
  | HeartbeatStopped
  | AddRestoreRSMetaCall string RestoreReplset
  | ChangeRestoreStateCall string Status msg
  | ChangeRestoreRSStateCall string string Status msg
  | MongoRestoreCall "byte list"
  | OplogApplyCall "byte list"
  | SwapUsersCall AuthInfo

text \<open>
  Modelled from the spec: the interface \<^verbatim>\<open>storage.Storage\<close> is declared outside the
  given sources. Of the blob store of section 4.1 the restore uses \<^verbatim>\<open>SourceReader\<close>,
  which gives the content of an object or an error.
\<close>

record Storage =
  SourceReader :: "string \<Rightarrow> error + byte list"

text \<open>
  Modelled from the spec: the type \<^verbatim>\<open>pbm.PBM\<close> of the metadata store \<^verbatim>\<open>r.cn\<close> is
  declared outside the given sources (section 4.4 of the specification). The record
  holds, for the calls a restore makes apart from its polls, the answer of each read
  and for each write whether it fails.
\<close>

record PBM =
  GetStorage :: "error + Storage"
  GetBackupMeta :: "string \<Rightarrow> error + BackupMeta"
  SetRestoreMeta :: "RestoreMeta \<Rightarrow> error option"
  AddRestoreRSMeta :: "string \<Rightarrow> RestoreReplset \<Rightarrow> error option"
  GetShards :: "error + Shard list"
  ChangeRestoreState :: "string \<Rightarrow> Status \<Rightarrow> msg \<Rightarrow> error option"
  ChangeRestoreRSState :: "string \<Rightarrow> string \<Rightarrow> Status \<Rightarrow> msg \<Rightarrow> error option"

section \<open>Cluster status reconciliation (\<^verbatim>\<open>pbm/restore/restore.go\<close>)\<close>

text \<open>
  The body of the two nested loops of \<^verbatim>\<open>converged\<close> for a replica-set entry \<open>shard\<close>
  whose name matched: the liveness check on the shard's lock, then the switch on
  the entry's status. \<open>Inl\<close> is the early \<^verbatim>\<open>return false, err\<close>, \<open>Inr\<close> carries the
  counter \<^verbatim>\<open>shardsToFinish\<close> on.
\<close>

definition check_shard ::
  "View \<Rightarrow> string \<Rightarrow> Status \<Rightarrow> Timestamp \<Rightarrow> RestoreReplset \<Rightarrow> int \<Rightarrow> error + int" where
  "check_shard v nm status clusterTime shard shardsToFinish =
     (let lock = GetLockData v
                   \<lparr>lock_Type = CmdRestore, lock_BackupName = nm, lock_Replset = rs_Name shard\<rparr>;
          alive =
            (if status \<noteq> StatusDone \<and> lock \<noteq> Inl ErrNoDocuments
             then (case lock of
                     Inl err \<Rightarrow>
                       Wrapf (Some err) ''unable to read lock for shard %s'' [AStr (rs_Name shard)]
                   | Inr l \<Rightarrow>
                       if T (Heartbeat l) + StaleFrameSec < T clusterTime
                       then Some (Errorf ''lost shard %s, last beat ts: %d''
                                    [AStr (rs_Name shard), AU32 (T (Heartbeat l))])
                       else None)
             else None)
      in case alive of
           Some err \<Rightarrow> Inl err
         | None \<Rightarrow>
             if rs_Status shard = status then Inr (shardsToFinish - 1)
             else if rs_Status shard = StatusError
             then Inl (Errorf ''restore on the shard %s failed with: %s''
                         [AStr (rs_Name shard), AStr (rs_Error shard)])
             else Inr shardsToFinish)"

text \<open>The inner loop \<^verbatim>\<open>for _, shard := range bmeta.Replsets\<close> for one shard \<open>sh\<close>.\<close>

fun scan_replsets ::
  "View \<Rightarrow> string \<Rightarrow> Status \<Rightarrow> Timestamp \<Rightarrow> Shard \<Rightarrow> RestoreReplset list \<Rightarrow> int
     \<Rightarrow> error + int" where
  "scan_replsets v nm status clusterTime sh [] n = Inr n"
| "scan_replsets v nm status clusterTime sh (shard # rest) n =
     (if rs_Name shard = ID sh
      then (case check_shard v nm status clusterTime shard n of
              Inl err \<Rightarrow> Inl err
            | Inr n' \<Rightarrow> scan_replsets v nm status clusterTime sh rest n')
      else scan_replsets v nm status clusterTime sh rest n)"

text \<open>The outer loop \<^verbatim>\<open>for _, sh := range shards\<close>.\<close>

fun scan_shards ::
  "View \<Rightarrow> string \<Rightarrow> Status \<Rightarrow> Timestamp \<Rightarrow> RestoreReplset list \<Rightarrow> Shard list \<Rightarrow> int
     \<Rightarrow> error + int" where
  "scan_shards v nm status clusterTime replsets [] n = Inr n"
| "scan_shards v nm status clusterTime replsets (sh # shards) n =
     (case scan_replsets v nm status clusterTime sh replsets n of
        Inl err \<Rightarrow> Inl err
      | Inr n' \<Rightarrow> scan_shards v nm status clusterTime replsets shards n')"

text \<open>
  \<^verbatim>\<open>converged\<close>, on the store \<open>pbm\<close> as one poll views it (\<open>v\<close>). The result is the
  pair the function returns and the calls it issued. The assignments to \<^verbatim>\<open>bmeta\<close> in the
  \<^verbatim>\<open>StatusError\<close> case change a local copy only.
\<close>

definition converged ::
  "PBM \<Rightarrow> View \<Rightarrow> string \<Rightarrow> Shard list \<Rightarrow> Status
     \<Rightarrow> (bool \<times> error option) \<times> effect list" where
  "converged pbm v nm shards status =
     (case GetRestoreMeta v nm of
        Inl err \<Rightarrow> ((False, Some (Wrapped err ''get backup metadata'')), [])
      | Inr bmeta \<Rightarrow>
          (case ClusterTime v of
             Inl err \<Rightarrow> ((False, Some (Wrapped err ''read cluster time'')), [])
           | Inr clusterTime \<Rightarrow>
               (case scan_shards v nm status clusterTime (rm_Replsets bmeta) shards
                       (int (length shards)) of
                  Inl err \<Rightarrow> ((False, Some err), [])
                | Inr shardsToFinish \<Rightarrow>
                    if shardsToFinish = 0
                    then (case ChangeRestoreState pbm nm status NoMsg of
                            Some err \<Rightarrow>
                              ((False, Some (Wrappedf err ''update backup meta with %s''
                                               [AStatus status])),
                               [ChangeRestoreStateCall nm status NoMsg])
                          | None \<Rightarrow> ((True, None), [ChangeRestoreStateCall nm status NoMsg]))
                    else ((False, None), []))))"

text \<open>
  What happens while a polling loop waits in its \<^verbatim>\<open>select\<close>: the one-second ticker
  fires (and the store then answers as the view says), the wait has lasted for a
  duration \<open>d\<close> with nothing else to receive (\<open>Elapsed d\<close>, in nanoseconds as
  \<^verbatim>\<open>time.Duration\<close>), or the context is cancelled. A ticker of period \<open>t\<close> created
  when the loop began has a value to receive once \<open>t \<le> d\<close>. A loop whose \<^verbatim>\<open>select\<close>
  has no case for an event does not see it. The loops below consume a list of
  events; \<open>None\<close> says that the loop has not returned when the list is used up.
\<close>

datatype event = Tick View | Elapsed int | Cancelled

fun waitForStatus :: "string \<Rightarrow> Status \<Rightarrow> event list \<Rightarrow> error option option" where
  "waitForStatus nm status [] = None"
| "waitForStatus nm status (Tick v # evs) =
     (case GetRestoreMeta v nm of
        Inl err \<Rightarrow> Some (Some (Wrapped err ''get restore metadata''))
      | Inr meta \<Rightarrow>
          (case ClusterTime v of
             Inl err \<Rightarrow> Some (Some (Wrapped err ''read cluster time''))
           | Inr clusterTime \<Rightarrow>
               if T (rm_Hb meta) + StaleFrameSec < T clusterTime
               then Some (Some (Errorf ''restore stuck, last beat ts: %d'' [AU32 (T (rm_Hb meta))]))
               else if rm_Status meta = status then Some None
               else if rm_Status meta = StatusError
               then Some (Wrap None ''restore failed'')
                 \<comment> \<open>\<^verbatim>\<open>err\<close> is the nil error of \<^verbatim>\<open>ClusterTime\<close> here\<close>
               else waitForStatus nm status evs))"
| "waitForStatus nm status (Elapsed d # evs) = waitForStatus nm status evs"
| "waitForStatus nm status (Cancelled # evs) = Some None"

text \<open>
  \<^verbatim>\<open>convergeCluster\<close>: its \<^verbatim>\<open>select\<close> waits for the ticker and for the context only.
\<close>

fun convergeCluster ::
  "PBM \<Rightarrow> string \<Rightarrow> Shard list \<Rightarrow> Status \<Rightarrow> event list
     \<Rightarrow> (error option \<times> effect list) option" where
  "convergeCluster pbm nm shards status [] = None"
| "convergeCluster pbm nm shards status (Tick v # evs) =
     (case converged pbm v nm shards status of
        ((ok, Some err), effs) \<Rightarrow> Some (Some err, effs)
      | ((True, None), effs) \<Rightarrow> Some (None, effs)
      | ((False, None), effs) \<Rightarrow>
          map_option (\<lambda>(r, effs'). (r, effs @ effs')) (convergeCluster pbm nm shards status evs))"
| "convergeCluster pbm nm shards status (Elapsed d # evs) =
     convergeCluster pbm nm shards status evs"
| "convergeCluster pbm nm shards status (Cancelled # evs) = Some (None, [])"

text \<open>
  \<^verbatim>\<open>convergeClusterWithTimeout\<close>: the same loop with a third case, the ticker \<^verbatim>\<open>tout\<close>
  of period \<open>t\<close> (positive at the one call, where it is \<^verbatim>\<open>WaitActionStart\<close>).
\<close>

fun convergeClusterWithTimeout ::
  "PBM \<Rightarrow> string \<Rightarrow> Shard list \<Rightarrow> Status \<Rightarrow> int
     \<Rightarrow> event list \<Rightarrow> (error option \<times> effect list) option" where
  "convergeClusterWithTimeout pbm nm shards status t [] = None"
| "convergeClusterWithTimeout pbm nm shards status t (Tick v # evs) =
     (case converged pbm v nm shards status of
        ((ok, Some err), effs) \<Rightarrow> Some (Some err, effs)
      | ((True, None), effs) \<Rightarrow> Some (None, effs)
      | ((False, None), effs) \<Rightarrow>
          map_option (\<lambda>(r, effs'). (r, effs @ effs'))
            (convergeClusterWithTimeout pbm nm shards status t evs))"
| "convergeClusterWithTimeout pbm nm shards status t (Elapsed d # evs) =
     (if t \<le> d then Some (Some ErrConvergeTimeOut, [])
      else convergeClusterWithTimeout pbm nm shards status t evs)"
| "convergeClusterWithTimeout pbm nm shards status t (Cancelled # evs) = Some (None, [])"

text \<open>\<^verbatim>\<open>strings.Join\<close>.\<close>

fun Join :: "string list \<Rightarrow> string \<Rightarrow> string" where
  "Join [] sep = []"
| "Join [x] sep = x"
| "Join (x # y # xs) sep = x @ sep @ Join (y # xs) sep"

text \<open>
  \<^verbatim>\<open>reconcileStatus\<close>, in two parts: the shards it enumerates (the node's own replica
  set, and every shard of the cluster when the replica set is part of one), and the
  choice of the loop; the timeout is \<open>None\<close> for the nil pointer.
\<close>

definition participants :: "PBM \<Rightarrow> IsMaster \<Rightarrow> error + Shard list" where
  "participants pbm im =
     (let shards = [\<lparr>ID = SetName im, Host = SetName im @ ''/'' @ Join (Hosts im) '',''\<rparr>] in
      if IsSharded im
      then (case GetShards pbm of
              Inl err \<Rightarrow> Inl (Wrapped err ''get shards list'')
            | Inr s \<Rightarrow> Inr (shards @ s))
      else Inr shards)"

definition reconcileStatus ::
  "PBM \<Rightarrow> string \<Rightarrow> Status \<Rightarrow> IsMaster \<Rightarrow> int option \<Rightarrow> event list
     \<Rightarrow> (error option \<times> effect list) option" where
  "reconcileStatus pbm nm status im timeout evs =
     (case participants pbm im of
        Inl err \<Rightarrow> Some (Some err, [])
      | Inr shards \<Rightarrow>
          (case timeout of
             Some t \<Rightarrow>
               map_option (\<lambda>(r, effs). (Wrap r ''convergeClusterWithTimeout'', effs))
                 (convergeClusterWithTimeout pbm nm shards status t evs)
           | None \<Rightarrow>
               map_option (\<lambda>(r, effs). (Wrap r ''convergeCluster'', effs))
                 (convergeCluster pbm nm shards status evs)))"

text \<open>
  Notions for stating what the loops do. An event is a timer event when it is
  \<open>Elapsed d\<close>. An event leaves a convergence loop without timeout pending when it
  is a tick at which \<^verbatim>\<open>converged\<close> returns \<^verbatim>\<open>false, nil\<close>, or a timer event; a
  cancellation does not. An event leaves a convergence loop of timeout \<open>t\<close> pending
  when it is such a tick, or a timer event of a duration below \<open>t\<close>.
\<close>

fun elapsed :: "event \<Rightarrow> bool" where
  "elapsed (Elapsed d) = True"
| "elapsed e = False"

fun pending :: "PBM \<Rightarrow> string \<Rightarrow> Shard list \<Rightarrow> Status \<Rightarrow> event \<Rightarrow> bool" where
  "pending pbm nm shards status (Tick v) =
     (fst (converged pbm v nm shards status) = (False, None))"
| "pending pbm nm shards status (Elapsed d) = True"
| "pending pbm nm shards status Cancelled = False"

fun pending_before ::
  "int \<Rightarrow> PBM \<Rightarrow> string \<Rightarrow> Shard list \<Rightarrow> Status \<Rightarrow> event \<Rightarrow> bool" where
  "pending_before t pbm nm shards status (Tick v) =
     (fst (converged pbm v nm shards status) = (False, None))"
| "pending_before t pbm nm shards status (Elapsed d) = (d < t)"
| "pending_before t pbm nm shards status Cancelled = False"

section \<open>The user and role splice (\<^verbatim>\<open>swapUsers\<close>)\<close>

text \<open>
  Modelled from the spec: the constant \<^verbatim>\<open>pbm.DB\<close> is declared outside the given
  sources. The specification calls the tool's database \<^verbatim>\<open>PBM-DB\<close>.
\<close>

definition DB :: string where
  "DB = ''PBM-DB''"

definition tmpUsers :: string where
  "tmpUsers = ''pbmRUsers''"

definition tmpRoles :: string where
  "tmpRoles = ''pbmRRoles''"

text \<open>
  The filters \<^verbatim>\<open>{"_id": {"$nin": ids}}\<close> and \<^verbatim>\<open>{"_id": {"$ne": id}}\<close>.
\<close>

fun matches :: "query \<Rightarrow> Doc \<Rightarrow> bool" where
  "matches (Nin ids) d = (doc_id d \<notin> set ids)"
| "matches (Ne i) d = (doc_id d \<noteq> i)"

definition documents :: "Session \<Rightarrow> namespace \<Rightarrow> Doc list" where
  "documents s ns = (case colls s ns of None \<Rightarrow> [] | Some ds \<Rightarrow> ds)"

text \<open>\<^verbatim>\<open>Collection.Find\<close>: the documents the cursor will yield.\<close>

definition Find :: "Session \<Rightarrow> namespace \<Rightarrow> query \<Rightarrow> error + Doc list" where
  "Find s ns q =
     (case fails s (FindCall ns q) of
        Some err \<Rightarrow> Inl err
      | None \<Rightarrow> Inr (filter (matches q) (documents s ns)))"

definition DeleteMany :: "Session \<Rightarrow> namespace \<Rightarrow> query \<Rightarrow> error + Session" where
  "DeleteMany s ns q =
     (case fails s (DeleteManyCall ns q) of
        Some err \<Rightarrow> Inl err
      | None \<Rightarrow>
          Inr (s\<lparr>colls := (colls s)(ns := map_option (filter (\<lambda>d. \<not> matches q d)) (colls s ns))\<rparr>))"

text \<open>
  \<^verbatim>\<open>Collection.InsertOne\<close>: the unique index on \<^verbatim>\<open>_id\<close> refuses a second document of
  the same \<^verbatim>\<open>_id\<close>; an insert into a collection that does not exist creates it.
\<close>

definition InsertOne :: "Session \<Rightarrow> namespace \<Rightarrow> Doc \<Rightarrow> error + Session" where
  "InsertOne s ns d =
     (case fails s (InsertOneCall ns d) of
        Some err \<Rightarrow> Inl err
      | None \<Rightarrow>
          if doc_id d \<in> doc_id ` set (documents s ns)
          then Inl (New ''E11000 duplicate key error'')
          else Inr (s\<lparr>colls := (colls s)(ns \<mapsto> documents s ns @ [d])\<rparr>))"

definition Drop :: "Session \<Rightarrow> namespace \<Rightarrow> error + Session" where
  "Drop s ns =
     (case fails s (DropCall ns) of
        Some err \<Rightarrow> Inl err
      | None \<Rightarrow> Inr (s\<lparr>colls := (colls s)(ns := None)\<rparr>))"

text \<open>
  The two loops \<^verbatim>\<open>for curr.Next(ctx) { Decode; InsertOne }\<close>: the arguments are the
  target collection, the messages that wrap a failed decode and a failed insert, and
  the cursor's documents. The session comes back also when the loop fails: what it
  inserted stays.
\<close>

fun insert_loop ::
  "namespace \<Rightarrow> string \<Rightarrow> string \<Rightarrow> Doc list \<Rightarrow> Session \<Rightarrow> error option \<times> Session" where
  "insert_loop ns dmsg imsg [] s = (None, s)"
| "insert_loop ns dmsg imsg (d # ds) s =
     (case fails s (DecodeCall d) of
        Some err \<Rightarrow> (Some (Wrapped err dmsg), s)
      | None \<Rightarrow>
          (case InsertOne s ns d of
             Inl err \<Rightarrow> (Some (Wrapped err imsg), s)
           | Inr s' \<Rightarrow> insert_loop ns dmsg imsg ds s'))"

definition swapUsers :: "Session \<Rightarrow> AuthInfo \<Rightarrow> error option \<times> Session" where
  "swapUsers s exclude =
     (let rolesC = (''admin'', ''system.roles'');
          eroles = map (\<lambda>r. role_DB r @ ''.'' @ role_Role r) (UserRoles exclude)
      in
      case Find s (DB, tmpRoles) (Nin eroles) of
        Inl err \<Rightarrow> (Some (Wrapped err ''create cursor for tmpRoles''), s)
      | Inr rcur \<Rightarrow>
      case DeleteMany s rolesC (Nin eroles) of
        Inl err \<Rightarrow> (Some (Wrapped err ''delete current roles''), s)
      | Inr s1 \<Rightarrow>
      case insert_loop rolesC ''decode role'' ''insert role'' rcur s1 of
        (Some err, s2) \<Rightarrow> (Some err, s2)
      | (None, s2) \<Rightarrow>
      let user = (case Users exclude of
                    [] \<Rightarrow> []
                  | u # us \<Rightarrow> user_DB u @ ''.'' @ user_User u)
      in
      case Find s2 (DB, tmpUsers) (Ne user) of
        Inl err \<Rightarrow> (Some (Wrapped err ''create cursor for tmpUsers''), s2)
      | Inr ucur \<Rightarrow>
      let usersC = (''admin'', ''system.users'') in
      case DeleteMany s2 usersC (Ne user) of
        Inl err \<Rightarrow> (Some (Wrapped err ''delete current users''), s2)
      | Inr s3 \<Rightarrow>
      case insert_loop usersC ''decode user'' ''insert user'' ucur s3 of
        (Some err, s4) \<Rightarrow> (Some err, s4)
      | (None, s4) \<Rightarrow>
      case Drop s4 (DB, tmpRoles) of
        Inl err \<Rightarrow> (Wrapf (Some err) ''drop tmp roles collection %s'' [AStr tmpRoles], s4)
      | Inr s5 \<Rightarrow>
      case Drop s5 (DB, tmpUsers) of
        Inl err \<Rightarrow> (Wrapf (Some err) ''drop tmp users collection %s'' [AStr tmpUsers], s5)
      | Inr s6 \<Rightarrow> (None, s6))"

text \<open>\<^verbatim>\<open>restoreUsers\<close> runs the splice in the store's context.\<close>

definition restoreUsers :: "Session \<Rightarrow> AuthInfo \<Rightarrow> error option \<times> Session" where
  "restoreUsers s exclude = swapUsers s exclude"

text \<open>
  The two values the splice computes from the current session's \<^verbatim>\<open>AuthInfo\<close>: the
  identifiers of its roles, and the identifier of its first user (the empty string
  when it lists no user).
\<close>

definition erolesOf :: "AuthInfo \<Rightarrow> string list" where
  "erolesOf exclude = map (\<lambda>r. role_DB r @ ''.'' @ role_Role r) (UserRoles exclude)"

definition userOf :: "AuthInfo \<Rightarrow> string" where
  "userOf exclude =
     (case Users exclude of [] \<Rightarrow> [] | u # us \<Rightarrow> user_DB u @ ''.'' @ user_User u)"

section \<open>The restore (\<^verbatim>\<open>Restore.Run\<close>)\<close>

text \<open>
  The collaborators of \<^verbatim>\<open>Run\<close> outside the store and the node, each by what it answers:
  the clock at the two calls of \<^verbatim>\<open>time.Now\<close>, the JSON decoder of the metadata file,
  \<^verbatim>\<open>Decompress\<close> (of this package, outside the given sources) by content and compression,
  the session provider of the restore tool by connection string, \<^verbatim>\<open>mongorestore\<close> by
  the archive it reads, and the oplog replay \<^verbatim>\<open>NewOplog(...).Apply\<close> by the oplog it
  reads.
\<close>

record RestoreResult =
  res_Err :: "error option"
  Successes :: int
  Failures :: int

record Env =
  now_meta :: int
  now_rs :: int
  jsonDecode :: "byte list \<Rightarrow> error + BackupMeta"
  Decompress :: "byte list \<Rightarrow> string \<Rightarrow> error + byte list"
  NewSessionProvider :: "string \<Rightarrow> error option"
  mongorestore :: "byte list \<Rightarrow> RestoreResult"
  oplogApply :: "byte list \<Rightarrow> error option"

text \<open>The events of the six polling loops of one run, in the order the loops run.\<close>

record Schedule =
  wait_Starting :: "event list"
  conv_Running :: "event list"
  wait_Running :: "event list"
  conv_DumpDone :: "event list"
  wait_DumpDone :: "event list"
  conv_Done :: "event list"

text \<open>
  Control flow of a Go function body. A statement passes a value on (\<open>Next\<close>), returns
  from the function (\<open>Return\<close>, with the error returned) or waits for an event that
  does not come (\<open>Blocked\<close>); it appends the calls it issues to the log.
\<close>

datatype 'a step = Next 'a | Return "error option" | Blocked

type_synonym 'a action = "effect list \<Rightarrow> 'a step \<times> effect list"

definition andThen :: "'a action \<Rightarrow> ('a \<Rightarrow> 'b action) \<Rightarrow> 'b action" where
  "andThen m f =
     (\<lambda>log. case m log of
               (Next x, log') \<Rightarrow> f x log'
             | (Return r, log') \<Rightarrow> (Return r, log')
             | (Blocked, log') \<Rightarrow> (Blocked, log'))"

definition pass :: "'a \<Rightarrow> 'a action" where
  "pass x = (\<lambda>log. (Next x, log))"

definition ret :: "error option \<Rightarrow> 'a action" where
  "ret r = (\<lambda>log. (Return r, log))"

text \<open>A call that changes the cluster: logged, and its answer passed on.\<close>

definition call :: "effect \<Rightarrow> 'a \<Rightarrow> 'a action" where
  "call e x = (\<lambda>log. (Next x, log @ [e]))"

text \<open>\<^verbatim>\<open>x, err := f(); if err != nil { return wrap(err) }\<close>.\<close>

definition orReturn :: "error + 'a \<Rightarrow> (error \<Rightarrow> error) \<Rightarrow> 'a action" where
  "orReturn res wrap = (case res of Inl err \<Rightarrow> ret (Some (wrap err)) | Inr x \<Rightarrow> pass x)"

text \<open>\<^verbatim>\<open>if err != nil { return wrap(err) }\<close>.\<close>

definition check :: "error option \<Rightarrow> (error \<Rightarrow> error) \<Rightarrow> unit action" where
  "check err wrap = (case err of Some e \<Rightarrow> ret (Some (wrap e)) | None \<Rightarrow> pass ())"

text \<open>A polling loop: blocked while it has not returned, else its error and its calls.\<close>

definition await :: "(error option \<times> effect list) option \<Rightarrow> error option action" where
  "await res =
     (\<lambda>log. case res of None \<Rightarrow> (Blocked, log) | Some (err, effs) \<Rightarrow> (Next err, log @ effs))"

text \<open>
  \<^verbatim>\<open>defer\<close>: when the rest of the function returns, the deferred function runs with the
  error being returned, and its calls are logged.
\<close>

definition deferred :: "(error option \<Rightarrow> effect list) \<Rightarrow> 'a action \<Rightarrow> 'a action" where
  "deferred d m =
     (\<lambda>log. case m log of
               (Return r, log') \<Rightarrow> (Return r, log' @ d r)
             | (Next x, log') \<Rightarrow> (Next x, log')
             | (Blocked, log') \<Rightarrow> (Blocked, log'))"

definition MarkFailed :: "PBM \<Rightarrow> string \<Rightarrow> string \<Rightarrow> msg \<Rightarrow> error option \<times> effect list" where
  "MarkFailed pbm nm rsName m =
     (case ChangeRestoreState pbm nm StatusError m of
        Some err \<Rightarrow>
          (Some (Wrapped err ''set backup state''), [ChangeRestoreStateCall nm StatusError m])
      | None \<Rightarrow>
          (Wrap (ChangeRestoreRSState pbm nm rsName StatusError m) ''set replset state'',
           [ChangeRestoreStateCall nm StatusError m,
            ChangeRestoreRSStateCall nm rsName StatusError m]))"

definition getMetaFromStore ::
  "(byte list \<Rightarrow> error + BackupMeta) \<Rightarrow> string \<Rightarrow> Storage \<Rightarrow> error + BackupMeta" where
  "getMetaFromStore decode bcpName stg =
     (case SourceReader stg (bcpName @ MetadataFileSuffix) of
        Inl err \<Rightarrow> Inl (Wrapped err ''get from store'')
      | Inr r \<Rightarrow>
          (case decode r of
             Inl err \<Rightarrow> Inl (Wrapped err ''decode'')
           | Inr b \<Rightarrow> Inr b))"

text \<open>
  The loop of \<^verbatim>\<open>Run\<close> over \<^verbatim>\<open>bcp.Replsets\<close>: the last entry of the name wins; the
  accumulator is the pair \<^verbatim>\<open>rsBackup, ok\<close>.
\<close>

fun find_replset ::
  "string \<Rightarrow> BackupReplset list \<Rightarrow> BackupReplset option \<Rightarrow> BackupReplset option" where
  "find_replset rsName [] acc = acc"
| "find_replset rsName (v # vs) acc =
     find_replset rsName vs (if brs_Name v = rsName then Some v else acc)"

text \<open>A call of \<^verbatim>\<open>waitForStatus\<close> issues no call of its own.\<close>

definition polled :: "error option option \<Rightarrow> (error option \<times> effect list) option" where
  "polled res = map_option (\<lambda>err. (err, [])) res"

text \<open>
  \<^verbatim>\<open>Run\<close> is given in four parts, in the order of the source. \<open>Run_oplog\<close> is its end,
  from the oplog replay on.
\<close>

definition Run_oplog ::
  "PBM \<Rightarrow> Node \<Rightarrow> Env \<Rightarrow> Schedule \<Rightarrow> RestoreCmd \<Rightarrow> Storage \<Rightarrow> BackupMeta \<Rightarrow> IsMaster
     \<Rightarrow> BackupReplset \<Rightarrow> RestoreReplset \<Rightarrow> unit action" where
  "Run_oplog pbm nd env sch cmd stg bcp im rsBackup rsMeta =
     andThen (orReturn (SourceReader stg (OplogName rsBackup))
               (\<lambda>e. Wrappedf e ''get object %s for the storage'' [AStr (DumpName rsBackup)]))
       (\<lambda>or.
     andThen (orReturn (Decompress env or (bm_Compression bcp))
               (\<lambda>e. Wrappedf e ''decompress object %s'' [AStr (DumpName rsBackup)]))
       (\<lambda>oplogReader.
     andThen (call (OplogApplyCall oplogReader) (oplogApply env oplogReader))
       (\<lambda>err.
     andThen (check err (\<lambda>e. Wrapped e ''oplog apply''))
       (\<lambda>_.
     andThen (orReturn (CurrentUser nd) (\<lambda>e. Wrapped e ''get current user''))
       (\<lambda>cusr.
     andThen (call (SwapUsersCall cusr) (fst (restoreUsers (session (cn nd)) cusr)))
       (\<lambda>err.
     andThen (check err (\<lambda>e. Wrapped e ''restore users 'n' roles''))
       (\<lambda>_.
     andThen (call (ChangeRestoreRSStateCall (cmd_Name cmd) (rs_Name rsMeta) StatusDone NoMsg)
               (ChangeRestoreRSState pbm (cmd_Name cmd) (rs_Name rsMeta) StatusDone NoMsg))
       (\<lambda>err.
     andThen (check err (\<lambda>e. Wrapped e ''set shard's StatusDone''))
       (\<lambda>_.
     andThen (if IsLeader im
              then andThen (await (reconcileStatus pbm (cmd_Name cmd) StatusDone im None
                                     (conv_Done sch)))
                     (\<lambda>err. check err (\<lambda>e. Wrapped e ''check cluster for the restore done''))
              else pass ())
       (\<lambda>_. ret None))))))))))"

text \<open>
  \<open>Run_dump\<close>: from the shard's own metadata to the cluster-wide \<^verbatim>\<open>StatusDumpDone\<close>.
\<close>

definition Run_dump ::
  "PBM \<Rightarrow> Node \<Rightarrow> Env \<Rightarrow> Schedule \<Rightarrow> RestoreCmd \<Rightarrow> Storage \<Rightarrow> BackupMeta \<Rightarrow> IsMaster
     \<Rightarrow> BackupReplset \<Rightarrow> RestoreReplset \<Rightarrow> unit action" where
  "Run_dump pbm nd env sch cmd stg bcp im rsBackup rsMeta =
     andThen (call (AddRestoreRSMetaCall (cmd_Name cmd) rsMeta)
               (AddRestoreRSMeta pbm (cmd_Name cmd) rsMeta))
       (\<lambda>err.
     andThen (check err (\<lambda>e. Wrapped e ''add shard's metadata''))
       (\<lambda>_.
     andThen (if IsLeader im
              then andThen (await (reconcileStatus pbm (cmd_Name cmd) StatusRunning im
                                     (Some WaitActionStart) (conv_Running sch)))
                     (\<lambda>err. check err
                        (\<lambda>e. if Cause e = ErrConvergeTimeOut
                              then Wrapped e ''couldn't get response from all shards''
                              else Wrapped e ''check cluster for restore started''))
              else pass ())
       (\<lambda>_.
     andThen (await (polled (waitForStatus (cmd_Name cmd) StatusRunning (wait_Running sch))))
       (\<lambda>err.
     andThen (check err (\<lambda>e. Wrapped e ''waiting for start''))
       (\<lambda>_.
     andThen (orReturn (SourceReader stg (DumpName rsBackup))
               (\<lambda>e. Wrappedf e ''get object %s for the storage'' [AStr (DumpName rsBackup)]))
       (\<lambda>sr.
     andThen (orReturn (Decompress env sr (bm_Compression bcp))
               (\<lambda>e. Wrappedf e ''decompress object %s'' [AStr (DumpName rsBackup)]))
       (\<lambda>dumpReader.
     andThen (case GetMongoVersion nd of
                Inl err \<Rightarrow> ret (Wrap (Some err) ''define mongo version'')
              | Inr ver \<Rightarrow>
                  if length (Version ver) < 1 then ret (Wrap None ''define mongo version'')
                  else pass ver)
       (\<lambda>ver.
     andThen (check (NewSessionProvider env (ConnURI nd))
               (\<lambda>e. Wrapped e ''create session for the dump restore''))
       (\<lambda>_.
     andThen (call (MongoRestoreCall dumpReader) (mongorestore env dumpReader))
       (\<lambda>rdumpResult.
     andThen (check (res_Err rdumpResult)
               (\<lambda>e. Wrappedf e ''restore mongo dump (successes: %d / fails: %d)''
                      [AInt (Successes rdumpResult), AInt (Failures rdumpResult)]))
       (\<lambda>_.
     andThen (call (ChangeRestoreRSStateCall (cmd_Name cmd) (rs_Name rsMeta) StatusDumpDone NoMsg)
               (ChangeRestoreRSState pbm (cmd_Name cmd) (rs_Name rsMeta) StatusDumpDone NoMsg))
       (\<lambda>err.
     andThen (check err (\<lambda>e. Wrapped e ''set shard's StatusDumpDone''))
       (\<lambda>_.
     andThen (if IsLeader im
              then andThen (await (reconcileStatus pbm (cmd_Name cmd) StatusDumpDone im None
                                     (conv_DumpDone sch)))
                     (\<lambda>err. check err (\<lambda>e. Wrapped e ''check cluster for restore dump done''))
              else pass ())
       (\<lambda>_.
     andThen (await (polled (waitForStatus (cmd_Name cmd) StatusDumpDone (wait_DumpDone sch))))
       (\<lambda>err.
     andThen (check err (\<lambda>e. Wrapped e ''waiting for start''))
       (\<lambda>_. Run_oplog pbm nd env sch cmd stg bcp im rsBackup rsMeta))))))))))))))))"

text \<open>
  \<open>Run_started\<close>: the wait for \<^verbatim>\<open>StatusStarting\<close>, then the rest of the function under
  the deferred function that marks the restore as failed when an error is returned.
\<close>

definition Run_started ::
  "PBM \<Rightarrow> Node \<Rightarrow> Env \<Rightarrow> Schedule \<Rightarrow> RestoreCmd \<Rightarrow> Storage \<Rightarrow> BackupMeta \<Rightarrow> IsMaster
     \<Rightarrow> BackupReplset \<Rightarrow> string \<Rightarrow> unit action" where
  "Run_started pbm nd env sch cmd stg bcp im rsBackup rsName =
     andThen (await (polled (waitForStatus (cmd_Name cmd) StatusStarting (wait_Starting sch))))
       (\<lambda>err.
     andThen (check err (\<lambda>e. Wrapped e ''waiting for start''))
       (\<lambda>_.
     let rsMeta = \<lparr>rs_Name = rsName, rs_StartTS = now_rs env, rs_Status = StatusRunning,
                   rs_Error = [], rs_Conditions = []\<rparr>
     in deferred
          (\<lambda>err. case err of
                    None \<Rightarrow> []
                  | Some e \<Rightarrow> snd (MarkFailed pbm (cmd_Name cmd) (rs_Name rsMeta) (ErrorText e)))
          (Run_dump pbm nd env sch cmd stg bcp im rsBackup rsMeta)))"

text \<open>
  \<^verbatim>\<open>Run\<close>, from an empty log. The heartbeat of the leader is a goroutine that calls
  \<^verbatim>\<open>RestoreHB\<close> every five seconds until \<^verbatim>\<open>Run\<close> returns: the log keeps its start and
  its stop.
\<close>

definition Run ::
  "PBM \<Rightarrow> Node \<Rightarrow> Env \<Rightarrow> Schedule \<Rightarrow> RestoreCmd \<Rightarrow> unit step \<times> effect list" where
  "Run pbm nd env sch cmd =
    (andThen (orReturn (GetStorage pbm) (\<lambda>e. Wrapped e ''get backup storage''))
       (\<lambda>stg.
     andThen (orReturn
               (case GetBackupMeta pbm (cmd_BackupName cmd) of
                  Inl err \<Rightarrow>
                    if Cause err = ErrNoDocuments
                    then getMetaFromStore (jsonDecode env) (cmd_BackupName cmd) stg
                    else Inl err
                | Inr bcp \<Rightarrow> Inr bcp)
               (\<lambda>e. Wrapped e ''get backup metadata''))
       (\<lambda>bcp.
     if bm_Status bcp \<noteq> StatusDone
     then ret (Some (Errorf ''backup wasn't successful: status: %s, error: %s''
                       [AStatus (bm_Status bcp), AStr (bm_Error bcp)]))
     else
     andThen (orReturn (GetIsMaster nd) (\<lambda>e. Wrapped e ''get isMaster data''))
       (\<lambda>im.
     let rsName = (if SetName im = [] then NoReplset else SetName im) in
     case find_replset rsName (bm_Replsets bcp) None of
       None \<Rightarrow>
         ret (Some (Errorf ''metadata for replset/shard %s is not found'' [AStr rsName]))
     | Some rsBackup \<Rightarrow>
         let meta = \<lparr>rm_Name = cmd_Name cmd, rm_Backup = cmd_BackupName cmd,
                      rm_StartTS = now_meta env, rm_Status = StatusStarting, rm_Error = [],
                      rm_Replsets = [], rm_Hb = \<lparr>T = 0, I = 0\<rparr>\<rparr>
         in
         if IsLeader im
         then
           andThen (call (SetRestoreMetaCall meta) (SetRestoreMeta pbm meta))
             (\<lambda>err.
           andThen (check err (\<lambda>e. Wrapped e ''write backup meta to db''))
             (\<lambda>_.
           andThen (call (HeartbeatStarted (cmd_Name cmd)) ())
             (\<lambda>_.
           deferred (\<lambda>err. [HeartbeatStopped])
             (Run_started pbm nd env sch cmd stg bcp im rsBackup rsName))))
         else Run_started pbm nd env sch cmd stg bcp im rsBackup rsName)))) []"

text \<open>
  A schedule without the timer events of the two later convergence loops.
\<close>

definition untimed :: "Schedule \<Rightarrow> Schedule" where
  "untimed sch =
     sch\<lparr>conv_DumpDone := filter (\<lambda>e. \<not> elapsed e) (conv_DumpDone sch),
         conv_Done := filter (\<lambda>e. \<not> elapsed e) (conv_Done sch)\<rparr>"

text \<open>
  For stating what a run does at each of its three convergence loops: the values
  \<^verbatim>\<open>Run\<close> builds on its way (the name of the node's replica set, the restore's
  metadata and the replica set's), and what a run of the leader has met when it
  enters each loop. Every call before the loop has answered without an error and
  every wait before it has returned without one; \<open>stg\<close>, \<open>bcp\<close>, \<open>im\<close> and
  \<open>rsBackup\<close> are the storage, the backup's metadata, the node's \<^verbatim>\<open>isMaster\<close> answer
  and the backup's entry for the node's replica set, as \<^verbatim>\<open>Run\<close> has read them.
\<close>

definition rsName_of :: "IsMaster \<Rightarrow> string" where
  "rsName_of im = (if SetName im = [] then NoReplset else SetName im)"

definition meta_of :: "Env \<Rightarrow> RestoreCmd \<Rightarrow> RestoreMeta" where
  "meta_of env cmd =
     \<lparr>rm_Name = cmd_Name cmd, rm_Backup = cmd_BackupName cmd, rm_StartTS = now_meta env,
      rm_Status = StatusStarting, rm_Error = [], rm_Replsets = [], rm_Hb = \<lparr>T = 0, I = 0\<rparr>\<rparr>"

definition rsMeta_of :: "Env \<Rightarrow> IsMaster \<Rightarrow> RestoreReplset" where
  "rsMeta_of env im =
     \<lparr>rs_Name = rsName_of im, rs_StartTS = now_rs env, rs_Status = StatusRunning,
      rs_Error = [], rs_Conditions = []\<rparr>"

definition reaches_Running ::
  "PBM \<Rightarrow> Node \<Rightarrow> Env \<Rightarrow> Schedule \<Rightarrow> RestoreCmd \<Rightarrow> Storage \<Rightarrow> BackupMeta \<Rightarrow> IsMaster
     \<Rightarrow> BackupReplset \<Rightarrow> bool" where
  "reaches_Running pbm nd env sch cmd stg bcp im rsBackup =
     (GetStorage pbm = Inr stg
      \<and> (case GetBackupMeta pbm (cmd_BackupName cmd) of
            Inl err \<Rightarrow>
              if Cause err = ErrNoDocuments
              then getMetaFromStore (jsonDecode env) (cmd_BackupName cmd) stg
              else Inl err
          | Inr b \<Rightarrow> Inr b) = Inr bcp
      \<and> bm_Status bcp = StatusDone
      \<and> GetIsMaster nd = Inr im
      \<and> find_replset (rsName_of im) (bm_Replsets bcp) None = Some rsBackup
      \<and> IsLeader im
      \<and> SetRestoreMeta pbm (meta_of env cmd) = None
      \<and> waitForStatus (cmd_Name cmd) StatusStarting (wait_Starting sch) = Some None
      \<and> AddRestoreRSMeta pbm (cmd_Name cmd) (rsMeta_of env im) = None)"

definition reaches_DumpDone ::
  "PBM \<Rightarrow> Node \<Rightarrow> Env \<Rightarrow> Schedule \<Rightarrow> RestoreCmd \<Rightarrow> Storage \<Rightarrow> BackupMeta \<Rightarrow> IsMaster
     \<Rightarrow> BackupReplset \<Rightarrow> bool" where
  "reaches_DumpDone pbm nd env sch cmd stg bcp im rsBackup =
     (reaches_Running pbm nd env sch cmd stg bcp im rsBackup
      \<and> map_option fst (reconcileStatus pbm (cmd_Name cmd) StatusRunning im (Some WaitActionStart)
                          (conv_Running sch)) = Some None
      \<and> waitForStatus (cmd_Name cmd) StatusRunning (wait_Running sch) = Some None
      \<and> (case SourceReader stg (DumpName rsBackup) of
            Inl err \<Rightarrow> False
          | Inr sr \<Rightarrow>
              (case Decompress env sr (bm_Compression bcp) of
                 Inl err \<Rightarrow> False
               | Inr dumpReader \<Rightarrow> res_Err (mongorestore env dumpReader) = None))
      \<and> (case GetMongoVersion nd of Inl err \<Rightarrow> False | Inr ver \<Rightarrow> \<not> length (Version ver) < 1)
      \<and> NewSessionProvider env (ConnURI nd) = None
      \<and> ChangeRestoreRSState pbm (cmd_Name cmd) (rsName_of im) StatusDumpDone NoMsg = None)"

definition reaches_Done ::
  "PBM \<Rightarrow> Node \<Rightarrow> Env \<Rightarrow> Schedule \<Rightarrow> RestoreCmd \<Rightarrow> Storage \<Rightarrow> BackupMeta \<Rightarrow> IsMaster
     \<Rightarrow> BackupReplset \<Rightarrow> bool" where
  "reaches_Done pbm nd env sch cmd stg bcp im rsBackup =
     (reaches_DumpDone pbm nd env sch cmd stg bcp im rsBackup
      \<and> map_option fst (reconcileStatus pbm (cmd_Name cmd) StatusDumpDone im None
                          (conv_DumpDone sch)) = Some None
      \<and> waitForStatus (cmd_Name cmd) StatusDumpDone (wait_DumpDone sch) = Some None
      \<and> (case SourceReader stg (OplogName rsBackup) of
            Inl err \<Rightarrow> False
          | Inr oplog \<Rightarrow>
              (case Decompress env oplog (bm_Compression bcp) of
                 Inl err \<Rightarrow> False
               | Inr oplogReader \<Rightarrow> oplogApply env oplogReader = None))
      \<and> (case CurrentUser nd of
            Inl err \<Rightarrow> False
          | Inr cusr \<Rightarrow> fst (restoreUsers (session (cn nd)) cusr) = None)
      \<and> ChangeRestoreRSState pbm (cmd_Name cmd) (rsName_of im) StatusDone NoMsg = None)"

section \<open>Concrete runs\<close>

text \<open>
  A replica-set member \<open>node0\<close> whose oplog cursor yields five records: an insert, a
  noop and an update within the span, a noop beyond its end, and one more record
  after that. \<open>node1\<close> is the same member with a cursor that ends after the third
  record, without a driver error.
\<close>

definition im0 :: IsMaster where
  "im0 = \<lparr>SetName = ''rs0'', Hosts = [''h1:27017''], IsMasterFlag = True, Me = ''h1:27017'',
          IsSharded = False, IsLeader = True\<rparr>"

definition oplog_docs0 :: "OplogDoc list" where
  "oplog_docs0 =
     [\<lparr>ts = Some \<lparr>T = 10, I = 1\<rparr>, op = StringValue ''i'', raw = [1, 2]\<rparr>,
      \<lparr>ts = Some \<lparr>T = 15, I = 1\<rparr>, op = StringValue ''n'', raw = [3]\<rparr>,
      \<lparr>ts = Some \<lparr>T = 20, I = 0\<rparr>, op = StringValue ''u'', raw = [4, 5, 6]\<rparr>,
      \<lparr>ts = Some \<lparr>T = 20, I = 1\<rparr>, op = StringValue ''n'', raw = [7]\<rparr>,
      \<lparr>ts = Some \<lparr>T = 12, I = 0\<rparr>, op = StringValue ''i'', raw = [8]\<rparr>]"

definition session0 :: Session where
  "session0 =
     \<lparr>colls = (\<lambda>ns.
         if ns = (''admin'', ''system.roles'')
         then Some [\<lparr>doc_id = ''admin.pbmRole'', body = [1]\<rparr>, \<lparr>doc_id = ''app.old'', body = [2]\<rparr>]
         else if ns = (''admin'', ''system.users'')
         then Some [\<lparr>doc_id = ''admin.pbm'', body = [3]\<rparr>, \<lparr>doc_id = ''app.bob'', body = [4]\<rparr>]
         else if ns = (DB, tmpRoles)
         then Some [\<lparr>doc_id = ''admin.pbmRole'', body = [5]\<rparr>, \<lparr>doc_id = ''app.reader'', body = [6]\<rparr>]
         else if ns = (DB, tmpUsers)
         then Some [\<lparr>doc_id = ''admin.pbm'', body = [7]\<rparr>, \<lparr>doc_id = ''app.alice'', body = [8]\<rparr>]
         else None),
       fails = (\<lambda>c. None)\<rparr>"

definition auth0 :: AuthInfo where
  "auth0 = \<lparr>Users = [\<lparr>user_DB = ''admin'', user_User = ''pbm''\<rparr>],
            UserRoles = [\<lparr>role_DB = ''admin'', role_Role = ''pbmRole''\<rparr>]\<rparr>"

text \<open>The same session's roles, reported with an empty list of users.\<close>

definition auth_nouser :: AuthInfo where
  "auth_nouser = \<lparr>Users = [], UserRoles = [\<lparr>role_DB = ''admin'', role_Role = ''pbmRole''\<rparr>]\<rparr>"

definition client0 :: Client where
  "client0 =
     \<lparr>runIsMaster = Inr im0,
      findOplog = (\<lambda>coll s. Inr \<lparr>docs = oplog_docs0, cur_err = None\<rparr>),
      mongoVersion = Inr \<lparr>VersionString = ''4.2.3'', Version = [4, 2, 3]\<rparr>,
      currentUser = Inr auth0,
      session = session0\<rparr>"

definition node0 :: Node where
  "node0 = \<lparr>name = ''h1:27017'', cn = client0, opts = ''mongodb://h1:27017''\<rparr>"

definition node1 :: Node where
  "node1 = node0\<lparr>cn := client0\<lparr>findOplog :=
             (\<lambda>coll s. Inr \<lparr>docs = take 3 oplog_docs0, cur_err = None\<rparr>)\<rparr>\<rparr>"

definition span_start0 :: Timestamp where
  "span_start0 = \<lparr>T = 10, I = 0\<rparr>"

definition span_end0 :: Timestamp where
  "span_end0 = \<lparr>T = 20, I = 0\<rparr>"

definition writer0 :: Writer where
  "writer0 = \<lparr>out = [], room = None\<rparr>"

text \<open>
  A restore \<open>r1\<close> of the single replica set \<open>rs0\<close>, as four polls may view it. The
  cluster time is 1000 in each. In \<open>view_nolock\<close> the replica set is still starting and
  has no lock; in \<open>view_stale\<close> it is still starting and its lock's last heartbeat is
  of time 900; in \<open>view_failed\<close> the restore itself failed, its heartbeat fresh; in
  \<open>view_late\<close> the restore is running, its last heartbeat of time 900.
\<close>

definition rs0_entry :: RestoreReplset where
  "rs0_entry = \<lparr>rs_Name = ''rs0'', rs_StartTS = 990, rs_Status = StatusStarting,
                rs_Error = [], rs_Conditions = []\<rparr>"

definition meta_r1 :: RestoreMeta where
  "meta_r1 = \<lparr>rm_Name = ''r1'', rm_Backup = ''b1'', rm_StartTS = 980, rm_Status = StatusStarting,
              rm_Error = [], rm_Replsets = [rs0_entry], rm_Hb = \<lparr>T = 995, I = 0\<rparr>\<rparr>"

definition view_nolock :: View where
  "view_nolock = \<lparr>GetRestoreMeta = (\<lambda>n. Inr meta_r1), ClusterTime = Inr \<lparr>T = 1000, I = 0\<rparr>,
                  GetLockData = (\<lambda>h. Inl ErrNoDocuments)\<rparr>"

definition view_stale :: View where
  "view_stale = view_nolock\<lparr>GetLockData := (\<lambda>h. Inr \<lparr>Heartbeat = \<lparr>T = 900, I = 0\<rparr>\<rparr>)\<rparr>"

definition view_failed :: View where
  "view_failed = view_nolock\<lparr>GetRestoreMeta :=
     (\<lambda>n. Inr (meta_r1\<lparr>rm_Status := StatusError, rm_Error := ''restore on the shard rs0 failed''\<rparr>))\<rparr>"

definition view_late :: View where
  "view_late = view_nolock\<lparr>GetRestoreMeta :=
     (\<lambda>n. Inr (meta_r1\<lparr>rm_Status := StatusRunning, rm_Hb := \<lparr>T = 900, I = 0\<rparr>\<rparr>))\<rparr>"

definition shards0 :: "Shard list" where
  "shards0 = [\<lparr>ID = ''rs0'', Host = ''rs0/h1:27017''\<rparr>]"

text \<open>
  The store, the collaborators and the command of the restore \<open>r1\<close> of the backup
  \<open>b1\<close>. In \<open>pbm_failed\<close> the backup \<open>b1\<close> has ended in an error. In \<open>sched_timeout\<close>
  the restore has started, and thirty seconds pass while two ticks find the replica
  set still starting.
\<close>

definition backup_b1 :: BackupMeta where
  "backup_b1 = \<lparr>bm_Name = ''b1'', bm_Compression = ''s2'', bm_Status = StatusDone, bm_Error = [],
                bm_Replsets = [\<lparr>brs_Name = ''rs0'', DumpName = ''b1_rs0.dump.s2'',
                                OplogName = ''b1_rs0.oplog.s2''\<rparr>]\<rparr>"

definition pbm0 :: PBM where
  "pbm0 = \<lparr>GetStorage = Inr \<lparr>SourceReader = (\<lambda>n. Inr [])\<rparr>,
           GetBackupMeta = (\<lambda>n. Inr backup_b1),
           SetRestoreMeta = (\<lambda>m. None),
           AddRestoreRSMeta = (\<lambda>n rs. None),
           GetShards = Inr [],
           ChangeRestoreState = (\<lambda>n st m. None),
           ChangeRestoreRSState = (\<lambda>n rs st m. None)\<rparr>"

definition pbm_failed :: PBM where
  "pbm_failed = pbm0\<lparr>GetBackupMeta :=
     (\<lambda>n. Inr (backup_b1\<lparr>bm_Status := StatusError, bm_Error := ''oplog: write to pipe''\<rparr>))\<rparr>"

definition env0 :: Env where
  "env0 = \<lparr>now_meta = 980, now_rs = 990,
           jsonDecode = (\<lambda>bs. Inl (New ''unexpected end of JSON input'')),
           Decompress = (\<lambda>bs c. Inr bs),
           NewSessionProvider = (\<lambda>uri. None),
           mongorestore = (\<lambda>bs. \<lparr>res_Err = None, Successes = 0, Failures = 0\<rparr>),
           oplogApply = (\<lambda>bs. None)\<rparr>"

definition cmd0 :: RestoreCmd where
  "cmd0 = \<lparr>cmd_Name = ''r1'', cmd_BackupName = ''b1''\<rparr>"

definition sched_timeout :: Schedule where
  "sched_timeout =
     \<lparr>wait_Starting = [Tick view_nolock],
      conv_Running = [Tick view_nolock, Elapsed 1000000000, Tick view_nolock,
                      Elapsed 30000000000],
      wait_Running = [], conv_DumpDone = [], wait_DumpDone = [], conv_Done = []\<rparr>"

text \<open>
  A run of the restore \<open>r1\<close> that completes. \<open>view_at cluster shard\<close> is the store with
  the restore in status \<open>cluster\<close>, the replica set \<open>rs0\<close> in status \<open>shard\<close>, and
  fresh heartbeats; in \<open>sched_ok\<close> each loop sees its awaited status after at most two
  other events, the two later convergence loops after thirty seconds and more.
\<close>

definition view_at :: "Status \<Rightarrow> Status \<Rightarrow> View" where
  "view_at cluster shard =
     \<lparr>GetRestoreMeta = (\<lambda>n. Inr (meta_r1\<lparr>rm_Status := cluster,
                                          rm_Replsets := [rs0_entry\<lparr>rs_Status := shard\<rparr>]\<rparr>)),
      ClusterTime = Inr \<lparr>T = 1000, I = 0\<rparr>,
      GetLockData = (\<lambda>h. Inr \<lparr>Heartbeat = \<lparr>T = 999, I = 0\<rparr>\<rparr>)\<rparr>"

definition sched_ok :: Schedule where
  "sched_ok =
     \<lparr>wait_Starting = [Tick (view_at StatusStarting StatusStarting)],
      conv_Running = [Tick (view_at StatusStarting StatusStarting),
                      Tick (view_at StatusStarting StatusRunning)],
      wait_Running = [Tick (view_at StatusRunning StatusRunning)],
      conv_DumpDone = [Elapsed 40000000000, Tick (view_at StatusRunning StatusDumpDone)],
      wait_DumpDone = [Tick (view_at StatusDumpDone StatusDumpDone)],
      conv_Done = [Elapsed 30000000000, Elapsed 60000000000,
                   Tick (view_at StatusDumpDone StatusDone)]\<rparr>"

text \<open>
  The restore \<open>r1\<close> on two shards, as one poll views it: \<open>rs0\<close> is running and its
  lock's heartbeat is fresh, \<open>rs1\<close> is still starting and its lock's last heartbeat
  is of time 900.
\<close>

definition rs1_entry :: RestoreReplset where
  "rs1_entry = \<lparr>rs_Name = ''rs1'', rs_StartTS = 990, rs_Status = StatusStarting,
                rs_Error = [], rs_Conditions = []\<rparr>"

definition view_two :: View where
  "view_two =
     \<lparr>GetRestoreMeta =
        (\<lambda>n. Inr (meta_r1\<lparr>rm_Replsets := [rs0_entry\<lparr>rs_Status := StatusRunning\<rparr>, rs1_entry]\<rparr>)),
      ClusterTime = Inr \<lparr>T = 1000, I = 0\<rparr>,
      GetLockData = (\<lambda>h. if lock_Replset h = ''rs1''
                          then Inr \<lparr>Heartbeat = \<lparr>T = 900, I = 0\<rparr>\<rparr>
                          else Inr \<lparr>Heartbeat = \<lparr>T = 999, I = 0\<rparr>\<rparr>)\<rparr>"

definition shards_two :: "Shard list" where
  "shards_two = [\<lparr>ID = ''rs0'', Host = ''rs0/h1:27017''\<rparr>, \<lparr>ID = ''rs1'', Host = ''rs1/h2:27017''\<rparr>]"

text \<open>
  \<open>view_lost_at cluster shard\<close> is \<open>view_at cluster shard\<close> with the last heartbeat of
  the lock of time 900. The schedules below differ from \<open>sched_timeout\<close> and
  \<open>sched_ok\<close> in one convergence loop each:
  \<^item> \<open>sched_waiting\<close>: toward \<^verbatim>\<open>StatusRunning\<close>, one tick that finds the replica set
    still starting, and one nanosecond less than thirty seconds;
  \<^item> \<open>sched_lost\<close>: toward \<^verbatim>\<open>StatusRunning\<close>, a tick that finds the lock stale;
  \<^item> \<open>sched_dump_waiting\<close>: toward \<^verbatim>\<open>StatusDumpDone\<close>, forty seconds and a tick that
    finds the replica set still running;
  \<^item> \<open>sched_dump_lost\<close>: toward \<^verbatim>\<open>StatusDumpDone\<close>, forty seconds and a tick that
    finds the lock stale;
  \<^item> \<open>sched_done_lost\<close>: toward \<^verbatim>\<open>StatusDone\<close>, two ticks a minute apart that find
    the replica set at \<^verbatim>\<open>StatusDumpDone\<close> and its lock stale;
  \<^item> \<open>sched_done_failed\<close>: toward \<^verbatim>\<open>StatusDone\<close>, a minute and a tick that finds the
    replica set at \<^verbatim>\<open>StatusError\<close>;
  \<^item> \<open>sched_done_cancelled\<close>: toward \<^verbatim>\<open>StatusDone\<close>, a minute and the cancellation
    of the context.
\<close>

definition view_lost_at :: "Status \<Rightarrow> Status \<Rightarrow> View" where
  "view_lost_at cluster shard =
     (view_at cluster shard)\<lparr>GetLockData := (\<lambda>h. Inr \<lparr>Heartbeat = \<lparr>T = 900, I = 0\<rparr>\<rparr>)\<rparr>"

definition sched_waiting :: Schedule where
  "sched_waiting = sched_timeout\<lparr>conv_Running := [Tick view_nolock, Elapsed 29999999999]\<rparr>"

definition sched_lost :: Schedule where
  "sched_lost =
     sched_timeout\<lparr>conv_Running := [Tick view_nolock, Elapsed 1000000000, Tick view_stale]\<rparr>"

definition sched_dump_waiting :: Schedule where
  "sched_dump_waiting =
     sched_ok\<lparr>conv_DumpDone := [Elapsed 40000000000, Tick (view_at StatusRunning StatusRunning)]\<rparr>"

definition sched_dump_lost :: Schedule where
  "sched_dump_lost =
     sched_ok\<lparr>conv_DumpDone :=
       [Elapsed 40000000000, Tick (view_lost_at StatusRunning StatusRunning)]\<rparr>"

definition sched_done_lost :: Schedule where
  "sched_done_lost =
     sched_ok\<lparr>conv_Done :=
       [Tick (view_lost_at StatusDumpDone StatusDumpDone), Elapsed 60000000000,
        Tick (view_lost_at StatusDumpDone StatusDumpDone)]\<rparr>"

definition sched_done_failed :: Schedule where
  "sched_done_failed =
     sched_ok\<lparr>conv_Done := [Elapsed 60000000000, Tick (view_at StatusDumpDone StatusError)]\<rparr>"

definition sched_done_cancelled :: Schedule where
  "sched_done_cancelled = sched_ok\<lparr>conv_Done := [Elapsed 60000000000, Cancelled]\<rparr>"

section \<open>The oplog reader: what \<^verbatim>\<open>WriteTo\<close> writes and returns\<close>

text \<open>
  The reader's test for a record beyond the end of the span is the order on
  timestamps: the seconds first, the ordinal on a tie.
\<close>

lemma beyond_iff:
  "beyond e d \<longleftrightarrow>
     (\<exists>t. ts d = Some t \<and> (T e < T t \<or> (T e = T t \<and> I e < I t)))"
  by (cases "ts d") (auto simp: beyond_def CompareTimestamp_def)

lemma Write_accepts:
  "accepts w (length p) \<Longrightarrow> Write w p = (length p, None, took w p)"
  by (auto simp: accepts_def Write_def took_def split: option.splits)

lemma accepts_took:
  "accepts w (length p + n) \<Longrightarrow> accepts (took w p) n"
  by (auto simp: accepts_def took_def split: option.splits)

lemma accepts_less: "accepts w (m + n) \<Longrightarrow> accepts w m"
  by (auto simp: accepts_def split: option.splits)

lemma took_took: "took (took w p) q = took w (p @ q)"
  by (cases "room w") (simp_all add: took_def)

lemma took_Nil: "took w [] = w"
  by (cases "room w") (simp_all add: took_def)

text \<open>
  The rendering of a value is never the noop constant: a string is rendered with a
  leading double quote, the zero value as the empty string. So the reader's noop test
  never succeeds.
\<close>

lemma String_never_noop: "String v \<noteq> OperationNoop"
  by (cases v) (simp_all add: escapeString_def OperationNoop_def)

text \<open>
  The loop on records that all carry a timestamp, into a writer that takes what is
  read: it writes every record up to the first one beyond the end of the span, counts
  the bytes, and returns no error when a record beyond the end stopped it, the
  cursor's error otherwise.
\<close>

lemma tail_loop_reads:
  "\<forall>d\<in>set ds. ts d \<noteq> None \<Longrightarrow> accepts w (length (read_bytes e ds)) \<Longrightarrow>
   tail_loop e cerr ds written w =
     ((written + of_nat (length (read_bytes e ds)),
       if \<exists>d\<in>set ds. beyond e d then None else cerr),
      took w (read_bytes e ds))"
proof (induction ds arbitrary: written w)
  case Nil
  then show ?case by (simp add: read_bytes_def took_Nil)
next
  case (Cons d ds)
  from Cons.prems(1) obtain t where t: "ts d = Some t" by auto
  show ?case
  proof (cases "CompareTimestamp e t = - 1")
    case True
    then have "beyond e d" by (simp add: beyond_def t)
    then show ?thesis using t True
      by (simp add: read_bytes_def took_Nil)
  next
    case within: False
    then have nb: "\<not> beyond e d" by (simp add: beyond_def t)
    have rb: "read_bytes e (d # ds) = raw d @ read_bytes e ds"
      using nb by (simp add: read_bytes_def)
    have a1: "accepts w (length (raw d))"
      using Cons.prems(2) accepts_less[of w "length (raw d)"] by (simp add: rb)
    have a2: "accepts (took w (raw d)) (length (read_bytes e ds))"
      using Cons.prems(2) accepts_took[of w "raw d"] by (simp add: rb)
    show ?thesis
      using Cons.IH[of "took w (raw d)" "written + of_nat (length (raw d))"] Cons.prems(1) a2
        t within nb
      by (simp add: rb Write_accepts[OF a1] took_took add.assoc String_never_noop)
  qed
qed

lemma WriteTo_tail_loop:
  assumes "T (start ot) \<noteq> 0" and "T (endTS ot) \<noteq> 0"
    and "collectionName ot = Inr clName"
    and "findOplog (cn (node ot)) clName (start ot) = Inr cur"
  shows "WriteTo ot w = tail_loop (endTS ot) (cur_err cur) (docs cur) 0 w"
  using assms by (simp add: WriteTo_def)

text \<open>
  \<^verbatim>\<open>WriteTo\<close> with the span set and the cursor open, on records that all carry a
  timestamp and into a writer that takes what is read: the noops up to the end of the
  span are written like every other record.
\<close>

lemma WriteTo_reads:
  assumes "T (start ot) \<noteq> 0" and "T (endTS ot) \<noteq> 0"
    and "collectionName ot = Inr clName"
    and "findOplog (cn (node ot)) clName (start ot) = Inr cur"
    and "\<forall>d\<in>set (docs cur). ts d \<noteq> None"
    and "accepts w (length (read_bytes (endTS ot) (docs cur)))"
  shows "WriteTo ot w =
      ((of_nat (length (read_bytes (endTS ot) (docs cur))),
        if \<exists>d\<in>set (docs cur). beyond (endTS ot) d then None else cur_err cur),
       took w (read_bytes (endTS ot) (docs cur)))"
  using tail_loop_reads[OF assms(5,6), of "cur_err cur" 0]
  by (simp add: WriteTo_tail_loop[OF assms(1-4)])

text \<open>
  When the loop runs to the end of the cursor, no record being beyond the end of the
  span, \<^verbatim>\<open>WriteTo\<close> returns the count of the bytes of all the records and the cursor's
  own error \<^verbatim>\<open>cur.Err()\<close>, nil unless the driver reported one.
\<close>

lemma WriteTo_exhausted:
  assumes "T (start ot) \<noteq> 0" and "T (endTS ot) \<noteq> 0"
    and "collectionName ot = Inr clName"
    and "findOplog (cn (node ot)) clName (start ot) = Inr cur"
    and "\<forall>d\<in>set (docs cur). ts d \<noteq> None \<and> \<not> beyond (endTS ot) d"
    and "accepts w (length (concat (map raw (docs cur))))"
  shows "fst (WriteTo ot w) = (of_nat (length (concat (map raw (docs cur)))), cur_err cur)"
proof -
  have all: "takeWhile (\<lambda>d. \<not> beyond (endTS ot) d) (docs cur) = docs cur"
    using assms(5) by (simp add: takeWhile_eq_all_conv)
  have rb: "read_bytes (endTS ot) (docs cur) = concat (map raw (docs cur))"
    by (simp add: read_bytes_def all)
  have ts: "\<forall>d\<in>set (docs cur). ts d \<noteq> None" using assms(5) by blast
  show ?thesis
    using WriteTo_reads[OF assms(1-4) ts, of w] assms(5,6) by (simp add: rb)
qed

lemma oplog0_facts:
  "collectionName (SetTailingSpan (NewOplog node0) span_start0 span_end0) = Inr ''oplog.rs''"
  "collectionName (SetTailingSpan (NewOplog node1) span_start0 span_end0) = Inr ''oplog.rs''"
  "findOplog (cn node0) c s = Inr \<lparr>docs = oplog_docs0, cur_err = None\<rparr>"
  "findOplog (cn node1) c s = Inr \<lparr>docs = take 3 oplog_docs0, cur_err = None\<rparr>"
  "T (start (SetTailingSpan (NewOplog n) span_start0 span_end0)) \<noteq> 0"
  "T (endTS (SetTailingSpan (NewOplog n) span_start0 span_end0)) \<noteq> 0"
  "endTS (SetTailingSpan (NewOplog n) span_start0 span_end0) = span_end0"
  "start (SetTailingSpan (NewOplog n) span_start0 span_end0) = span_start0"
  "node (SetTailingSpan (NewOplog n) span_start0 span_end0) = n"
  by (simp_all add: SetTailingSpan_def NewOplog_def node1_def node0_def client0_def im0_def
      span_start0_def span_end0_def collectionName_def GetIsMaster_def)

text \<open>
  C2 (the code at the failing input). The span is set from \<open>(10, 0)\<close> to \<open>(20, 0)\<close>;
  the cursor of \<open>node1\<close> yields three records, none of them beyond the end of the span,
  and then ends without a driver error. \<^verbatim>\<open>WriteTo\<close> returns the six bytes it wrote and
  the nil error: the truncated window is reported as a success.
\<close>

theorem C2_exhausted_cursor_returns_nil:
  "T (start (SetTailingSpan (NewOplog node1) span_start0 span_end0)) \<noteq> 0
   \<and> T (endTS (SetTailingSpan (NewOplog node1) span_start0 span_end0)) \<noteq> 0
   \<and> findOplog (cn node1) ''oplog.rs'' span_start0
       = Inr \<lparr>docs = take 3 oplog_docs0, cur_err = None\<rparr>
   \<and> \<not> beyond span_end0 (oplog_docs0 ! 0)
   \<and> \<not> beyond span_end0 (oplog_docs0 ! 1)
   \<and> \<not> beyond span_end0 (oplog_docs0 ! 2)
   \<and> fst (WriteTo (SetTailingSpan (NewOplog node1) span_start0 span_end0) writer0) = (6, None)"
  using WriteTo_exhausted
    [of "SetTailingSpan (NewOplog node1) span_start0 span_end0" "''oplog.rs''"
        "\<lparr>docs = take 3 oplog_docs0, cur_err = None\<rparr>" writer0]
  by (simp add: oplog0_facts)
     (simp add: span_start0_def span_end0_def oplog_docs0_def writer0_def beyond_def
        CompareTimestamp_def accepts_def)

text \<open>
  C3 (the code at the failing input). The span is set from \<open>(10, 0)\<close> to \<open>(20, 0)\<close>;
  the second record the cursor of \<open>node0\<close> yields is a noop of timestamp \<open>(15, 1)\<close>,
  its \<^verbatim>\<open>op\<close> the string \<^verbatim>\<open>"n"\<close> and its raw bytes \<open>[3]\<close>. The specification's slice is
  the five bytes of the insert and the update; \<^verbatim>\<open>WriteTo\<close> writes six bytes, the noop's
  among them, and returns 6: the rendering of the noop's \<^verbatim>\<open>op\<close>, a quoted string, is
  not the constant it is compared with.
\<close>

theorem C3_noop_is_written:
  "op (oplog_docs0 ! 1) = StringValue OperationNoop
   \<and> \<not> beyond span_end0 (oplog_docs0 ! 1)
   \<and> String (op (oplog_docs0 ! 1)) = [CHR 0x22, CHR ''n'', CHR 0x22]
   \<and> slice_bytes span_end0 oplog_docs0 = [1, 2, 4, 5, 6]
   \<and> out (snd (WriteTo (SetTailingSpan (NewOplog node0) span_start0 span_end0) writer0))
       = [1, 2, 3, 4, 5, 6]
   \<and> fst (WriteTo (SetTailingSpan (NewOplog node0) span_start0 span_end0) writer0) = (6, None)"
  using WriteTo_reads
    [of "SetTailingSpan (NewOplog node0) span_start0 span_end0" "''oplog.rs''"
        "\<lparr>docs = oplog_docs0, cur_err = None\<rparr>" writer0]
  by (simp add: oplog0_facts)
     (simp add: span_start0_def span_end0_def oplog_docs0_def writer0_def beyond_def
        CompareTimestamp_def accepts_def read_bytes_def slice_bytes_def oplog_slice_def took_def
        OperationNoop_def escapeString_def)

text \<open>
  C8. Before the tailing span is set (the seconds of its start or of its end are
  zero) \<^verbatim>\<open>WriteTo\<close> returns 0 and an error, and leaves the writer as it was.
\<close>

theorem C8_WriteTo_needs_span:
  assumes "T (start ot) = 0 \<or> T (endTS ot) = 0"
  shows "fst (fst (WriteTo ot w)) = 0 \<and> snd (fst (WriteTo ot w)) \<noteq> None \<and> snd (WriteTo ot w) = w"
  using assms by (auto simp: WriteTo_def)

theorem C8_WriteTo_needs_span_witness:
  "T (start (NewOplog node0)) = 0
   \<and> fst (fst (WriteTo (NewOplog node0) writer0)) = 0
   \<and> snd (fst (WriteTo (NewOplog node0) writer0)) \<noteq> None
   \<and> snd (WriteTo (NewOplog node0) writer0) = writer0
   \<and> T (endTS (SetTailingSpan (NewOplog node0) span_start0 \<lparr>T = 0, I = 7\<rparr>)) = 0
   \<and> snd (fst (WriteTo (SetTailingSpan (NewOplog node0) span_start0 \<lparr>T = 0, I = 7\<rparr>) writer0)) \<noteq> None"
  using C8_WriteTo_needs_span[of "NewOplog node0" writer0]
    C8_WriteTo_needs_span[of "SetTailingSpan (NewOplog node0) span_start0 \<lparr>T = 0, I = 7\<rparr>" writer0]
  by (simp add: NewOplog_def SetTailingSpan_def)

section \<open>Reconciliation: lost shards and the wait for a status\<close>

text \<open>
  The staleness test of the code adds and compares unsigned 32-bit seconds. It holds
  whenever the inequality holds for the seconds read as integers.
\<close>

lemma stale_of_seconds:
  fixes hb ct :: u32
  assumes "unat hb + unat StaleFrameSec < unat ct"
  shows "hb + StaleFrameSec < ct"
proof -
  have "unat ct < 2 ^ LENGTH(32)" by (rule unsigned_less)
  then have "unat hb + unat StaleFrameSec < 2 ^ LENGTH(32)" using assms by linarith
  then have "unat (hb + StaleFrameSec) = unat hb + unat StaleFrameSec"
    using unat_add_lem[of hb StaleFrameSec] by blast
  then show ?thesis using assms by (simp add: word_less_nat_alt)
qed

text \<open>
  The two loops of \<^verbatim>\<open>converged\<close> scan their lists from left to right and stop at the
  first error.
\<close>

lemma scan_replsets_append:
  "scan_replsets v nm status ct sh (xs @ ys) n =
     (case scan_replsets v nm status ct sh xs n of
        Inl err \<Rightarrow> Inl err
      | Inr n' \<Rightarrow> scan_replsets v nm status ct sh ys n')"
  by (induction xs arbitrary: n) (auto split: sum.splits)

lemma scan_shards_append:
  "scan_shards v nm status ct rss (xs @ ys) n =
     (case scan_shards v nm status ct rss xs n of
        Inl err \<Rightarrow> Inl err
      | Inr n' \<Rightarrow> scan_shards v nm status ct rss ys n')"
  by (induction xs arbitrary: n) (auto split: sum.splits)

text \<open>
  An entry whose lock is read with a stale heartbeat, for a target status other than
  \<^verbatim>\<open>StatusDone\<close>: the check of the entry returns the error that declares the shard
  lost, whatever the entry's status.
\<close>

lemma check_shard_stale:
  assumes "status \<noteq> StatusDone"
    and "GetLockData v \<lparr>lock_Type = CmdRestore, lock_BackupName = nm,
                        lock_Replset = rs_Name shard\<rparr> = Inr l"
    and "T (Heartbeat l) + StaleFrameSec < T ct"
  shows "check_shard v nm status ct shard n =
     Inl (Errorf ''lost shard %s, last beat ts: %d'' [AStr (rs_Name shard), AU32 (T (Heartbeat l))])"
  using assms by (simp add: check_shard_def)

text \<open>
  \<^verbatim>\<open>converged\<close> at such an entry: the scan stops at the entry at the latest, so the
  error is the one of an entry scanned before it, if one of them gives an error, and
  the one that declares the shard lost otherwise.
\<close>

lemma converged_stale:
  assumes "status \<noteq> StatusDone"
    and "GetRestoreMeta v nm = Inr bmeta" and "ClusterTime v = Inr ct"
    and "shards = earlier @ sh # others"
    and "rm_Replsets bmeta = before @ shard # rest" and "rs_Name shard = ID sh"
    and "GetLockData v \<lparr>lock_Type = CmdRestore, lock_BackupName = nm,
                        lock_Replset = rs_Name shard\<rparr> = Inr l"
    and "T (Heartbeat l) + StaleFrameSec < T ct"
  shows "converged pbm v nm shards status =
     ((False,
       Some (case scan_shards v nm status ct (rm_Replsets bmeta) earlier (int (length shards)) of
               Inl err \<Rightarrow> err
             | Inr n \<Rightarrow>
                 (case scan_replsets v nm status ct sh before n of
                    Inl err \<Rightarrow> err
                  | Inr n' \<Rightarrow> Errorf ''lost shard %s, last beat ts: %d''
                                [AStr (rs_Name shard), AU32 (T (Heartbeat l))]))),
      [])"
proof -
  have own: "scan_replsets v nm status ct sh (rm_Replsets bmeta) n =
      Inl (case scan_replsets v nm status ct sh before n of
             Inl err \<Rightarrow> err
           | Inr n' \<Rightarrow> Errorf ''lost shard %s, last beat ts: %d''
                         [AStr (rs_Name shard), AU32 (T (Heartbeat l))])" for n
    using assms(6) check_shard_stale[OF assms(1,7,8)]
    by (simp add: assms(5) scan_replsets_append split: sum.splits)
  have "scan_shards v nm status ct (rm_Replsets bmeta) shards (int (length shards)) =
      Inl (case scan_shards v nm status ct (rm_Replsets bmeta) earlier (int (length shards)) of
             Inl err \<Rightarrow> err
           | Inr n \<Rightarrow>
               (case scan_replsets v nm status ct sh before n of
                  Inl err \<Rightarrow> err
                | Inr n' \<Rightarrow> Errorf ''lost shard %s, last beat ts: %d''
                              [AStr (rs_Name shard), AU32 (T (Heartbeat l))]))"
    unfolding assms(4) scan_shards_append
    by (simp add: own split: sum.splits)
  then show ?thesis
    using assms(2,3) by (simp add: converged_def)
qed

text \<open>
  C1 (as stated, refuted). The target status is \<^verbatim>\<open>StatusRunning\<close>, the only shard
  \<open>rs0\<close> is still starting, and its lock is not in the lock collection:
  \<^verbatim>\<open>converged\<close> returns \<^verbatim>\<open>false, nil\<close> and changes nothing, so the coordinator keeps
  waiting.
\<close>

theorem C1_missing_lock_counterexample:
  "GetLockData view_nolock
       \<lparr>lock_Type = CmdRestore, lock_BackupName = ''r1'', lock_Replset = ''rs0''\<rparr>
     = Inl ErrNoDocuments
   \<and> rs_Status rs0_entry \<noteq> StatusRunning
   \<and> converged pbm0 view_nolock ''r1'' shards0 StatusRunning = ((False, None), [])"
  by (simp add: view_nolock_def meta_r1_def rs0_entry_def shards0_def converged_def
      check_shard_def)

lemma waitForStatus_append:
  "waitForStatus nm st pre = None \<Longrightarrow>
   waitForStatus nm st (pre @ evs) = waitForStatus nm st evs"
proof (induction nm st pre rule: waitForStatus.induct)
  case (2 nm status v evs')
  then show ?case by (auto split: sum.splits if_splits)
qed simp_all

text \<open>
  At a tick the loop reaches while still waiting, with a fresh heartbeat: when the
  metadata's status is \<^verbatim>\<open>StatusError\<close> and another status is awaited, the loop returns
  the nil error.
\<close>

lemma waitForStatus_error_is_nil:
  assumes "waitForStatus nm st pre = None"
    and "GetRestoreMeta v nm = Inr meta" and "ClusterTime v = Inr ct"
    and "\<not> T (rm_Hb meta) + StaleFrameSec < T ct"
    and "rm_Status meta = StatusError" and "st \<noteq> StatusError"
  shows "waitForStatus nm st (pre @ Tick v # evs) = Some None"
  using assms by (simp add: waitForStatus_append)

text \<open>
  C7 (the code at the failing input). The restore's metadata has reached
  \<^verbatim>\<open>StatusError\<close>, its heartbeat of time 995 is fresh at cluster time 1000, and
  \<^verbatim>\<open>waitForStatus\<close>, waiting for \<^verbatim>\<open>StatusRunning\<close>, returns the nil error:
  \<^verbatim>\<open>errors.Wrap\<close> of a nil error is nil.
\<close>

theorem C7_waitForStatus_drops_the_error:
  "waitForStatus ''r1'' StatusRunning [Tick view_failed] = Some None"
  by (simp add: view_failed_def view_nolock_def meta_r1_def StaleFrameSec_def)

text \<open>
  C9. At a tick that the loop reaches while still waiting, with the metadata and the
  cluster time read: if the metadata's \<open>heartbeat_ts + StaleFrameSec < cluster time\<close>,
  \<^verbatim>\<open>waitForStatus\<close> returns the error that the restore is stuck, whatever the
  metadata's status, the awaited one included.
\<close>

theorem C9_stale_heartbeat_before_status:
  assumes "waitForStatus nm st pre = None"
    and "GetRestoreMeta v nm = Inr meta" and "ClusterTime v = Inr ct"
    and "T (rm_Hb meta) + StaleFrameSec < T ct"
  shows "waitForStatus nm st (pre @ Tick v # evs) =
     Some (Some (Errorf ''restore stuck, last beat ts: %d'' [AU32 (T (rm_Hb meta))]))"
  using assms by (simp add: waitForStatus_append)

theorem C9_stale_heartbeat_witness:
  "waitForStatus ''r1'' StatusRunning [Tick view_nolock] = None
   \<and> GetRestoreMeta view_late ''r1''
       = Inr (meta_r1\<lparr>rm_Status := StatusRunning, rm_Hb := \<lparr>T = 900, I = 0\<rparr>\<rparr>)
   \<and> rm_Status (meta_r1\<lparr>rm_Status := StatusRunning, rm_Hb := \<lparr>T = 900, I = 0\<rparr>\<rparr>) = StatusRunning
   \<and> ClusterTime view_late = Inr \<lparr>T = 1000, I = 0\<rparr>
   \<and> T \<lparr>T = 900, I = 0\<rparr> + StaleFrameSec < T \<lparr>T = 1000, I = 0\<rparr>
   \<and> waitForStatus ''r1'' StatusRunning [Tick view_nolock, Tick view_late] =
       Some (Some (Errorf ''restore stuck, last beat ts: %d'' [AU32 900]))"
proof -
  have h: "waitForStatus ''r1'' StatusRunning [Tick view_nolock] = None"
    "GetRestoreMeta view_late ''r1''
       = Inr (meta_r1\<lparr>rm_Status := StatusRunning, rm_Hb := \<lparr>T = 900, I = 0\<rparr>\<rparr>)"
    "ClusterTime view_late = Inr \<lparr>T = 1000, I = 0\<rparr>"
    "T (rm_Hb (meta_r1\<lparr>rm_Status := StatusRunning, rm_Hb := \<lparr>T = 900, I = 0\<rparr>\<rparr>)) + StaleFrameSec
       < T \<lparr>T = 1000, I = 0\<rparr>"
    by (simp_all add: view_late_def view_nolock_def meta_r1_def StaleFrameSec_def)
  from C9_stale_heartbeat_before_status[OF h, of "[]"] h
  show ?thesis by simp
qed

section \<open>The user and role splice: what \<^verbatim>\<open>swapUsers\<close> leaves in the collections\<close>

lemma insert_loop_ok:
  assumes "fails s = (\<lambda>c. None)" and "distinct (map doc_id ds)"
    and "\<forall>d\<in>set ds. doc_id d \<notin> doc_id ` set (documents s ns)"
  shows "fst (insert_loop ns dm im ds s) = None
       \<and> documents (snd (insert_loop ns dm im ds s)) ns = documents s ns @ ds
       \<and> (\<forall>ns'. ns' \<noteq> ns \<longrightarrow> colls (snd (insert_loop ns dm im ds s)) ns' = colls s ns')
       \<and> fails (snd (insert_loop ns dm im ds s)) = fails s"
  using assms
proof (induction ds arbitrary: s)
  case Nil
  then show ?case by simp
next
  case (Cons d ds)
  let ?s' = "s\<lparr>colls := (colls s)(ns \<mapsto> documents s ns @ [d])\<rparr>"
  have ins: "InsertOne s ns d = Inr ?s'"
    using Cons.prems by (simp add: InsertOne_def)
  have d': "documents ?s' ns = documents s ns @ [d]" by (simp add: documents_def)
  have f': "fails ?s' = (\<lambda>c. None)" using Cons.prems by simp
  have fresh: "\<forall>x\<in>set ds. doc_id x \<notin> doc_id ` set (documents ?s' ns)"
    using Cons.prems by (auto simp: d' image_iff)
  have dist: "distinct (map doc_id ds)" using Cons.prems by simp
  note IH = Cons.IH[OF f' dist fresh]
  have step: "insert_loop ns dm im (d # ds) s = insert_loop ns dm im ds ?s'"
    using Cons.prems(1) ins by simp
  show ?case unfolding step using IH by (simp add: d')
qed

lemma matches_fun:
  "matches (Nin ids) = (\<lambda>d. doc_id d \<notin> set ids)"
  "matches (Ne i) = (\<lambda>d. doc_id d \<noteq> i)"
  by (rule ext, simp)+

lemma tmp_names:
  "tmpRoles \<noteq> ''system.roles''" "tmpRoles \<noteq> ''system.users''"
  "tmpUsers \<noteq> ''system.roles''" "tmpUsers \<noteq> ''system.users''"
  "''system.roles'' \<noteq> tmpRoles" "''system.users'' \<noteq> tmpRoles"
  "''system.roles'' \<noteq> tmpUsers" "''system.users'' \<noteq> tmpUsers"
  "tmpRoles \<noteq> tmpUsers" "tmpUsers \<noteq> tmpRoles"
  by (simp_all add: tmpRoles_def tmpUsers_def)

lemma DeleteMany_ok:
  assumes "fails s = (\<lambda>c. None)"
  shows "\<exists>s'. DeleteMany s ns q = Inr s' \<and> fails s' = fails s
       \<and> documents s' ns = filter (\<lambda>d. \<not> matches q d) (documents s ns)
       \<and> (\<forall>ns'. ns' \<noteq> ns \<longrightarrow> colls s' ns' = colls s ns')"
  using assms by (auto simp: DeleteMany_def documents_def split: option.splits)

text \<open>
  The splice on a session whose calls do not fail and whose two temporary collections
  hold each \<^verbatim>\<open>_id\<close> once: it returns no error; the roles are then the old ones of the
  current user's role set followed by the temporary ones outside that set, the users
  the old one of the current user's identifier followed by the temporary ones of
  another identifier; and the two temporary collections are gone.
\<close>

lemma swapUsers_ok:
  assumes nofail: "fails s = (\<lambda>c. None)"
    and dr: "distinct (map doc_id (documents s (DB, tmpRoles)))"
    and du: "distinct (map doc_id (documents s (DB, tmpUsers)))"
  shows "fst (swapUsers s exclude) = None
    \<and> documents (snd (swapUsers s exclude)) (''admin'', ''system.roles'') =
        filter (\<lambda>d. doc_id d \<in> set (erolesOf exclude)) (documents s (''admin'', ''system.roles''))
        @ filter (\<lambda>d. doc_id d \<notin> set (erolesOf exclude)) (documents s (DB, tmpRoles))
    \<and> documents (snd (swapUsers s exclude)) (''admin'', ''system.users'') =
        filter (\<lambda>d. doc_id d = userOf exclude) (documents s (''admin'', ''system.users''))
        @ filter (\<lambda>d. doc_id d \<noteq> userOf exclude) (documents s (DB, tmpUsers))
    \<and> colls (snd (swapUsers s exclude)) (DB, tmpRoles) = None
    \<and> colls (snd (swapUsers s exclude)) (DB, tmpUsers) = None"
proof -
  let ?rolesC = "(''admin'', ''system.roles'')" and ?usersC = "(''admin'', ''system.users'')"
  let ?er = "erolesOf exclude" and ?u = "userOf exclude"
  let ?rcur = "filter (matches (Nin ?er)) (documents s (DB, tmpRoles))"
  have find1: "Find s (DB, tmpRoles) (Nin ?er) = Inr ?rcur"
    using nofail by (simp add: Find_def)
  obtain s1 where s1: "DeleteMany s ?rolesC (Nin ?er) = Inr s1" "fails s1 = fails s"
    "documents s1 ?rolesC = filter (\<lambda>d. \<not> matches (Nin ?er) d) (documents s ?rolesC)"
    "\<forall>ns'. ns' \<noteq> ?rolesC \<longrightarrow> colls s1 ns' = colls s ns'"
    using DeleteMany_ok[OF nofail] by blast
  have f1: "fails s1 = (\<lambda>c. None)" using s1(2) nofail by simp
  have dist1: "distinct (map doc_id ?rcur)" using dr by (simp add: distinct_map_filter)
  have fresh1: "\<forall>d\<in>set ?rcur. doc_id d \<notin> doc_id ` set (documents s1 ?rolesC)"
    by (auto simp: s1(3))
  let ?r2 = "insert_loop ?rolesC ''decode role'' ''insert role'' ?rcur s1"
  note L1 = insert_loop_ok[OF f1 dist1 fresh1, of "''decode role''" "''insert role''"]
  obtain s2 where s2: "?r2 = (None, s2)" using L1 by (cases ?r2) auto
  have s2p: "documents s2 ?rolesC = documents s1 ?rolesC @ ?rcur"
    "\<forall>ns'. ns' \<noteq> ?rolesC \<longrightarrow> colls s2 ns' = colls s1 ns'" "fails s2 = (\<lambda>c. None)"
    using L1 s2 f1 by simp_all
  have tu2: "documents s2 (DB, tmpUsers) = documents s (DB, tmpUsers)"
    using s2p(2)[rule_format, of "(DB, tmpUsers)"] s1(4)[rule_format, of "(DB, tmpUsers)"]
    by (simp add: documents_def tmp_names)
  have u2: "documents s2 ?usersC = documents s ?usersC"
    using s2p(2)[rule_format, of ?usersC] s1(4)[rule_format, of ?usersC]
    by (simp add: documents_def)
  let ?ucur = "filter (matches (Ne ?u)) (documents s (DB, tmpUsers))"
  have find2: "Find s2 (DB, tmpUsers) (Ne ?u) = Inr ?ucur"
    using s2p(3) tu2 by (simp add: Find_def)
  obtain s3 where s3: "DeleteMany s2 ?usersC (Ne ?u) = Inr s3" "fails s3 = fails s2"
    "documents s3 ?usersC = filter (\<lambda>d. \<not> matches (Ne ?u) d) (documents s2 ?usersC)"
    "\<forall>ns'. ns' \<noteq> ?usersC \<longrightarrow> colls s3 ns' = colls s2 ns'"
    using DeleteMany_ok[OF s2p(3)] by blast
  have f3: "fails s3 = (\<lambda>c. None)" using s3(2) s2p(3) by simp
  have dist3: "distinct (map doc_id ?ucur)" using du by (simp add: distinct_map_filter)
  have fresh3: "\<forall>d\<in>set ?ucur. doc_id d \<notin> doc_id ` set (documents s3 ?usersC)"
    by (auto simp: s3(3))
  let ?r4 = "insert_loop ?usersC ''decode user'' ''insert user'' ?ucur s3"
  note L3 = insert_loop_ok[OF f3 dist3 fresh3, of "''decode user''" "''insert user''"]
  obtain s4 where s4: "?r4 = (None, s4)" using L3 by (cases ?r4) auto
  have s4p: "documents s4 ?usersC = documents s3 ?usersC @ ?ucur"
    "\<forall>ns'. ns' \<noteq> ?usersC \<longrightarrow> colls s4 ns' = colls s3 ns'" "fails s4 = (\<lambda>c. None)"
    using L3 s4 f3 by simp_all
  let ?s5 = "s4\<lparr>colls := (colls s4)((DB, tmpRoles) := None)\<rparr>"
  let ?s6 = "?s5\<lparr>colls := (colls ?s5)((DB, tmpUsers) := None)\<rparr>"
  have drop1: "Drop s4 (DB, tmpRoles) = Inr ?s5" using s4p(3) by (simp add: Drop_def)
  have drop2: "Drop ?s5 (DB, tmpUsers) = Inr ?s6" using s4p(3) by (simp add: Drop_def)
  have res: "swapUsers s exclude = (None, ?s6)"
    unfolding swapUsers_def Let_def
    using find1 s1(1) s2 find2 s3(1) s4 drop1 drop2
    by (simp add: erolesOf_def userOf_def)
  have r6: "documents ?s6 ?rolesC = documents s2 ?rolesC"
    using s4p(2)[rule_format, of ?rolesC] s3(4)[rule_format, of ?rolesC]
    by (simp add: documents_def tmp_names)
  have u6: "documents ?s6 ?usersC = documents s4 ?usersC"
    by (simp add: documents_def tmp_names)
  have fin_r: "documents ?s6 ?rolesC =
      filter (\<lambda>d. doc_id d \<in> set ?er) (documents s ?rolesC)
      @ filter (\<lambda>d. doc_id d \<notin> set ?er) (documents s (DB, tmpRoles))"
    using r6 s2p(1) s1(3) by (simp add: matches_fun)
  have fin_u: "documents ?s6 ?usersC =
      filter (\<lambda>d. doc_id d = ?u) (documents s ?usersC)
      @ filter (\<lambda>d. doc_id d \<noteq> ?u) (documents s (DB, tmpUsers))"
    using u6 s4p(1) s3(3) u2 by (simp add: matches_fun)
  have fin_t: "colls ?s6 (DB, tmpRoles) = None" "colls ?s6 (DB, tmpUsers) = None"
    by (simp_all add: tmp_names)
  show ?thesis
    unfolding res fst_conv snd_conv using fin_r fin_u fin_t by blast
qed

lemma session0_facts:
  "fails session0 = (\<lambda>c. None)"
  "documents session0 (''admin'', ''system.roles'') =
     [\<lparr>doc_id = ''admin.pbmRole'', body = [1]\<rparr>, \<lparr>doc_id = ''app.old'', body = [2]\<rparr>]"
  "documents session0 (''admin'', ''system.users'') =
     [\<lparr>doc_id = ''admin.pbm'', body = [3]\<rparr>, \<lparr>doc_id = ''app.bob'', body = [4]\<rparr>]"
  "documents session0 (DB, tmpRoles) =
     [\<lparr>doc_id = ''admin.pbmRole'', body = [5]\<rparr>, \<lparr>doc_id = ''app.reader'', body = [6]\<rparr>]"
  "documents session0 (DB, tmpUsers) =
     [\<lparr>doc_id = ''admin.pbm'', body = [7]\<rparr>, \<lparr>doc_id = ''app.alice'', body = [8]\<rparr>]"
  by (simp_all add: session0_def documents_def tmp_names)

text \<open>
  C6 (as stated, refuted). The current user holds the role \<open>admin.pbmRole\<close>; the
  temporary roles collection holds a document of that \<^verbatim>\<open>_id\<close>. The splice succeeds,
  and that document is not in \<^verbatim>\<open>admin.system.roles\<close> afterwards: the cursor on the
  temporary collection is opened with the same filter as the delete.
\<close>

theorem C6_role_of_current_user_counterexample:
  "fst (swapUsers session0 auth0) = None
   \<and> \<lparr>doc_id = ''admin.pbmRole'', body = [5]\<rparr> \<in> set (documents session0 (DB, tmpRoles))
   \<and> \<lparr>doc_id = ''admin.pbmRole'', body = [5]\<rparr>
       \<notin> set (documents (snd (swapUsers session0 auth0)) (''admin'', ''system.roles''))"
  using swapUsers_ok[of session0 auth0]
  by (simp add: session0_facts erolesOf_def auth0_def)

text \<open>
  C6 (amended). On a session whose calls do not fail and whose temporary collections
  hold each \<^verbatim>\<open>_id\<close> once, the splice returns no error and
  \<^item> deletes every document of \<^verbatim>\<open>admin.system.roles\<close> whose \<^verbatim>\<open>_id\<close> is not in the
    current user's role set, and copies into it every document of the temporary roles
    collection whose \<^verbatim>\<open>_id\<close> is not in that set;
  \<^item> deletes every document of \<^verbatim>\<open>admin.system.users\<close> but the one of the current
    user's identifier, and copies into it every document of the temporary users
    collection of another identifier;
  \<^item> drops both temporary collections.
\<close>

theorem C6_swapUsers_splices:
  assumes "fails s = (\<lambda>c. None)"
    and "distinct (map doc_id (documents s (DB, tmpRoles)))"
    and "distinct (map doc_id (documents s (DB, tmpUsers)))"
  shows "fst (swapUsers s exclude) = None
    \<and> documents (snd (swapUsers s exclude)) (''admin'', ''system.roles'') =
        filter (\<lambda>d. doc_id d \<in> set (erolesOf exclude)) (documents s (''admin'', ''system.roles''))
        @ filter (\<lambda>d. doc_id d \<notin> set (erolesOf exclude)) (documents s (DB, tmpRoles))
    \<and> documents (snd (swapUsers s exclude)) (''admin'', ''system.users'') =
        filter (\<lambda>d. doc_id d = userOf exclude) (documents s (''admin'', ''system.users''))
        @ filter (\<lambda>d. doc_id d \<noteq> userOf exclude) (documents s (DB, tmpUsers))
    \<and> colls (snd (swapUsers s exclude)) (DB, tmpRoles) = None
    \<and> colls (snd (swapUsers s exclude)) (DB, tmpUsers) = None"
  using assms by (rule swapUsers_ok)

theorem C6_swapUsers_splices_witness:
  "fails session0 = (\<lambda>c. None)
   \<and> distinct (map doc_id (documents session0 (DB, tmpRoles)))
   \<and> distinct (map doc_id (documents session0 (DB, tmpUsers)))
   \<and> fst (swapUsers session0 auth0) = None
   \<and> documents (snd (swapUsers session0 auth0)) (''admin'', ''system.roles'') =
       [\<lparr>doc_id = ''admin.pbmRole'', body = [1]\<rparr>, \<lparr>doc_id = ''app.reader'', body = [6]\<rparr>]
   \<and> documents (snd (swapUsers session0 auth0)) (''admin'', ''system.users'') =
       [\<lparr>doc_id = ''admin.pbm'', body = [3]\<rparr>, \<lparr>doc_id = ''app.alice'', body = [8]\<rparr>]
   \<and> colls (snd (swapUsers session0 auth0)) (DB, tmpRoles) = None
   \<and> colls (snd (swapUsers session0 auth0)) (DB, tmpUsers) = None"
  using C6_swapUsers_splices[of session0 auth0]
  by (simp add: session0_facts erolesOf_def userOf_def auth0_def)

text \<open>
  C10. When the current session's \<^verbatim>\<open>AuthInfo\<close> lists no user, the identifier to
  preserve is the empty string. On a session whose calls do not fail, whose temporary
  collections hold each \<^verbatim>\<open>_id\<close> once, and where no user document has the empty
  \<^verbatim>\<open>_id\<close>, the splice then leaves in \<^verbatim>\<open>admin.system.users\<close> exactly the documents of
  the temporary users collection: every user document that was there is deleted, the
  executing session's own included.
\<close>

theorem C10_no_user_preserved:
  assumes "fails s = (\<lambda>c. None)"
    and "distinct (map doc_id (documents s (DB, tmpRoles)))"
    and "distinct (map doc_id (documents s (DB, tmpUsers)))"
    and "Users exclude = []"
    and "\<forall>d\<in>set (documents s (''admin'', ''system.users'')). doc_id d \<noteq> []"
    and "\<forall>d\<in>set (documents s (DB, tmpUsers)). doc_id d \<noteq> []"
  shows "userOf exclude = []
    \<and> fst (swapUsers s exclude) = None
    \<and> documents (snd (swapUsers s exclude)) (''admin'', ''system.users'') =
        documents s (DB, tmpUsers)"
proof -
  have u: "userOf exclude = []" using assms(4) by (simp add: userOf_def)
  have old: "filter (\<lambda>d. doc_id d = []) (documents s (''admin'', ''system.users'')) = []"
    using assms(5) by (simp add: filter_empty_conv)
  have new: "filter (\<lambda>d. doc_id d \<noteq> []) (documents s (DB, tmpUsers)) = documents s (DB, tmpUsers)"
    using assms(6) by (simp add: filter_id_conv)
  from swapUsers_ok[OF assms(1-3), of exclude] u old new
  show ?thesis by simp
qed

theorem C10_no_user_preserved_witness:
  "fails session0 = (\<lambda>c. None)
   \<and> distinct (map doc_id (documents session0 (DB, tmpRoles)))
   \<and> distinct (map doc_id (documents session0 (DB, tmpUsers)))
   \<and> Users auth_nouser = []
   \<and> list_all (\<lambda>d. doc_id d \<noteq> []) (documents session0 (''admin'', ''system.users''))
   \<and> list_all (\<lambda>d. doc_id d \<noteq> []) (documents session0 (DB, tmpUsers))
   \<and> fst (swapUsers session0 auth_nouser) = None
   \<and> documents (snd (swapUsers session0 auth_nouser)) (''admin'', ''system.users'') =
       [\<lparr>doc_id = ''admin.pbm'', body = [7]\<rparr>, \<lparr>doc_id = ''app.alice'', body = [8]\<rparr>]"
  using C10_no_user_preserved[of session0 auth_nouser]
  by (simp add: session0_facts auth_nouser_def)

section \<open>The restore: the precondition on the backup, and the convergence loops\<close>

lemma andThen_simps:
  "andThen (pass x) f = f x"
  "andThen (ret r) f = ret r"
  "andThen (call e y) g = (\<lambda>log. g y (log @ [e]))"
  "andThen (await None) h = (\<lambda>log. (Blocked, log))"
  "andThen (await (Some (err, effs))) h = (\<lambda>log. h err (log @ effs))"
  "andThen (\<lambda>log. (Next x, k log)) f = (\<lambda>log. f x (k log))"
  "andThen (\<lambda>log. (Return r, k log)) f = (\<lambda>log. (Return r, k log))"
  "andThen (\<lambda>log. (Blocked, k log)) f = (\<lambda>log. (Blocked, k log))"
  by (auto simp: andThen_def pass_def ret_def call_def await_def)

lemma check_simps:
  "check None w = pass ()"
  "check (Some e) w = ret (Some (w e))"
  by (simp_all add: check_def)

lemma orReturn_simps:
  "orReturn (Inr x) w = pass x"
  "orReturn (Inl e) w = ret (Some (w e))"
  by (simp_all add: orReturn_def)

lemma ret_apply: "ret r log = (Return r, log)"
  by (simp add: ret_def)

lemma pass_apply: "pass x log = (Next x, log)"
  by (simp add: pass_def)

lemma deferred_apply:
  "m log = (Return r, log') \<Longrightarrow> deferred d m log = (Return r, log' @ d r)"
  by (simp add: deferred_def)

text \<open>
  C5. When the storage is configured and the backup's metadata is resolved, from the
  store or, the store having no such document, from the metadata file of the blob
  store, and its status is not \<^verbatim>\<open>StatusDone\<close>: \<^verbatim>\<open>Run\<close> returns an error and has
  issued no call that changes the cluster (no restore metadata written, no heartbeat
  started, nothing restored).
\<close>

theorem C5_backup_not_done:
  assumes "GetStorage pbm = Inr stg"
    and "GetBackupMeta pbm (cmd_BackupName cmd) = Inr bcp
         \<or> (\<exists>err. GetBackupMeta pbm (cmd_BackupName cmd) = Inl err \<and> Cause err = ErrNoDocuments
               \<and> getMetaFromStore (jsonDecode env) (cmd_BackupName cmd) stg = Inr bcp)"
    and "bm_Status bcp \<noteq> StatusDone"
  shows "Run pbm nd env sch cmd =
     (Return (Some (Errorf ''backup wasn't successful: status: %s, error: %s''
                      [AStatus (bm_Status bcp), AStr (bm_Error bcp)])), [])"
  using assms
  by (auto simp: Run_def andThen_simps orReturn_simps ret_apply)

theorem C5_backup_not_done_witness:
  "GetStorage pbm_failed = Inr \<lparr>SourceReader = (\<lambda>n. Inr [])\<rparr>
   \<and> GetBackupMeta pbm_failed (cmd_BackupName cmd0)
       = Inr (backup_b1\<lparr>bm_Status := StatusError, bm_Error := ''oplog: write to pipe''\<rparr>)
   \<and> bm_Status (backup_b1\<lparr>bm_Status := StatusError, bm_Error := ''oplog: write to pipe''\<rparr>)
       \<noteq> StatusDone
   \<and> Run pbm_failed node0 env0 sched_timeout cmd0 =
     (Return (Some (Errorf ''backup wasn't successful: status: %s, error: %s''
                      [AStatus StatusError, AStr ''oplog: write to pipe''])), [])"
  using C5_backup_not_done[of pbm_failed "\<lparr>SourceReader = (\<lambda>n. Inr [])\<rparr>" cmd0
      "backup_b1\<lparr>bm_Status := StatusError, bm_Error := ''oplog: write to pipe''\<rparr>"
      env0 node0 sched_timeout]
  by (simp add: pbm_failed_def pbm0_def)

lemma convergeCluster_filter:
  "convergeCluster pbm nm shards st (filter (\<lambda>e. \<not> elapsed e) evs) =
   convergeCluster pbm nm shards st evs"
proof (induction evs)
  case Nil
  then show ?case by simp
next
  case (Cons e evs)
  then show ?case by (cases e) (auto split: prod.splits option.splits bool.splits)
qed

lemma reconcileStatus_filter:
  "reconcileStatus pbm nm st im None (filter (\<lambda>e. \<not> elapsed e) evs) =
   reconcileStatus pbm nm st im None evs"
  by (auto simp: reconcileStatus_def convergeCluster_filter split: sum.splits)

lemma Run_oplog_untimed:
  "Run_oplog pbm nd env (untimed sch) cmd stg bcp im rsBackup rsMeta =
   Run_oplog pbm nd env sch cmd stg bcp im rsBackup rsMeta"
  by (simp add: Run_oplog_def untimed_def reconcileStatus_filter)

lemma Run_dump_untimed:
  "Run_dump pbm nd env (untimed sch) cmd stg bcp im rsBackup rsMeta =
   Run_dump pbm nd env sch cmd stg bcp im rsBackup rsMeta"
  unfolding Run_dump_def Run_oplog_untimed
  by (simp add: untimed_def reconcileStatus_filter)

lemma Run_started_untimed:
  "Run_started pbm nd env (untimed sch) cmd stg bcp im rsBackup rsName =
   Run_started pbm nd env sch cmd stg bcp im rsBackup rsName"
  unfolding Run_started_def Run_dump_untimed
  by (simp add: untimed_def)

text \<open>
  The timer has no part in the two later convergence loops: a run is the same
  without their timer events.
\<close>

lemma Run_untimed:
  "Run pbm nd env (untimed sch) cmd = Run pbm nd env sch cmd"
  unfolding Run_def Run_started_untimed ..

text \<open>A tick that leaves a loop pending issues no call.\<close>

lemma converged_pending:
  "fst (converged pbm v nm shards st) = (False, None) \<Longrightarrow>
   converged pbm v nm shards st = ((False, None), [])"
  by (auto simp: converged_def split: sum.splits option.splits if_splits)

text \<open>A loop without timeout that sees only pending events has not returned.\<close>

lemma convergeCluster_pending:
  "\<forall>e\<in>set evs. pending pbm nm shards st e \<Longrightarrow> convergeCluster pbm nm shards st evs = None"
proof (induction evs)
  case Nil
  then show ?case by simp
next
  case (Cons e evs)
  then show ?case
    by (cases e) (auto split: prod.splits option.splits bool.splits)
qed

text \<open>
  After pending events, a loop without timeout returns at a cancellation, with no
  error, and at a tick at which \<^verbatim>\<open>converged\<close> returns true or an error, with that
  error.
\<close>

lemma convergeCluster_decided:
  assumes "\<forall>e\<in>set pre. pending pbm nm shards st e" and "\<not> pending pbm nm shards st e"
  shows "convergeCluster pbm nm shards st (pre @ e # rest) =
     (case e of
        Tick v \<Rightarrow> Some (snd (fst (converged pbm v nm shards st)), snd (converged pbm v nm shards st))
      | Elapsed d \<Rightarrow> None
      | Cancelled \<Rightarrow> Some (None, []))"
  using assms
proof (induction pre)
  case Nil
  then show ?case
    by (cases e) (auto split: prod.splits option.splits bool.splits)
next
  case (Cons a pre)
  then have IH: "convergeCluster pbm nm shards st (pre @ e # rest) =
     (case e of
        Tick v \<Rightarrow> Some (snd (fst (converged pbm v nm shards st)), snd (converged pbm v nm shards st))
      | Elapsed d \<Rightarrow> None
      | Cancelled \<Rightarrow> Some (None, []))" by simp
  have pa: "pending pbm nm shards st a" using Cons.prems by simp
  show ?case
  proof (cases a)
    case (Tick v)
    then have "converged pbm v nm shards st = ((False, None), [])"
      using pa converged_pending by simp
    then show ?thesis using Tick IH by (cases e) (simp_all add: option.map_ident)
  next
    case (Elapsed d)
    then show ?thesis using IH by simp
  next
    case Cancelled
    then show ?thesis using pa by simp
  qed
qed

text \<open>
  The loop with the timeout \<open>t\<close>: it has not returned after events that leave it
  pending, timer events of a duration below \<open>t\<close> among them; after them it returns
  the timeout error at a timer event of a duration from \<open>t\<close> on, and at a tick or a
  cancellation as the loop without timeout does.
\<close>

lemma convergeClusterWithTimeout_pending:
  "\<forall>e\<in>set evs. pending_before t pbm nm shards st e \<Longrightarrow>
   convergeClusterWithTimeout pbm nm shards st t evs = None"
proof (induction evs)
  case Nil
  then show ?case by simp
next
  case (Cons e evs)
  then show ?case
    by (cases e) (auto split: prod.splits option.splits bool.splits)
qed

lemma convergeClusterWithTimeout_decided:
  assumes "\<forall>e\<in>set pre. pending_before t pbm nm shards st e"
    and "\<not> pending_before t pbm nm shards st e"
  shows "convergeClusterWithTimeout pbm nm shards st t (pre @ e # rest) =
     (case e of
        Tick v \<Rightarrow> Some (snd (fst (converged pbm v nm shards st)), snd (converged pbm v nm shards st))
      | Elapsed d \<Rightarrow> Some (Some ErrConvergeTimeOut, [])
      | Cancelled \<Rightarrow> Some (None, []))"
  using assms
proof (induction pre)
  case Nil
  then show ?case
    by (cases e) (auto split: prod.splits option.splits bool.splits)
next
  case (Cons a pre)
  then have IH: "convergeClusterWithTimeout pbm nm shards st t (pre @ e # rest) =
     (case e of
        Tick v \<Rightarrow> Some (snd (fst (converged pbm v nm shards st)), snd (converged pbm v nm shards st))
      | Elapsed d \<Rightarrow> Some (Some ErrConvergeTimeOut, [])
      | Cancelled \<Rightarrow> Some (None, []))" by simp
  have pa: "pending_before t pbm nm shards st a" using Cons.prems by simp
  show ?case
  proof (cases a)
    case (Tick v)
    then have "converged pbm v nm shards st = ((False, None), [])"
      using pa converged_pending by simp
    then show ?thesis using Tick IH by (cases e) (simp_all add: option.map_ident)
  next
    case (Elapsed d)
    then show ?thesis using IH pa by simp
  next
    case Cancelled
    then show ?thesis using pa by simp
  qed
qed

lemma reconcileStatus_pending:
  assumes "participants pbm im = Inr shards"
    and "\<forall>e\<in>set evs. pending pbm nm shards st e"
  shows "reconcileStatus pbm nm st im None evs = None"
  using assms by (simp add: reconcileStatus_def convergeCluster_pending)

lemma reconcileStatus_decided:
  assumes "participants pbm im = Inr shards"
    and "\<forall>e\<in>set pre. pending pbm nm shards st e" and "\<not> pending pbm nm shards st e"
  shows "reconcileStatus pbm nm st im None (pre @ e # rest) =
     (case e of
        Tick v \<Rightarrow> Some (Wrap (snd (fst (converged pbm v nm shards st))) ''convergeCluster'',
                        snd (converged pbm v nm shards st))
      | Elapsed d \<Rightarrow> None
      | Cancelled \<Rightarrow> Some (None, []))"
  using assms(1) convergeCluster_decided[OF assms(2,3), of rest]
  by (cases e) (simp_all add: reconcileStatus_def)

lemma reconcileStatus_timed_pending:
  assumes "participants pbm im = Inr shards"
    and "\<forall>e\<in>set evs. pending_before t pbm nm shards st e"
  shows "reconcileStatus pbm nm st im (Some t) evs = None"
  using assms by (simp add: reconcileStatus_def convergeClusterWithTimeout_pending)

lemma reconcileStatus_timed_decided:
  assumes "participants pbm im = Inr shards"
    and "\<forall>e\<in>set pre. pending_before t pbm nm shards st e"
    and "\<not> pending_before t pbm nm shards st e"
  shows "reconcileStatus pbm nm st im (Some t) (pre @ e # rest) =
     (case e of
        Tick v \<Rightarrow> Some (Wrap (snd (fst (converged pbm v nm shards st)))
                          ''convergeClusterWithTimeout'',
                        snd (converged pbm v nm shards st))
      | Elapsed d \<Rightarrow> Some (Some (Wrapped ErrConvergeTimeOut ''convergeClusterWithTimeout''), [])
      | Cancelled \<Rightarrow> Some (None, []))"
  using assms(1) convergeClusterWithTimeout_decided[OF assms(2,3), of rest]
  by (cases e) (simp_all add: reconcileStatus_def)

section \<open>The restore at its three convergence loops\<close>

lemma fst_deferred: "fst (deferred d m log) = fst (m log)"
  by (simp add: deferred_def split: prod.splits step.splits)

lemma snd_deferred_Return:
  "fst (m log) = Return r \<Longrightarrow> snd (deferred d m log) = snd (m log) @ d r"
  by (cases "m log") (simp add: deferred_def)

text \<open>
  A run of the leader that has entered the first convergence loop is the rest of the
  function, \<open>Run_dump\<close>, under the two deferred functions.
\<close>

lemma Run_as_dump:
  assumes "reaches_Running pbm nd env sch cmd stg bcp im rsBackup"
  shows "Run pbm nd env sch cmd =
     deferred (\<lambda>err. [HeartbeatStopped])
       (deferred
          (\<lambda>err. case err of
                    None \<Rightarrow> []
                  | Some e \<Rightarrow> snd (MarkFailed pbm (cmd_Name cmd) (rsName_of im) (ErrorText e)))
          (Run_dump pbm nd env sch cmd stg bcp im rsBackup (rsMeta_of env im)))
       [SetRestoreMetaCall (meta_of env cmd), HeartbeatStarted (cmd_Name cmd)]"
proof -
  have started: "Run_started pbm nd env sch cmd stg bcp im rsBackup (rsName_of im) =
      deferred
          (\<lambda>err. case err of
                    None \<Rightarrow> []
                  | Some e \<Rightarrow> snd (MarkFailed pbm (cmd_Name cmd) (rsName_of im) (ErrorText e)))
          (Run_dump pbm nd env sch cmd stg bcp im rsBackup (rsMeta_of env im))"
    using assms
    by (simp add: reaches_Running_def Run_started_def polled_def andThen_simps check_simps
        Let_def rsMeta_of_def)
  have meta: "SetRestoreMeta pbm
      \<lparr>rm_Name = cmd_Name cmd, rm_Backup = cmd_BackupName cmd, rm_StartTS = now_meta env,
       rm_Status = StatusStarting, rm_Error = [], rm_Replsets = [], rm_Hb = \<lparr>T = 0, I = 0\<rparr>\<rparr>
      = None"
    using assms by (simp add: reaches_Running_def meta_of_def)
  have rsn: "(if SetName im = [] then NoReplset else SetName im) = rsName_of im"
    by (simp add: rsName_of_def)
  show ?thesis
    using assms started meta
    unfolding reaches_Running_def Run_def rsn
    by (simp add: andThen_simps check_simps orReturn_simps Let_def meta_of_def rsn
        del: find_replset.simps)
qed

lemma Run_fst:
  assumes "reaches_Running pbm nd env sch cmd stg bcp im rsBackup"
  shows "fst (Run pbm nd env sch cmd) =
     fst (Run_dump pbm nd env sch cmd stg bcp im rsBackup (rsMeta_of env im)
            [SetRestoreMetaCall (meta_of env cmd), HeartbeatStarted (cmd_Name cmd)])"
  by (simp add: Run_as_dump[OF assms] fst_deferred)

text \<open>
  When such a run returns an error, the deferred function has called
  \<^verbatim>\<open>ChangeRestoreState\<close> with \<^verbatim>\<open>StatusError\<close> and the error: the restore is marked as
  failed.
\<close>

lemma Run_marks_failed:
  assumes "reaches_Running pbm nd env sch cmd stg bcp im rsBackup"
    and "fst (Run pbm nd env sch cmd) = Return (Some e)"
  shows "ChangeRestoreStateCall (cmd_Name cmd) StatusError (ErrorText e)
           \<in> set (snd (Run pbm nd env sch cmd))"
proof -
  let ?d = "\<lambda>err. case err of
                    None \<Rightarrow> []
                  | Some e \<Rightarrow> snd (MarkFailed pbm (cmd_Name cmd) (rsName_of im) (ErrorText e))"
  let ?inner = "deferred ?d (Run_dump pbm nd env sch cmd stg bcp im rsBackup (rsMeta_of env im))"
  let ?log = "[SetRestoreMetaCall (meta_of env cmd), HeartbeatStarted (cmd_Name cmd)]"
  have r: "fst (Run_dump pbm nd env sch cmd stg bcp im rsBackup (rsMeta_of env im) ?log)
             = Return (Some e)"
    using assms(2) Run_fst[OF assms(1)] by simp
  have i: "fst (?inner ?log) = Return (Some e)" using r by (simp add: fst_deferred)
  have "ChangeRestoreStateCall (cmd_Name cmd) StatusError (ErrorText e)
          \<in> set (snd (MarkFailed pbm (cmd_Name cmd) (rsName_of im) (ErrorText e)))"
    by (simp add: MarkFailed_def split: option.splits)
  then have "ChangeRestoreStateCall (cmd_Name cmd) StatusError (ErrorText e)
               \<in> set (snd (?inner ?log))"
    using snd_deferred_Return[of "Run_dump pbm nd env sch cmd stg bcp im rsBackup (rsMeta_of env im)"
        ?log "Some e" ?d, OF r]
    by simp
  then show ?thesis
    using snd_deferred_Return[of ?inner ?log "Some e" "\<lambda>err. [HeartbeatStopped]", OF i]
    by (simp add: Run_as_dump[OF assms(1)])
qed

text \<open>
  The convergence toward \<^verbatim>\<open>StatusRunning\<close>, with the timeout \<^verbatim>\<open>WaitActionStart\<close>: the
  run waits while the loop has not returned, and returns the loop's error, wrapped
  as the missing response of the shards when it is the timeout error.
\<close>

lemma Run_at_Running:
  assumes "reaches_Running pbm nd env sch cmd stg bcp im rsBackup"
  shows "reconcileStatus pbm (cmd_Name cmd) StatusRunning im (Some WaitActionStart)
           (conv_Running sch) = None
         \<Longrightarrow> fst (Run pbm nd env sch cmd) = Blocked"
    and "reconcileStatus pbm (cmd_Name cmd) StatusRunning im (Some WaitActionStart)
           (conv_Running sch) = Some (Some e, effs)
         \<Longrightarrow> fst (Run pbm nd env sch cmd) =
               Return (Some (if Cause e = ErrConvergeTimeOut
                             then Wrapped e ''couldn't get response from all shards''
                             else Wrapped e ''check cluster for restore started''))"
proof -
  have h: "IsLeader im" "AddRestoreRSMeta pbm (cmd_Name cmd) (rsMeta_of env im) = None"
    using assms by (simp_all add: reaches_Running_def)
  show "fst (Run pbm nd env sch cmd) = Blocked"
    if "reconcileStatus pbm (cmd_Name cmd) StatusRunning im (Some WaitActionStart)
           (conv_Running sch) = None"
    using h that
    by (simp add: Run_fst[OF assms] Run_dump_def andThen_simps check_simps)
  show "fst (Run pbm nd env sch cmd) =
               Return (Some (if Cause e = ErrConvergeTimeOut
                             then Wrapped e ''couldn't get response from all shards''
                             else Wrapped e ''check cluster for restore started''))"
    if "reconcileStatus pbm (cmd_Name cmd) StatusRunning im (Some WaitActionStart)
           (conv_Running sch) = Some (Some e, effs)"
    using h that
    by (simp add: Run_fst[OF assms] Run_dump_def andThen_simps check_simps ret_apply)
qed

text \<open>
  The convergence toward \<^verbatim>\<open>StatusDumpDone\<close>, without timeout: the run waits while
  the loop has not returned, and returns the loop's error.
\<close>

lemma Run_dump_to_DumpDone:
  assumes "reaches_DumpDone pbm nd env sch cmd stg bcp im rsBackup"
  shows "\<exists>log'. Run_dump pbm nd env sch cmd stg bcp im rsBackup (rsMeta_of env im) log =
     andThen
       (andThen (await (reconcileStatus pbm (cmd_Name cmd) StatusDumpDone im None
                          (conv_DumpDone sch)))
          (\<lambda>err. check err (\<lambda>e. Wrapped e ''check cluster for restore dump done'')))
       (\<lambda>_.
     andThen (await (polled (waitForStatus (cmd_Name cmd) StatusDumpDone (wait_DumpDone sch))))
       (\<lambda>err.
     andThen (check err (\<lambda>e. Wrapped e ''waiting for start''))
       (\<lambda>_. Run_oplog pbm nd env sch cmd stg bcp im rsBackup (rsMeta_of env im)))) log'"
proof -
  from assms obtain effs sr dumpReader ver where h:
    "IsLeader im" "AddRestoreRSMeta pbm (cmd_Name cmd) (rsMeta_of env im) = None"
    "reconcileStatus pbm (cmd_Name cmd) StatusRunning im (Some WaitActionStart)
       (conv_Running sch) = Some (None, effs)"
    "waitForStatus (cmd_Name cmd) StatusRunning (wait_Running sch) = Some None"
    "SourceReader stg (DumpName rsBackup) = Inr sr"
    "Decompress env sr (bm_Compression bcp) = Inr dumpReader"
    "res_Err (mongorestore env dumpReader) = None"
    "GetMongoVersion nd = Inr ver" "\<not> length (Version ver) < 1"
    "NewSessionProvider env (ConnURI nd) = None"
    "ChangeRestoreRSState pbm (cmd_Name cmd) (rs_Name (rsMeta_of env im)) StatusDumpDone NoMsg
       = None"
    by (auto simp: reaches_DumpDone_def reaches_Running_def rsMeta_of_def split: sum.splits)
  show ?thesis
    using h
    by (simp add: Run_dump_def andThen_simps check_simps orReturn_simps pass_apply
          polled_def[of "Some None"])
       blast
qed

lemma Run_at_DumpDone:
  assumes "reaches_DumpDone pbm nd env sch cmd stg bcp im rsBackup"
  shows "reconcileStatus pbm (cmd_Name cmd) StatusDumpDone im None (conv_DumpDone sch) = None
         \<Longrightarrow> fst (Run pbm nd env sch cmd) = Blocked"
    and "reconcileStatus pbm (cmd_Name cmd) StatusDumpDone im None (conv_DumpDone sch)
           = Some (Some e, effs)
         \<Longrightarrow> fst (Run pbm nd env sch cmd) =
               Return (Some (Wrapped e ''check cluster for restore dump done''))"
proof -
  have r: "reaches_Running pbm nd env sch cmd stg bcp im rsBackup"
    using assms by (simp add: reaches_DumpDone_def)
  obtain log' where d:
    "Run_dump pbm nd env sch cmd stg bcp im rsBackup (rsMeta_of env im)
       [SetRestoreMetaCall (meta_of env cmd), HeartbeatStarted (cmd_Name cmd)] =
     andThen
       (andThen (await (reconcileStatus pbm (cmd_Name cmd) StatusDumpDone im None
                          (conv_DumpDone sch)))
          (\<lambda>err. check err (\<lambda>e. Wrapped e ''check cluster for restore dump done'')))
       (\<lambda>_.
     andThen (await (polled (waitForStatus (cmd_Name cmd) StatusDumpDone (wait_DumpDone sch))))
       (\<lambda>err.
     andThen (check err (\<lambda>e. Wrapped e ''waiting for start''))
       (\<lambda>_. Run_oplog pbm nd env sch cmd stg bcp im rsBackup (rsMeta_of env im)))) log'"
    using Run_dump_to_DumpDone[OF assms] by blast
  show "fst (Run pbm nd env sch cmd) = Blocked"
    if "reconcileStatus pbm (cmd_Name cmd) StatusDumpDone im None (conv_DumpDone sch) = None"
    using that by (simp add: Run_fst[OF r] d andThen_simps)
  show "fst (Run pbm nd env sch cmd) =
               Return (Some (Wrapped e ''check cluster for restore dump done''))"
    if "reconcileStatus pbm (cmd_Name cmd) StatusDumpDone im None (conv_DumpDone sch)
           = Some (Some e, effs)"
    using that by (simp add: Run_fst[OF r] d andThen_simps check_simps ret_apply)
qed

text \<open>
  The convergence toward \<^verbatim>\<open>StatusDone\<close>, without timeout, is the last statement but
  one: the run waits while the loop has not returned, and returns what the loop
  returns.
\<close>

lemma Run_at_Done:
  assumes "reaches_Done pbm nd env sch cmd stg bcp im rsBackup"
  shows "fst (Run pbm nd env sch cmd) =
     (case reconcileStatus pbm (cmd_Name cmd) StatusDone im None (conv_Done sch) of
        None \<Rightarrow> Blocked
      | Some (r, effs) \<Rightarrow> Return (Wrap r ''check cluster for the restore done''))"
proof -
  have dd: "reaches_DumpDone pbm nd env sch cmd stg bcp im rsBackup"
    using assms by (simp add: reaches_Done_def)
  have r: "reaches_Running pbm nd env sch cmd stg bcp im rsBackup"
    using dd by (simp add: reaches_DumpDone_def)
  obtain log' where d:
    "Run_dump pbm nd env sch cmd stg bcp im rsBackup (rsMeta_of env im)
       [SetRestoreMetaCall (meta_of env cmd), HeartbeatStarted (cmd_Name cmd)] =
     andThen
       (andThen (await (reconcileStatus pbm (cmd_Name cmd) StatusDumpDone im None
                          (conv_DumpDone sch)))
          (\<lambda>err. check err (\<lambda>e. Wrapped e ''check cluster for restore dump done'')))
       (\<lambda>_.
     andThen (await (polled (waitForStatus (cmd_Name cmd) StatusDumpDone (wait_DumpDone sch))))
       (\<lambda>err.
     andThen (check err (\<lambda>e. Wrapped e ''waiting for start''))
       (\<lambda>_. Run_oplog pbm nd env sch cmd stg bcp im rsBackup (rsMeta_of env im)))) log'"
    using Run_dump_to_DumpDone[OF dd] by blast
  from assms obtain effs oplog oplogReader cusr where h:
    "IsLeader im"
    "reconcileStatus pbm (cmd_Name cmd) StatusDumpDone im None (conv_DumpDone sch)
       = Some (None, effs)"
    "waitForStatus (cmd_Name cmd) StatusDumpDone (wait_DumpDone sch) = Some None"
    "SourceReader stg (OplogName rsBackup) = Inr oplog"
    "Decompress env oplog (bm_Compression bcp) = Inr oplogReader"
    "oplogApply env oplogReader = None"
    "CurrentUser nd = Inr cusr"
    "fst (restoreUsers (session (cn nd)) cusr) = None"
    "ChangeRestoreRSState pbm (cmd_Name cmd) (rs_Name (rsMeta_of env im)) StatusDone NoMsg = None"
    by (auto simp: reaches_Done_def reaches_DumpDone_def reaches_Running_def rsMeta_of_def
        split: sum.splits)
  show ?thesis
  proof (cases "reconcileStatus pbm (cmd_Name cmd) StatusDone im None (conv_Done sch)")
    case None
    then show ?thesis
      using h
      by (simp add: Run_fst[OF r] d Run_oplog_def andThen_simps check_simps orReturn_simps
          polled_def pass_apply ret_apply)
  next
    case (Some res)
    obtain err effs' where res: "res = (err, effs')" by (cases res)
    show ?thesis
      using h Some res
      by (cases err)
         (simp_all add: Run_fst[OF r] d Run_oplog_def andThen_simps check_simps orReturn_simps
            polled_def pass_apply ret_apply)
  qed
qed

lemma run0_facts:
  "GetStorage pbm0 = Inr \<lparr>SourceReader = (\<lambda>n. Inr [])\<rparr>"
  "GetBackupMeta pbm0 ''b1'' = Inr backup_b1"
  "bm_Status backup_b1 = StatusDone"
  "GetIsMaster node0 = Inr im0"
  "find_replset (if SetName im0 = [] then NoReplset else SetName im0) (bm_Replsets backup_b1) None
     = Some \<lparr>brs_Name = ''rs0'', DumpName = ''b1_rs0.dump.s2'', OplogName = ''b1_rs0.oplog.s2''\<rparr>"
  "IsLeader im0"
  "\<forall>m. SetRestoreMeta pbm0 m = None"
  "waitForStatus ''r1'' StatusStarting (wait_Starting sched_timeout) = Some None"
  "\<forall>rs. AddRestoreRSMeta pbm0 ''r1'' rs = None"
  "participants pbm0 im0 = Inr shards0"
  by (simp_all add: pbm0_def backup_b1_def GetIsMaster_def node0_def client0_def im0_def
      sched_timeout_def view_nolock_def meta_r1_def StaleFrameSec_def participants_def
      shards0_def)

lemma converged0_facts:
  "converged pbm0 view_nolock ''r1'' shards0 StatusRunning = ((False, None), [])"
  "converged pbm0 view_nolock ''r1'' shards0 StatusDumpDone = ((False, None), [])"
  "converged pbm0 view_stale ''r1'' shards0 StatusDumpDone =
     ((False, Some (Errorf ''lost shard %s, last beat ts: %d'' [AStr ''rs0'', AU32 900])), [])"
  by (simp_all add: view_stale_def view_nolock_def meta_r1_def rs0_entry_def shards0_def
      converged_def check_shard_def pbm0_def StaleFrameSec_def)

section \<open>A run that completes\<close>

text \<open>
  On the schedule \<open>sched_ok\<close> the leader's run returns no error, and issues its calls
  in the order of the pipeline: the restore's metadata and the heartbeat, the shard's
  metadata, the cluster-wide \<^verbatim>\<open>StatusRunning\<close>, the dump restore, the shard's and the
  cluster's \<^verbatim>\<open>StatusDumpDone\<close>, the oplog replay, the splice of users and roles, the
  shard's and the cluster's \<^verbatim>\<open>StatusDone\<close>, and the end of the heartbeat.
\<close>

lemma converged_at:
  "converged pbm0 (view_at c s) ''r1'' shards0 st =
     (if s = st then ((True, None), [ChangeRestoreStateCall ''r1'' st NoMsg])
      else if s = StatusError
      then ((False, Some (Errorf ''restore on the shard %s failed with: %s''
                            [AStr ''rs0'', AStr []])), [])
      else ((False, None), []))"
  by (simp add: converged_def view_at_def meta_r1_def rs0_entry_def shards0_def check_shard_def
      StaleFrameSec_def pbm0_def)

lemma waitForStatus_at:
  "waitForStatus ''r1'' st [Tick (view_at st s)] = Some None"
  by (simp add: view_at_def meta_r1_def StaleFrameSec_def)

lemma reconcile_ok:
  "reconcileStatus pbm0 ''r1'' StatusRunning im0 (Some WaitActionStart) (conv_Running sched_ok)
     = Some (None, [ChangeRestoreStateCall ''r1'' StatusRunning NoMsg])"
  "reconcileStatus pbm0 ''r1'' StatusDumpDone im0 None (conv_DumpDone sched_ok)
     = Some (None, [ChangeRestoreStateCall ''r1'' StatusDumpDone NoMsg])"
  "reconcileStatus pbm0 ''r1'' StatusDone im0 None (conv_Done sched_ok)
     = Some (None, [ChangeRestoreStateCall ''r1'' StatusDone NoMsg])"
  by (simp_all add: reconcileStatus_def run0_facts sched_ok_def converged_at)

lemma waits_ok:
  "waitForStatus ''r1'' StatusStarting (wait_Starting sched_ok) = Some None"
  "waitForStatus ''r1'' StatusRunning (wait_Running sched_ok) = Some None"
  "waitForStatus ''r1'' StatusDumpDone (wait_DumpDone sched_ok) = Some None"
  by (simp_all add: sched_ok_def view_at_def meta_r1_def StaleFrameSec_def)

lemma collaborators0:
  "SourceReader \<lparr>SourceReader = (\<lambda>n. Inr [])\<rparr> n = Inr []"
  "Decompress env0 bs c = Inr bs"
  "GetMongoVersion node0 = Inr \<lparr>VersionString = ''4.2.3'', Version = [4, 2, 3]\<rparr>"
  "NewSessionProvider env0 uri = None"
  "res_Err (mongorestore env0 bs) = None"
  "oplogApply env0 bs = None"
  "CurrentUser node0 = Inr auth0"
  "session (cn node0) = session0"
  "ChangeRestoreRSState pbm0 n rs st m = None"
  "AddRestoreRSMeta pbm0 n r = None"
  "SetRestoreMeta pbm0 mt = None"
  "cmd_Name cmd0 = ''r1''" "cmd_BackupName cmd0 = ''b1''"
  "now_meta env0 = 980" "now_rs env0 = 990" "SetName im0 = ''rs0''"
  by (simp_all add: env0_def GetMongoVersion_def CurrentUser_def node0_def client0_def pbm0_def
      cmd0_def im0_def)

lemma Run_oplog_completes:
  "Run_oplog pbm0 node0 env0 sched_ok cmd0 \<lparr>SourceReader = (\<lambda>n. Inr [])\<rparr> backup_b1 im0 rsb rsm log =
     (Return None, log @ [OplogApplyCall [], SwapUsersCall auth0,
        ChangeRestoreRSStateCall ''r1'' (rs_Name rsm) StatusDone NoMsg,
        ChangeRestoreStateCall ''r1'' StatusDone NoMsg])"
  using swapUsers_ok[of session0 auth0]
  by (simp add: session0_facts Run_oplog_def andThen_simps check_simps orReturn_simps ret_apply pass_apply
      collaborators0 reconcile_ok run0_facts restoreUsers_def)

lemma Run_dump_completes:
  "Run_dump pbm0 node0 env0 sched_ok cmd0 \<lparr>SourceReader = (\<lambda>n. Inr [])\<rparr> backup_b1 im0 rsb rsm log =
     (Return None, log @ [AddRestoreRSMetaCall ''r1'' rsm,
        ChangeRestoreStateCall ''r1'' StatusRunning NoMsg,
        MongoRestoreCall [],
        ChangeRestoreRSStateCall ''r1'' (rs_Name rsm) StatusDumpDone NoMsg,
        ChangeRestoreStateCall ''r1'' StatusDumpDone NoMsg,
        OplogApplyCall [], SwapUsersCall auth0,
        ChangeRestoreRSStateCall ''r1'' (rs_Name rsm) StatusDone NoMsg,
        ChangeRestoreStateCall ''r1'' StatusDone NoMsg])"
  by (simp add: Run_dump_def andThen_simps check_simps orReturn_simps polled_def pass_apply
      collaborators0 reconcile_ok waits_ok run0_facts Run_oplog_completes)

lemma Run_completes:
  "Run pbm0 node0 env0 sched_ok cmd0 =
    (Return None,
     [SetRestoreMetaCall \<lparr>rm_Name = ''r1'', rm_Backup = ''b1'', rm_StartTS = 980,
         rm_Status = StatusStarting, rm_Error = [], rm_Replsets = [], rm_Hb = \<lparr>T = 0, I = 0\<rparr>\<rparr>,
      HeartbeatStarted ''r1'',
      AddRestoreRSMetaCall ''r1'' \<lparr>rs_Name = ''rs0'', rs_StartTS = 990, rs_Status = StatusRunning,
         rs_Error = [], rs_Conditions = []\<rparr>,
      ChangeRestoreStateCall ''r1'' StatusRunning NoMsg,
      MongoRestoreCall [],
      ChangeRestoreRSStateCall ''r1'' ''rs0'' StatusDumpDone NoMsg,
      ChangeRestoreStateCall ''r1'' StatusDumpDone NoMsg,
      OplogApplyCall [],
      SwapUsersCall auth0,
      ChangeRestoreRSStateCall ''r1'' ''rs0'' StatusDone NoMsg,
      ChangeRestoreStateCall ''r1'' StatusDone NoMsg,
      HeartbeatStopped])"
proof -
  have started: "Run_started pbm0 node0 env0 sched_ok cmd0 \<lparr>SourceReader = (\<lambda>n. Inr [])\<rparr>
      backup_b1 im0 rsb ''rs0'' log =
     (Return None, log @ [AddRestoreRSMetaCall ''r1'' \<lparr>rs_Name = ''rs0'', rs_StartTS = 990,
          rs_Status = StatusRunning, rs_Error = [], rs_Conditions = []\<rparr>,
        ChangeRestoreStateCall ''r1'' StatusRunning NoMsg,
        MongoRestoreCall [],
        ChangeRestoreRSStateCall ''r1'' ''rs0'' StatusDumpDone NoMsg,
        ChangeRestoreStateCall ''r1'' StatusDumpDone NoMsg,
        OplogApplyCall [], SwapUsersCall auth0,
        ChangeRestoreRSStateCall ''r1'' ''rs0'' StatusDone NoMsg,
        ChangeRestoreStateCall ''r1'' StatusDone NoMsg])" for rsb log
    by (simp add: Run_started_def andThen_simps check_simps polled_def waits_ok collaborators0 pass_apply
        deferred_def Run_dump_completes Let_def)
  show ?thesis
    using run0_facts(1-7)
    by (simp add: Run_def andThen_simps check_simps orReturn_simps collaborators0 pass_apply
        deferred_def started Let_def)
qed

section \<open>Lost shards and the timeout, at the level of the run\<close>

text \<open>The concrete runs enter the convergence loops they are meant for.\<close>

lemma world0_Running:
  "reaches_Running pbm0 node0 env0 sch cmd0 \<lparr>SourceReader = (\<lambda>n. Inr [])\<rparr> backup_b1 im0
     \<lparr>brs_Name = ''rs0'', DumpName = ''b1_rs0.dump.s2'', OplogName = ''b1_rs0.oplog.s2''\<rparr>
   = (waitForStatus ''r1'' StatusStarting (wait_Starting sch) = Some None)"
  using run0_facts(5)
  by (simp add: reaches_Running_def run0_facts(1-4,6) collaborators0 rsName_of_def
      del: find_replset.simps)

lemma world0_DumpDone:
  "reaches_DumpDone pbm0 node0 env0 sch cmd0 \<lparr>SourceReader = (\<lambda>n. Inr [])\<rparr> backup_b1 im0
     \<lparr>brs_Name = ''rs0'', DumpName = ''b1_rs0.dump.s2'', OplogName = ''b1_rs0.oplog.s2''\<rparr>
   = (waitForStatus ''r1'' StatusStarting (wait_Starting sch) = Some None
      \<and> map_option fst (reconcileStatus pbm0 ''r1'' StatusRunning im0 (Some WaitActionStart)
                          (conv_Running sch)) = Some None
      \<and> waitForStatus ''r1'' StatusRunning (wait_Running sch) = Some None)"
  by (simp add: reaches_DumpDone_def world0_Running collaborators0)

lemma world0_Done:
  "reaches_Done pbm0 node0 env0 sch cmd0 \<lparr>SourceReader = (\<lambda>n. Inr [])\<rparr> backup_b1 im0
     \<lparr>brs_Name = ''rs0'', DumpName = ''b1_rs0.dump.s2'', OplogName = ''b1_rs0.oplog.s2''\<rparr>
   = (waitForStatus ''r1'' StatusStarting (wait_Starting sch) = Some None
      \<and> map_option fst (reconcileStatus pbm0 ''r1'' StatusRunning im0 (Some WaitActionStart)
                          (conv_Running sch)) = Some None
      \<and> waitForStatus ''r1'' StatusRunning (wait_Running sch) = Some None
      \<and> map_option fst (reconcileStatus pbm0 ''r1'' StatusDumpDone im0 None
                          (conv_DumpDone sch)) = Some None
      \<and> waitForStatus ''r1'' StatusDumpDone (wait_DumpDone sch) = Some None)"
  using swapUsers_ok[of session0 auth0]
  by (simp add: reaches_Done_def world0_DumpDone collaborators0 session0_facts restoreUsers_def)

lemma scheds_reach:
  "reaches_Running pbm0 node0 env0 sched_timeout cmd0 \<lparr>SourceReader = (\<lambda>n. Inr [])\<rparr> backup_b1 im0
     \<lparr>brs_Name = ''rs0'', DumpName = ''b1_rs0.dump.s2'', OplogName = ''b1_rs0.oplog.s2''\<rparr>"
  "reaches_Running pbm0 node0 env0 sched_waiting cmd0 \<lparr>SourceReader = (\<lambda>n. Inr [])\<rparr> backup_b1 im0
     \<lparr>brs_Name = ''rs0'', DumpName = ''b1_rs0.dump.s2'', OplogName = ''b1_rs0.oplog.s2''\<rparr>"
  "reaches_Running pbm0 node0 env0 sched_lost cmd0 \<lparr>SourceReader = (\<lambda>n. Inr [])\<rparr> backup_b1 im0
     \<lparr>brs_Name = ''rs0'', DumpName = ''b1_rs0.dump.s2'', OplogName = ''b1_rs0.oplog.s2''\<rparr>"
  "reaches_DumpDone pbm0 node0 env0 sched_dump_waiting cmd0 \<lparr>SourceReader = (\<lambda>n. Inr [])\<rparr>
     backup_b1 im0
     \<lparr>brs_Name = ''rs0'', DumpName = ''b1_rs0.dump.s2'', OplogName = ''b1_rs0.oplog.s2''\<rparr>"
  "reaches_DumpDone pbm0 node0 env0 sched_dump_lost cmd0 \<lparr>SourceReader = (\<lambda>n. Inr [])\<rparr>
     backup_b1 im0
     \<lparr>brs_Name = ''rs0'', DumpName = ''b1_rs0.dump.s2'', OplogName = ''b1_rs0.oplog.s2''\<rparr>"
  "reaches_Done pbm0 node0 env0 sched_ok cmd0 \<lparr>SourceReader = (\<lambda>n. Inr [])\<rparr> backup_b1 im0
     \<lparr>brs_Name = ''rs0'', DumpName = ''b1_rs0.dump.s2'', OplogName = ''b1_rs0.oplog.s2''\<rparr>"
  "reaches_Done pbm0 node0 env0 sched_done_lost cmd0 \<lparr>SourceReader = (\<lambda>n. Inr [])\<rparr> backup_b1 im0
     \<lparr>brs_Name = ''rs0'', DumpName = ''b1_rs0.dump.s2'', OplogName = ''b1_rs0.oplog.s2''\<rparr>"
  "reaches_Done pbm0 node0 env0 sched_done_failed cmd0 \<lparr>SourceReader = (\<lambda>n. Inr [])\<rparr> backup_b1
     im0 \<lparr>brs_Name = ''rs0'', DumpName = ''b1_rs0.dump.s2'', OplogName = ''b1_rs0.oplog.s2''\<rparr>"
  "reaches_Done pbm0 node0 env0 sched_done_cancelled cmd0 \<lparr>SourceReader = (\<lambda>n. Inr [])\<rparr>
     backup_b1 im0
     \<lparr>brs_Name = ''rs0'', DumpName = ''b1_rs0.dump.s2'', OplogName = ''b1_rs0.oplog.s2''\<rparr>"
  by (simp_all add: world0_Running world0_DumpDone world0_Done run0_facts(8) waits_ok reconcile_ok
      sched_waiting_def sched_lost_def sched_dump_waiting_def sched_dump_lost_def
      sched_done_lost_def sched_done_failed_def sched_done_cancelled_def)

lemma converged_lost_at:
  "converged pbm0 (view_lost_at c s) ''r1'' shards0 st =
     (if st \<noteq> StatusDone
      then ((False, Some (Errorf ''lost shard %s, last beat ts: %d'' [AStr ''rs0'', AU32 900])), [])
      else converged pbm0 (view_at c s) ''r1'' shards0 st)"
  by (simp add: converged_def view_lost_at_def view_at_def meta_r1_def rs0_entry_def shards0_def
      check_shard_def StaleFrameSec_def pbm0_def)

lemma converged_stale0:
  "converged pbm0 view_stale ''r1'' shards0 StatusRunning =
     ((False, Some (Errorf ''lost shard %s, last beat ts: %d'' [AStr ''rs0'', AU32 900])), [])"
  by (simp add: view_stale_def view_nolock_def meta_r1_def rs0_entry_def shards0_def
      converged_def check_shard_def pbm0_def StaleFrameSec_def)

text \<open>
  C1 (amended). Reconciliation toward a target status other than \<^verbatim>\<open>StatusDone\<close>, at
  a poll where the metadata and the cluster time are read. For a participating shard
  with an entry in the metadata, whatever the entry's status: if the shard's lock is
  read and its \<open>heartbeat_ts + StaleFrameSec < cluster time\<close> (as the code computes it,
  in unsigned 32-bit seconds),
  \<^item> \<^verbatim>\<open>converged\<close> returns false and an error, and changes nothing. The scan stops at
    this entry at the latest: the error is the one of an entry scanned before it, if
    one of them gives an error, and otherwise the error that declares this shard lost;
  \<^item> in \<^verbatim>\<open>Run\<close>, whose targets other than \<^verbatim>\<open>StatusDone\<close> are \<^verbatim>\<open>StatusRunning\<close> and
    \<^verbatim>\<open>StatusDumpDone\<close>, when the leader's convergence loop has seen only pending events
    before this poll, \<^verbatim>\<open>Run\<close> does not wait further: it returns this error, wrapped,
    and its deferred function has called \<^verbatim>\<open>ChangeRestoreState\<close> with \<^verbatim>\<open>StatusError\<close>
    and the error, which drives the cluster status to Error.
\<close>

theorem C1_stale_lock_loses_the_shard:
  assumes "status \<noteq> StatusDone"
    and "GetRestoreMeta v nm = Inr bmeta" and "ClusterTime v = Inr ct"
    and "shards = earlier @ sh # others"
    and "rm_Replsets bmeta = before @ shard # rest" and "rs_Name shard = ID sh"
    and "GetLockData v \<lparr>lock_Type = CmdRestore, lock_BackupName = nm,
                        lock_Replset = rs_Name shard\<rparr> = Inr l"
    and "T (Heartbeat l) + StaleFrameSec < T ct"
    and "e = (case scan_shards v nm status ct (rm_Replsets bmeta) earlier (int (length shards)) of
                Inl err \<Rightarrow> err
              | Inr n \<Rightarrow>
                  (case scan_replsets v nm status ct sh before n of
                     Inl err \<Rightarrow> err
                   | Inr n' \<Rightarrow> Errorf ''lost shard %s, last beat ts: %d''
                                 [AStr (rs_Name shard), AU32 (T (Heartbeat l))]))"
  shows "converged pbm v nm shards status = ((False, Some e), [])
     \<and> (reaches_Running pbm nd env sch cmd stg bcp im rsBackup
          \<and> participants pbm im = Inr shards \<and> nm = cmd_Name cmd \<and> status = StatusRunning
          \<and> conv_Running sch = evs @ Tick v # later
          \<and> (\<forall>ev\<in>set evs. pending_before WaitActionStart pbm nm shards status ev)
        \<longrightarrow> fst (Run pbm nd env sch cmd) =
              Return (Some (Wrapped (Wrapped e ''convergeClusterWithTimeout'')
                              (if Cause e = ErrConvergeTimeOut
                               then ''couldn't get response from all shards''
                               else ''check cluster for restore started'')))
            \<and> ChangeRestoreStateCall nm StatusError
                 (ErrorText (Wrapped (Wrapped e ''convergeClusterWithTimeout'')
                               (if Cause e = ErrConvergeTimeOut
                                then ''couldn't get response from all shards''
                                else ''check cluster for restore started'')))
               \<in> set (snd (Run pbm nd env sch cmd)))
     \<and> (reaches_DumpDone pbm nd env sch cmd stg bcp im rsBackup
          \<and> participants pbm im = Inr shards \<and> nm = cmd_Name cmd \<and> status = StatusDumpDone
          \<and> conv_DumpDone sch = evs @ Tick v # later
          \<and> (\<forall>ev\<in>set evs. pending pbm nm shards status ev)
        \<longrightarrow> fst (Run pbm nd env sch cmd) =
              Return (Some (Wrapped (Wrapped e ''convergeCluster'')
                              ''check cluster for restore dump done''))
            \<and> ChangeRestoreStateCall nm StatusError
                 (ErrorText (Wrapped (Wrapped e ''convergeCluster'')
                               ''check cluster for restore dump done''))
               \<in> set (snd (Run pbm nd env sch cmd)))"
proof (intro conjI impI)
  show conv: "converged pbm v nm shards status = ((False, Some e), [])"
    using converged_stale[OF assms(1-8), of pbm] assms(9) by simp
  {
    assume h: "reaches_Running pbm nd env sch cmd stg bcp im rsBackup
          \<and> participants pbm im = Inr shards \<and> nm = cmd_Name cmd \<and> status = StatusRunning
          \<and> conv_Running sch = evs @ Tick v # later
          \<and> (\<forall>ev\<in>set evs. pending_before WaitActionStart pbm nm shards status ev)"
    let ?E = "Wrapped (Wrapped e ''convergeClusterWithTimeout'')
                (if Cause e = ErrConvergeTimeOut
                 then ''couldn't get response from all shards''
                 else ''check cluster for restore started'')"
    have reach: "reaches_Running pbm nd env sch cmd stg bcp im rsBackup" using h by blast
    have np: "\<not> pending_before WaitActionStart pbm nm shards status (Tick v)"
      by (simp add: conv)
    have part: "participants pbm im = Inr shards"
      and pend: "\<forall>ev\<in>set evs. pending_before WaitActionStart pbm nm shards status ev"
      using h by blast+
    have "reconcileStatus pbm nm status im (Some WaitActionStart) (evs @ Tick v # later) =
            Some (Some (Wrapped e ''convergeClusterWithTimeout''), [])"
      unfolding reconcileStatus_timed_decided[OF part pend np] by (simp add: conv)
    then have rec: "reconcileStatus pbm (cmd_Name cmd) StatusRunning im (Some WaitActionStart)
        (conv_Running sch) = Some (Some (Wrapped e ''convergeClusterWithTimeout''), [])"
      using h by simp
    have res: "fst (Run pbm nd env sch cmd) = Return (Some ?E)"
      using Run_at_Running(2)[OF reach rec] by simp
    show "fst (Run pbm nd env sch cmd) = Return (Some ?E)" by (rule res)
    show "ChangeRestoreStateCall nm StatusError (ErrorText ?E) \<in> set (snd (Run pbm nd env sch cmd))"
      using Run_marks_failed[OF reach res] h by simp
  }
  {
    assume h: "reaches_DumpDone pbm nd env sch cmd stg bcp im rsBackup
          \<and> participants pbm im = Inr shards \<and> nm = cmd_Name cmd \<and> status = StatusDumpDone
          \<and> conv_DumpDone sch = evs @ Tick v # later
          \<and> (\<forall>ev\<in>set evs. pending pbm nm shards status ev)"
    let ?E = "Wrapped (Wrapped e ''convergeCluster'') ''check cluster for restore dump done''"
    have reach: "reaches_DumpDone pbm nd env sch cmd stg bcp im rsBackup" using h by blast
    then have reach1: "reaches_Running pbm nd env sch cmd stg bcp im rsBackup"
      by (simp add: reaches_DumpDone_def)
    have np: "\<not> pending pbm nm shards status (Tick v)"
      by (simp add: conv)
    have part: "participants pbm im = Inr shards"
      and pend: "\<forall>ev\<in>set evs. pending pbm nm shards status ev"
      using h by blast+
    have "reconcileStatus pbm nm status im None (evs @ Tick v # later) =
            Some (Some (Wrapped e ''convergeCluster''), [])"
      unfolding reconcileStatus_decided[OF part pend np] by (simp add: conv)
    then have rec: "reconcileStatus pbm (cmd_Name cmd) StatusDumpDone im None
        (conv_DumpDone sch) = Some (Some (Wrapped e ''convergeCluster''), [])"
      using h by simp
    have res: "fst (Run pbm nd env sch cmd) = Return (Some ?E)"
      using Run_at_DumpDone(2)[OF reach rec] by simp
    show "fst (Run pbm nd env sch cmd) = Return (Some ?E)" by (rule res)
    show "ChangeRestoreStateCall nm StatusError (ErrorText ?E) \<in> set (snd (Run pbm nd env sch cmd))"
      using Run_marks_failed[OF reach1 res] h by simp
  }
qed

theorem C1_stale_lock_witness:
  "StatusRunning \<noteq> StatusDone
   \<and> shards_two = [\<lparr>ID = ''rs0'', Host = ''rs0/h1:27017''\<rparr>]
                    @ \<lparr>ID = ''rs1'', Host = ''rs1/h2:27017''\<rparr> # []
   \<and> GetLockData view_two
        \<lparr>lock_Type = CmdRestore, lock_BackupName = ''r1'', lock_Replset = ''rs0''\<rparr>
       = Inr \<lparr>Heartbeat = \<lparr>T = 999, I = 0\<rparr>\<rparr>
   \<and> GetLockData view_two
        \<lparr>lock_Type = CmdRestore, lock_BackupName = ''r1'', lock_Replset = ''rs1''\<rparr>
       = Inr \<lparr>Heartbeat = \<lparr>T = 900, I = 0\<rparr>\<rparr>
   \<and> ClusterTime view_two = Inr \<lparr>T = 1000, I = 0\<rparr>
   \<and> (900 :: u32) + StaleFrameSec < 1000
   \<and> \<not> (999 :: u32) + StaleFrameSec < 1000
   \<and> converged pbm0 view_two ''r1'' shards_two StatusRunning =
       ((False, Some (Errorf ''lost shard %s, last beat ts: %d'' [AStr ''rs1'', AU32 900])), [])
   \<and> reaches_Running pbm0 node0 env0 sched_lost cmd0 \<lparr>SourceReader = (\<lambda>n. Inr [])\<rparr> backup_b1
        im0 \<lparr>brs_Name = ''rs0'', DumpName = ''b1_rs0.dump.s2'', OplogName = ''b1_rs0.oplog.s2''\<rparr>
   \<and> conv_Running sched_lost = [Tick view_nolock, Elapsed 1000000000] @ Tick view_stale # []
   \<and> fst (Run pbm0 node0 env0 sched_lost cmd0) =
       Return (Some (Wrapped (Wrapped (Errorf ''lost shard %s, last beat ts: %d''
                                         [AStr ''rs0'', AU32 900])
                                ''convergeClusterWithTimeout'')
                       ''check cluster for restore started''))
   \<and> ChangeRestoreStateCall ''r1'' StatusError
        (ErrorText (Wrapped (Wrapped (Errorf ''lost shard %s, last beat ts: %d''
                                        [AStr ''rs0'', AU32 900])
                               ''convergeClusterWithTimeout'')
                      ''check cluster for restore started''))
       \<in> set (snd (Run pbm0 node0 env0 sched_lost cmd0))
   \<and> reaches_DumpDone pbm0 node0 env0 sched_dump_lost cmd0 \<lparr>SourceReader = (\<lambda>n. Inr [])\<rparr>
        backup_b1 im0
        \<lparr>brs_Name = ''rs0'', DumpName = ''b1_rs0.dump.s2'', OplogName = ''b1_rs0.oplog.s2''\<rparr>
   \<and> conv_DumpDone sched_dump_lost =
       [Elapsed 40000000000] @ Tick (view_lost_at StatusRunning StatusRunning) # []
   \<and> fst (Run pbm0 node0 env0 sched_dump_lost cmd0) =
       Return (Some (Wrapped (Wrapped (Errorf ''lost shard %s, last beat ts: %d''
                                         [AStr ''rs0'', AU32 900])
                                ''convergeCluster'')
                       ''check cluster for restore dump done''))
   \<and> ChangeRestoreStateCall ''r1'' StatusError
        (ErrorText (Wrapped (Wrapped (Errorf ''lost shard %s, last beat ts: %d''
                                        [AStr ''rs0'', AU32 900])
                               ''convergeCluster'')
                      ''check cluster for restore dump done''))
       \<in> set (snd (Run pbm0 node0 env0 sched_dump_lost cmd0))"
proof -
  let ?lost0 = "Errorf ''lost shard %s, last beat ts: %d'' [AStr ''rs0'', AU32 900]"
  let ?stg = "\<lparr>SourceReader = (\<lambda>n. Inr [])\<rparr>"
  let ?rsb = "\<lparr>brs_Name = ''rs0'', DumpName = ''b1_rs0.dump.s2'', OplogName = ''b1_rs0.oplog.s2''\<rparr>"
  have two: "StatusRunning \<noteq> StatusDone"
    "GetRestoreMeta view_two ''r1''
       = Inr (meta_r1\<lparr>rm_Replsets := [rs0_entry\<lparr>rs_Status := StatusRunning\<rparr>, rs1_entry]\<rparr>)"
    "ClusterTime view_two = Inr \<lparr>T = 1000, I = 0\<rparr>"
    "shards_two = [\<lparr>ID = ''rs0'', Host = ''rs0/h1:27017''\<rparr>]
                    @ \<lparr>ID = ''rs1'', Host = ''rs1/h2:27017''\<rparr> # []"
    "rm_Replsets (meta_r1\<lparr>rm_Replsets := [rs0_entry\<lparr>rs_Status := StatusRunning\<rparr>, rs1_entry]\<rparr>)
       = [rs0_entry\<lparr>rs_Status := StatusRunning\<rparr>] @ rs1_entry # []"
    "rs_Name rs1_entry = ID \<lparr>ID = ''rs1'', Host = ''rs1/h2:27017''\<rparr>"
    "GetLockData view_two \<lparr>lock_Type = CmdRestore, lock_BackupName = ''r1'',
                            lock_Replset = rs_Name rs1_entry\<rparr>
       = Inr \<lparr>Heartbeat = \<lparr>T = 900, I = 0\<rparr>\<rparr>"
    "T (Heartbeat \<lparr>Heartbeat = \<lparr>T = 900, I = 0\<rparr>\<rparr>) + StaleFrameSec < T \<lparr>T = 1000, I = 0\<rparr>"
    "Errorf ''lost shard %s, last beat ts: %d'' [AStr ''rs1'', AU32 900] =
       (case scan_shards view_two ''r1'' StatusRunning \<lparr>T = 1000, I = 0\<rparr>
               (rm_Replsets (meta_r1\<lparr>rm_Replsets :=
                               [rs0_entry\<lparr>rs_Status := StatusRunning\<rparr>, rs1_entry]\<rparr>))
               [\<lparr>ID = ''rs0'', Host = ''rs0/h1:27017''\<rparr>] (int (length shards_two)) of
          Inl err \<Rightarrow> err
        | Inr n \<Rightarrow>
            (case scan_replsets view_two ''r1'' StatusRunning \<lparr>T = 1000, I = 0\<rparr>
                    \<lparr>ID = ''rs1'', Host = ''rs1/h2:27017''\<rparr>
                    [rs0_entry\<lparr>rs_Status := StatusRunning\<rparr>] n of
               Inl err \<Rightarrow> err
             | Inr n' \<Rightarrow> Errorf ''lost shard %s, last beat ts: %d''
                           [AStr (rs_Name rs1_entry),
                            AU32 (T (Heartbeat \<lparr>Heartbeat = \<lparr>T = 900, I = 0\<rparr>\<rparr>))]))"
    by (simp_all add: view_two_def shards_two_def rs1_entry_def rs0_entry_def meta_r1_def
        check_shard_def StaleFrameSec_def)
  have c1: "converged pbm0 view_two ''r1'' shards_two StatusRunning =
       ((False, Some (Errorf ''lost shard %s, last beat ts: %d'' [AStr ''rs1'', AU32 900])), [])"
    using C1_stale_lock_loses_the_shard[OF two, of pbm0] by blast
  have running: "StatusRunning \<noteq> StatusDone"
    "GetRestoreMeta view_stale ''r1'' = Inr meta_r1"
    "ClusterTime view_stale = Inr \<lparr>T = 1000, I = 0\<rparr>"
    "shards0 = [] @ \<lparr>ID = ''rs0'', Host = ''rs0/h1:27017''\<rparr> # []"
    "rm_Replsets meta_r1 = [] @ rs0_entry # []"
    "rs_Name rs0_entry = ID \<lparr>ID = ''rs0'', Host = ''rs0/h1:27017''\<rparr>"
    "GetLockData view_stale \<lparr>lock_Type = CmdRestore, lock_BackupName = ''r1'',
                              lock_Replset = rs_Name rs0_entry\<rparr>
       = Inr \<lparr>Heartbeat = \<lparr>T = 900, I = 0\<rparr>\<rparr>"
    "T (Heartbeat \<lparr>Heartbeat = \<lparr>T = 900, I = 0\<rparr>\<rparr>) + StaleFrameSec < T \<lparr>T = 1000, I = 0\<rparr>"
    "?lost0 =
       (case scan_shards view_stale ''r1'' StatusRunning \<lparr>T = 1000, I = 0\<rparr>
               (rm_Replsets meta_r1) [] (int (length shards0)) of
          Inl err \<Rightarrow> err
        | Inr n \<Rightarrow>
            (case scan_replsets view_stale ''r1'' StatusRunning \<lparr>T = 1000, I = 0\<rparr>
                    \<lparr>ID = ''rs0'', Host = ''rs0/h1:27017''\<rparr> [] n of
               Inl err \<Rightarrow> err
             | Inr n' \<Rightarrow> Errorf ''lost shard %s, last beat ts: %d''
                           [AStr (rs_Name rs0_entry),
                            AU32 (T (Heartbeat \<lparr>Heartbeat = \<lparr>T = 900, I = 0\<rparr>\<rparr>))]))"
    by (simp_all add: view_stale_def view_nolock_def shards0_def rs0_entry_def meta_r1_def
        StaleFrameSec_def)
  have c2: "fst (Run pbm0 node0 env0 sched_lost cmd0) =
       Return (Some (Wrapped (Wrapped ?lost0 ''convergeClusterWithTimeout'')
                       ''check cluster for restore started''))
     \<and> ChangeRestoreStateCall ''r1'' StatusError
        (ErrorText (Wrapped (Wrapped ?lost0 ''convergeClusterWithTimeout'')
                      ''check cluster for restore started''))
       \<in> set (snd (Run pbm0 node0 env0 sched_lost cmd0))"
    using C1_stale_lock_loses_the_shard[OF running, where pbm = pbm0 and nd = node0
        and env = env0 and sch = sched_lost and cmd = cmd0 and stg = ?stg and bcp = backup_b1
        and im = im0 and rsBackup = ?rsb and evs = "[Tick view_nolock, Elapsed 1000000000]"
        and later = "[]", THEN conjunct2, THEN conjunct1]
    by (simp add: scheds_reach run0_facts(10) collaborators0 converged0_facts
        WaitActionStart_def)
       (simp add: sched_lost_def)
  have dump: "StatusDumpDone \<noteq> StatusDone"
    "GetRestoreMeta (view_lost_at StatusRunning StatusRunning) ''r1''
       = Inr (meta_r1\<lparr>rm_Status := StatusRunning,
                      rm_Replsets := [rs0_entry\<lparr>rs_Status := StatusRunning\<rparr>]\<rparr>)"
    "ClusterTime (view_lost_at StatusRunning StatusRunning) = Inr \<lparr>T = 1000, I = 0\<rparr>"
    "shards0 = [] @ \<lparr>ID = ''rs0'', Host = ''rs0/h1:27017''\<rparr> # []"
    "rm_Replsets (meta_r1\<lparr>rm_Status := StatusRunning,
                          rm_Replsets := [rs0_entry\<lparr>rs_Status := StatusRunning\<rparr>]\<rparr>)
       = [] @ rs0_entry\<lparr>rs_Status := StatusRunning\<rparr> # []"
    "rs_Name (rs0_entry\<lparr>rs_Status := StatusRunning\<rparr>)
       = ID \<lparr>ID = ''rs0'', Host = ''rs0/h1:27017''\<rparr>"
    "GetLockData (view_lost_at StatusRunning StatusRunning)
       \<lparr>lock_Type = CmdRestore, lock_BackupName = ''r1'',
        lock_Replset = rs_Name (rs0_entry\<lparr>rs_Status := StatusRunning\<rparr>)\<rparr>
       = Inr \<lparr>Heartbeat = \<lparr>T = 900, I = 0\<rparr>\<rparr>"
    "T (Heartbeat \<lparr>Heartbeat = \<lparr>T = 900, I = 0\<rparr>\<rparr>) + StaleFrameSec < T \<lparr>T = 1000, I = 0\<rparr>"
    "?lost0 =
       (case scan_shards (view_lost_at StatusRunning StatusRunning) ''r1'' StatusDumpDone
               \<lparr>T = 1000, I = 0\<rparr>
               (rm_Replsets (meta_r1\<lparr>rm_Status := StatusRunning,
                                     rm_Replsets := [rs0_entry\<lparr>rs_Status := StatusRunning\<rparr>]\<rparr>))
               [] (int (length shards0)) of
          Inl err \<Rightarrow> err
        | Inr n \<Rightarrow>
            (case scan_replsets (view_lost_at StatusRunning StatusRunning) ''r1'' StatusDumpDone
                    \<lparr>T = 1000, I = 0\<rparr> \<lparr>ID = ''rs0'', Host = ''rs0/h1:27017''\<rparr> [] n of
               Inl err \<Rightarrow> err
             | Inr n' \<Rightarrow> Errorf ''lost shard %s, last beat ts: %d''
                           [AStr (rs_Name (rs0_entry\<lparr>rs_Status := StatusRunning\<rparr>)),
                            AU32 (T (Heartbeat \<lparr>Heartbeat = \<lparr>T = 900, I = 0\<rparr>\<rparr>))]))"
    by (simp_all add: view_lost_at_def view_at_def shards0_def rs0_entry_def meta_r1_def
        StaleFrameSec_def)
  have c3: "fst (Run pbm0 node0 env0 sched_dump_lost cmd0) =
       Return (Some (Wrapped (Wrapped ?lost0 ''convergeCluster'')
                       ''check cluster for restore dump done''))
     \<and> ChangeRestoreStateCall ''r1'' StatusError
        (ErrorText (Wrapped (Wrapped ?lost0 ''convergeCluster'')
                      ''check cluster for restore dump done''))
       \<in> set (snd (Run pbm0 node0 env0 sched_dump_lost cmd0))"
    using C1_stale_lock_loses_the_shard[OF dump, where pbm = pbm0 and nd = node0
        and env = env0 and sch = sched_dump_lost and cmd = cmd0 and stg = ?stg
        and bcp = backup_b1 and im = im0 and rsBackup = ?rsb
        and evs = "[Elapsed 40000000000]" and later = "[]", THEN conjunct2, THEN conjunct2]
    by (simp add: scheds_reach run0_facts(10) collaborators0)
       (simp add: sched_dump_lost_def)
  show ?thesis
    using c1 c2 c3 two(1,3,4)
    by (simp add: scheds_reach)
       (simp add: view_two_def sched_lost_def sched_dump_lost_def StaleFrameSec_def)
qed

text \<open>
  Toward \<^verbatim>\<open>StatusDone\<close> the locks are not tested: \<^verbatim>\<open>converged\<close> returns the same
  whatever the lock collection holds.
\<close>

lemma check_shard_Done:
  "check_shard (v\<lparr>GetLockData := locks\<rparr>) nm StatusDone ct shard n =
   check_shard v nm StatusDone ct shard n"
  by (simp add: check_shard_def)

lemma scan_replsets_Done:
  "scan_replsets (v\<lparr>GetLockData := locks\<rparr>) nm StatusDone ct sh rss n =
   scan_replsets v nm StatusDone ct sh rss n"
  by (induction rss arbitrary: n) (simp_all add: check_shard_Done split: sum.splits)

lemma scan_shards_Done:
  "scan_shards (v\<lparr>GetLockData := locks\<rparr>) nm StatusDone ct rss shards n =
   scan_shards v nm StatusDone ct rss shards n"
  by (induction shards arbitrary: n) (simp_all add: scan_replsets_Done split: sum.splits)

lemma converged_Done_locks:
  "converged pbm (v\<lparr>GetLockData := locks\<rparr>) nm shards StatusDone =
   converged pbm v nm shards StatusDone"
  by (simp add: converged_def scan_shards_Done split: sum.splits)

text \<open>
  C4 (as stated, refuted for the wait toward \<^verbatim>\<open>StatusDone\<close>). The leader's run has
  reached the convergence toward \<^verbatim>\<open>StatusDone\<close>. At two ticks a minute apart the only
  shard \<open>rs0\<close> is still at \<^verbatim>\<open>StatusDumpDone\<close> and its lock's last heartbeat, of time
  900, is stale at the cluster time 1000: the shard is lost. \<^verbatim>\<open>converged\<close> returns
  \<^verbatim>\<open>false, nil\<close> at these ticks, where toward \<^verbatim>\<open>StatusDumpDone\<close> it returns the error
  of the lost shard, and \<^verbatim>\<open>Run\<close> has not returned: the loss of the shard does not end
  this wait.
\<close>

theorem C4_lost_shard_toward_Done_counterexample:
  "conv_Done sched_done_lost =
     [Tick (view_lost_at StatusDumpDone StatusDumpDone), Elapsed 60000000000,
      Tick (view_lost_at StatusDumpDone StatusDumpDone)]
   \<and> GetLockData (view_lost_at StatusDumpDone StatusDumpDone)
        \<lparr>lock_Type = CmdRestore, lock_BackupName = ''r1'', lock_Replset = ''rs0''\<rparr>
       = Inr \<lparr>Heartbeat = \<lparr>T = 900, I = 0\<rparr>\<rparr>
   \<and> ClusterTime (view_lost_at StatusDumpDone StatusDumpDone) = Inr \<lparr>T = 1000, I = 0\<rparr>
   \<and> (900 :: u32) + StaleFrameSec < 1000
   \<and> converged pbm0 (view_lost_at StatusDumpDone StatusDumpDone) ''r1'' shards0 StatusDumpDone =
       ((False, Some (Errorf ''lost shard %s, last beat ts: %d'' [AStr ''rs0'', AU32 900])), [])
   \<and> converged pbm0 (view_lost_at StatusDumpDone StatusDumpDone) ''r1'' shards0 StatusDone =
       ((False, None), [])
   \<and> reconcileStatus pbm0 ''r1'' StatusDone im0 None (conv_Done sched_done_lost) = None
   \<and> fst (Run pbm0 node0 env0 sched_done_lost cmd0) = Blocked"
proof -
  have rec: "reconcileStatus pbm0 ''r1'' StatusDone im0 None (conv_Done sched_done_lost) = None"
    by (simp add: sched_done_lost_def reconcileStatus_def run0_facts(10) converged_lost_at
        converged_at)
  have "fst (Run pbm0 node0 env0 sched_done_lost cmd0) = Blocked"
    using Run_at_Done[OF scheds_reach(7)] rec by (simp add: collaborators0)
  then show ?thesis
    using rec
    by (simp add: converged_lost_at converged_at)
       (simp add: sched_done_lost_def view_lost_at_def view_at_def StaleFrameSec_def)
qed

text \<open>
  C4 (amended). In \<^verbatim>\<open>Run\<close>, the timeout \<^verbatim>\<open>WaitActionStart\<close> bounds the convergence
  toward \<^verbatim>\<open>StatusRunning\<close> and no other wait. For a run of the leader:
  \<^item> at the convergence toward \<^verbatim>\<open>StatusRunning\<close>, after events that leave the loop
    pending (ticks at which \<^verbatim>\<open>converged\<close> returns \<^verbatim>\<open>false, nil\<close>, and durations
    below \<^verbatim>\<open>WaitActionStart\<close>) \<^verbatim>\<open>Run\<close> has not returned; when a duration from
    \<^verbatim>\<open>WaitActionStart\<close> on has passed after such events, \<^verbatim>\<open>Run\<close> returns the
    converge-timeout error, wrapped as the missing response of the shards;
  \<^item> at the convergences toward \<^verbatim>\<open>StatusDumpDone\<close> and \<^verbatim>\<open>StatusDone\<close>, after ticks at
    which \<^verbatim>\<open>converged\<close> returns \<^verbatim>\<open>false, nil\<close> and durations of any length \<^verbatim>\<open>Run\<close>
    has not returned; toward \<^verbatim>\<open>StatusDumpDone\<close> it returns, wrapped, the error of the
    first tick at which \<^verbatim>\<open>converged\<close> returns one (that of a lost shard by C1);
    toward \<^verbatim>\<open>StatusDone\<close> it returns at the first tick at which \<^verbatim>\<open>converged\<close> returns
    true (no error) or an error (that error, wrapped), and at a cancellation of the
    context (no error);
  \<^item> \<^verbatim>\<open>reconcileStatus\<close> with the timeout \<^verbatim>\<open>WaitActionStart\<close> returns, after events
    that leave it pending, at a tick at which \<^verbatim>\<open>converged\<close> returns true or an error,
    at a duration from \<^verbatim>\<open>WaitActionStart\<close> on (the timeout error) and at a
    cancellation; without timeout it returns at such a tick and at a cancellation,
    and at no duration;
  \<^item> the durations seen by the two later convergence loops change nothing in a run;
  \<^item> toward \<^verbatim>\<open>StatusDone\<close> \<^verbatim>\<open>converged\<close> does not depend on the locks: a stale lock
    is no error there.
\<close>

theorem C4_timeout_bounds_only_the_running_hop:
  "(reaches_Running pbm nd env sch cmd stg bcp im rsBackup \<and> participants pbm im = Inr shards
      \<and> (\<forall>e\<in>set (conv_Running sch).
            pending_before WaitActionStart pbm (cmd_Name cmd) shards StatusRunning e)
    \<longrightarrow> fst (Run pbm nd env sch cmd) = Blocked)
   \<and> (reaches_Running pbm nd env sch cmd stg bcp im rsBackup \<and> participants pbm im = Inr shards
      \<and> conv_Running sch = pre @ Elapsed d # rest
      \<and> (\<forall>e\<in>set pre. pending_before WaitActionStart pbm (cmd_Name cmd) shards StatusRunning e)
      \<and> WaitActionStart \<le> d
    \<longrightarrow> fst (Run pbm nd env sch cmd) =
          Return (Some (Wrapped (Wrapped ErrConvergeTimeOut ''convergeClusterWithTimeout'')
                          ''couldn't get response from all shards'')))
   \<and> (reaches_DumpDone pbm nd env sch cmd stg bcp im rsBackup \<and> participants pbm im = Inr shards
      \<and> (\<forall>e\<in>set (conv_DumpDone sch). pending pbm (cmd_Name cmd) shards StatusDumpDone e)
    \<longrightarrow> fst (Run pbm nd env sch cmd) = Blocked)
   \<and> (reaches_DumpDone pbm nd env sch cmd stg bcp im rsBackup \<and> participants pbm im = Inr shards
      \<and> conv_DumpDone sch = pre @ Tick v # rest
      \<and> (\<forall>e\<in>set pre. pending pbm (cmd_Name cmd) shards StatusDumpDone e)
      \<and> snd (fst (converged pbm v (cmd_Name cmd) shards StatusDumpDone)) = Some err
    \<longrightarrow> fst (Run pbm nd env sch cmd) =
          Return (Some (Wrapped (Wrapped err ''convergeCluster'')
                          ''check cluster for restore dump done'')))
   \<and> (reaches_Done pbm nd env sch cmd stg bcp im rsBackup \<and> participants pbm im = Inr shards
      \<and> (\<forall>e\<in>set (conv_Done sch). pending pbm (cmd_Name cmd) shards StatusDone e)
    \<longrightarrow> fst (Run pbm nd env sch cmd) = Blocked)
   \<and> (reaches_Done pbm nd env sch cmd stg bcp im rsBackup \<and> participants pbm im = Inr shards
      \<and> conv_Done sch = pre @ ev # rest
      \<and> (\<forall>e\<in>set pre. pending pbm (cmd_Name cmd) shards StatusDone e)
      \<and> \<not> pending pbm (cmd_Name cmd) shards StatusDone ev
    \<longrightarrow> fst (Run pbm nd env sch cmd) =
          Return (case ev of
                    Tick v \<Rightarrow>
                      Wrap (Wrap (snd (fst (converged pbm v (cmd_Name cmd) shards StatusDone)))
                              ''convergeCluster'')
                        ''check cluster for the restore done''
                  | Elapsed d \<Rightarrow> None
                  | Cancelled \<Rightarrow> None))
   \<and> (participants pbm im = Inr shards
      \<and> (\<forall>e\<in>set pre. pending_before WaitActionStart pbm nm shards st e)
      \<and> \<not> pending_before WaitActionStart pbm nm shards st ev
    \<longrightarrow> reconcileStatus pbm nm st im (Some WaitActionStart) (pre @ ev # rest) =
          (case ev of
             Tick v \<Rightarrow> Some (Wrap (snd (fst (converged pbm v nm shards st)))
                               ''convergeClusterWithTimeout'',
                             snd (converged pbm v nm shards st))
           | Elapsed d \<Rightarrow>
               Some (Some (Wrapped ErrConvergeTimeOut ''convergeClusterWithTimeout''), [])
           | Cancelled \<Rightarrow> Some (None, [])))
   \<and> (participants pbm im = Inr shards
      \<and> (\<forall>e\<in>set pre. pending pbm nm shards st e)
      \<and> \<not> pending pbm nm shards st ev
    \<longrightarrow> reconcileStatus pbm nm st im None (pre @ ev # rest) =
          (case ev of
             Tick v \<Rightarrow> Some (Wrap (snd (fst (converged pbm v nm shards st))) ''convergeCluster'',
                             snd (converged pbm v nm shards st))
           | Elapsed d \<Rightarrow> None
           | Cancelled \<Rightarrow> Some (None, [])))
   \<and> Run pbm nd env (untimed sch) cmd = Run pbm nd env sch cmd
   \<and> converged pbm (v\<lparr>GetLockData := locks\<rparr>) nm shards StatusDone =
       converged pbm v nm shards StatusDone"
proof (intro conjI impI)
  assume h: "reaches_Running pbm nd env sch cmd stg bcp im rsBackup
      \<and> participants pbm im = Inr shards
      \<and> (\<forall>e\<in>set (conv_Running sch).
            pending_before WaitActionStart pbm (cmd_Name cmd) shards StatusRunning e)"
  then have "reconcileStatus pbm (cmd_Name cmd) StatusRunning im (Some WaitActionStart)
               (conv_Running sch) = None"
    using reconcileStatus_timed_pending by blast
  then show "fst (Run pbm nd env sch cmd) = Blocked"
    using Run_at_Running(1) h by blast
next
  assume h: "reaches_Running pbm nd env sch cmd stg bcp im rsBackup
      \<and> participants pbm im = Inr shards
      \<and> conv_Running sch = pre @ Elapsed d # rest
      \<and> (\<forall>e\<in>set pre. pending_before WaitActionStart pbm (cmd_Name cmd) shards StatusRunning e)
      \<and> WaitActionStart \<le> d"
  have reach: "reaches_Running pbm nd env sch cmd stg bcp im rsBackup"
    and part: "participants pbm im = Inr shards"
    and pend: "\<forall>e\<in>set pre. pending_before WaitActionStart pbm (cmd_Name cmd) shards StatusRunning e"
    using h by blast+
  have np: "\<not> pending_before WaitActionStart pbm (cmd_Name cmd) shards StatusRunning (Elapsed d)"
    using h by simp
  have rec: "reconcileStatus pbm (cmd_Name cmd) StatusRunning im (Some WaitActionStart)
               (conv_Running sch)
             = Some (Some (Wrapped ErrConvergeTimeOut ''convergeClusterWithTimeout''), [])"
    using reconcileStatus_timed_decided[OF part pend np, of rest] h by simp
  show "fst (Run pbm nd env sch cmd) =
          Return (Some (Wrapped (Wrapped ErrConvergeTimeOut ''convergeClusterWithTimeout'')
                          ''couldn't get response from all shards''))"
    using Run_at_Running(2)[OF reach rec] by simp
next
  assume h: "reaches_DumpDone pbm nd env sch cmd stg bcp im rsBackup
      \<and> participants pbm im = Inr shards
      \<and> (\<forall>e\<in>set (conv_DumpDone sch). pending pbm (cmd_Name cmd) shards StatusDumpDone e)"
  then have "reconcileStatus pbm (cmd_Name cmd) StatusDumpDone im None (conv_DumpDone sch) = None"
    using reconcileStatus_pending by blast
  then show "fst (Run pbm nd env sch cmd) = Blocked"
    using Run_at_DumpDone(1) h by blast
next
  assume h: "reaches_DumpDone pbm nd env sch cmd stg bcp im rsBackup
      \<and> participants pbm im = Inr shards
      \<and> conv_DumpDone sch = pre @ Tick v # rest
      \<and> (\<forall>e\<in>set pre. pending pbm (cmd_Name cmd) shards StatusDumpDone e)
      \<and> snd (fst (converged pbm v (cmd_Name cmd) shards StatusDumpDone)) = Some err"
  have reach: "reaches_DumpDone pbm nd env sch cmd stg bcp im rsBackup"
    and part: "participants pbm im = Inr shards"
    and pend: "\<forall>e\<in>set pre. pending pbm (cmd_Name cmd) shards StatusDumpDone e"
    and er: "snd (fst (converged pbm v (cmd_Name cmd) shards StatusDumpDone)) = Some err"
    using h by blast+
  have np: "\<not> pending pbm (cmd_Name cmd) shards StatusDumpDone (Tick v)"
    using er by (cases "fst (converged pbm v (cmd_Name cmd) shards StatusDumpDone)") auto
  have rec: "reconcileStatus pbm (cmd_Name cmd) StatusDumpDone im None (conv_DumpDone sch)
             = Some (Some (Wrapped err ''convergeCluster''),
                     snd (converged pbm v (cmd_Name cmd) shards StatusDumpDone))"
    using reconcileStatus_decided[OF part pend np, of rest] h by (simp add: er)
  show "fst (Run pbm nd env sch cmd) =
          Return (Some (Wrapped (Wrapped err ''convergeCluster'')
                          ''check cluster for restore dump done''))"
    using Run_at_DumpDone(2)[OF reach rec] by simp
next
  assume h: "reaches_Done pbm nd env sch cmd stg bcp im rsBackup
      \<and> participants pbm im = Inr shards
      \<and> (\<forall>e\<in>set (conv_Done sch). pending pbm (cmd_Name cmd) shards StatusDone e)"
  then have "reconcileStatus pbm (cmd_Name cmd) StatusDone im None (conv_Done sch) = None"
    using reconcileStatus_pending by blast
  then show "fst (Run pbm nd env sch cmd) = Blocked"
    using Run_at_Done[of pbm nd env sch cmd stg bcp im rsBackup] h by simp
next
  assume h: "reaches_Done pbm nd env sch cmd stg bcp im rsBackup
      \<and> participants pbm im = Inr shards
      \<and> conv_Done sch = pre @ ev # rest
      \<and> (\<forall>e\<in>set pre. pending pbm (cmd_Name cmd) shards StatusDone e)
      \<and> \<not> pending pbm (cmd_Name cmd) shards StatusDone ev"
  have reach: "reaches_Done pbm nd env sch cmd stg bcp im rsBackup"
    and part: "participants pbm im = Inr shards"
    and pend: "\<forall>e\<in>set pre. pending pbm (cmd_Name cmd) shards StatusDone e"
    and np: "\<not> pending pbm (cmd_Name cmd) shards StatusDone ev"
    using h by blast+
  have rec: "reconcileStatus pbm (cmd_Name cmd) StatusDone im None (conv_Done sch) =
      (case ev of
         Tick v \<Rightarrow> Some (Wrap (snd (fst (converged pbm v (cmd_Name cmd) shards StatusDone)))
                           ''convergeCluster'',
                         snd (converged pbm v (cmd_Name cmd) shards StatusDone))
       | Elapsed d \<Rightarrow> None
       | Cancelled \<Rightarrow> Some (None, []))"
    using reconcileStatus_decided[OF part pend np, of rest] h by simp
  show "fst (Run pbm nd env sch cmd) =
          Return (case ev of
                    Tick v \<Rightarrow>
                      Wrap (Wrap (snd (fst (converged pbm v (cmd_Name cmd) shards StatusDone)))
                              ''convergeCluster'')
                        ''check cluster for the restore done''
                  | Elapsed d \<Rightarrow> None
                  | Cancelled \<Rightarrow> None)"
    using np by (cases ev) (simp_all add: Run_at_Done[OF reach] rec)
next
  assume "participants pbm im = Inr shards
      \<and> (\<forall>e\<in>set pre. pending_before WaitActionStart pbm nm shards st e)
      \<and> \<not> pending_before WaitActionStart pbm nm shards st ev"
  then show "reconcileStatus pbm nm st im (Some WaitActionStart) (pre @ ev # rest) =
          (case ev of
             Tick v \<Rightarrow> Some (Wrap (snd (fst (converged pbm v nm shards st)))
                               ''convergeClusterWithTimeout'',
                             snd (converged pbm v nm shards st))
           | Elapsed d \<Rightarrow>
               Some (Some (Wrapped ErrConvergeTimeOut ''convergeClusterWithTimeout''), [])
           | Cancelled \<Rightarrow> Some (None, []))"
    using reconcileStatus_timed_decided by blast
next
  assume "participants pbm im = Inr shards
      \<and> (\<forall>e\<in>set pre. pending pbm nm shards st e)
      \<and> \<not> pending pbm nm shards st ev"
  then show "reconcileStatus pbm nm st im None (pre @ ev # rest) =
          (case ev of
             Tick v \<Rightarrow> Some (Wrap (snd (fst (converged pbm v nm shards st))) ''convergeCluster'',
                             snd (converged pbm v nm shards st))
           | Elapsed d \<Rightarrow> None
           | Cancelled \<Rightarrow> Some (None, []))"
    using reconcileStatus_decided by blast
next
  show "Run pbm nd env (untimed sch) cmd = Run pbm nd env sch cmd"
    by (rule Run_untimed)
next
  show "converged pbm (v\<lparr>GetLockData := locks\<rparr>) nm shards StatusDone =
       converged pbm v nm shards StatusDone"
    by (rule converged_Done_locks)
qed

theorem C4_timeout_witness:
  "reaches_Running pbm0 node0 env0 sched_waiting cmd0 \<lparr>SourceReader = (\<lambda>n. Inr [])\<rparr> backup_b1
     im0 \<lparr>brs_Name = ''rs0'', DumpName = ''b1_rs0.dump.s2'', OplogName = ''b1_rs0.oplog.s2''\<rparr>
   \<and> participants pbm0 im0 = Inr shards0
   \<and> conv_Running sched_waiting = [Tick view_nolock, Elapsed 29999999999]
   \<and> pending_before WaitActionStart pbm0 ''r1'' shards0 StatusRunning (Tick view_nolock)
   \<and> pending_before WaitActionStart pbm0 ''r1'' shards0 StatusRunning (Elapsed 29999999999)
   \<and> fst (Run pbm0 node0 env0 sched_waiting cmd0) = Blocked
   \<and> conv_Running sched_timeout =
       [Tick view_nolock, Elapsed 1000000000, Tick view_nolock] @ Elapsed 30000000000 # []
   \<and> WaitActionStart \<le> 30000000000
   \<and> fst (Run pbm0 node0 env0 sched_timeout cmd0) =
       Return (Some (Wrapped (Wrapped ErrConvergeTimeOut ''convergeClusterWithTimeout'')
                       ''couldn't get response from all shards''))
   \<and> conv_DumpDone sched_dump_waiting =
       [Elapsed 40000000000, Tick (view_at StatusRunning StatusRunning)]
   \<and> pending pbm0 ''r1'' shards0 StatusDumpDone (Tick (view_at StatusRunning StatusRunning))
   \<and> fst (Run pbm0 node0 env0 sched_dump_waiting cmd0) = Blocked
   \<and> conv_DumpDone sched_dump_lost =
       [Elapsed 40000000000] @ Tick (view_lost_at StatusRunning StatusRunning) # []
   \<and> fst (Run pbm0 node0 env0 sched_dump_lost cmd0) =
       Return (Some (Wrapped (Wrapped (Errorf ''lost shard %s, last beat ts: %d''
                                         [AStr ''rs0'', AU32 900])
                                ''convergeCluster'')
                       ''check cluster for restore dump done''))
   \<and> reaches_Done pbm0 node0 env0 sched_done_lost cmd0 \<lparr>SourceReader = (\<lambda>n. Inr [])\<rparr> backup_b1
       im0 \<lparr>brs_Name = ''rs0'', DumpName = ''b1_rs0.dump.s2'', OplogName = ''b1_rs0.oplog.s2''\<rparr>
   \<and> pending pbm0 ''r1'' shards0 StatusDone (Tick (view_lost_at StatusDumpDone StatusDumpDone))
   \<and> fst (Run pbm0 node0 env0 sched_done_lost cmd0) = Blocked
   \<and> conv_Done sched_ok =
       [Elapsed 30000000000, Elapsed 60000000000] @ Tick (view_at StatusDumpDone StatusDone) # []
   \<and> fst (Run pbm0 node0 env0 sched_ok cmd0) = Return None
   \<and> conv_Done sched_done_failed =
       [Elapsed 60000000000] @ Tick (view_at StatusDumpDone StatusError) # []
   \<and> fst (Run pbm0 node0 env0 sched_done_failed cmd0) =
       Return (Some (Wrapped (Wrapped (Errorf ''restore on the shard %s failed with: %s''
                                         [AStr ''rs0'', AStr []])
                                ''convergeCluster'')
                       ''check cluster for the restore done''))
   \<and> conv_Done sched_done_cancelled = [Elapsed 60000000000] @ Cancelled # []
   \<and> fst (Run pbm0 node0 env0 sched_done_cancelled cmd0) = Return None
   \<and> reconcileStatus pbm0 ''r1'' StatusRunning im0 (Some WaitActionStart)
        [Tick (view_at StatusStarting StatusStarting), Elapsed 29999999999,
         Tick (view_at StatusStarting StatusRunning), Elapsed 30000000000]
       = Some (None, [ChangeRestoreStateCall ''r1'' StatusRunning NoMsg])
   \<and> reconcileStatus pbm0 ''r1'' StatusRunning im0 (Some WaitActionStart)
        [Tick (view_at StatusStarting StatusStarting), Elapsed 29999999999, Cancelled]
       = Some (None, [])
   \<and> reconcileStatus pbm0 ''r1'' StatusDumpDone im0 None
        [Tick (view_at StatusRunning StatusRunning), Elapsed 40000000000, Cancelled]
       = Some (None, [])
   \<and> fst (Run pbm0 node0 env0 (untimed sched_ok) cmd0) = Return None
   \<and> converged pbm0 (view_lost_at StatusDumpDone StatusDumpDone) ''r1'' shards0 StatusDone =
       converged pbm0 (view_at StatusDumpDone StatusDumpDone) ''r1'' shards0 StatusDone"
proof -
  let ?stg = "\<lparr>SourceReader = (\<lambda>n. Inr [])\<rparr>"
  let ?rsb = "\<lparr>brs_Name = ''rs0'', DumpName = ''b1_rs0.dump.s2'', OplogName = ''b1_rs0.oplog.s2''\<rparr>"
  note inst = C4_timeout_bounds_only_the_running_hop
    [where pbm = pbm0 and stg = ?stg and cmd = cmd0 and bcp = backup_b1 and nd = node0
       and im = im0 and rsBackup = ?rsb and shards = shards0 and env = env0 and nm = "''r1''"]
  have w1: "fst (Run pbm0 node0 env0 sched_waiting cmd0) = Blocked"
    using inst[where sch = sched_waiting, THEN conjunct1]
    by (simp add: scheds_reach run0_facts(10) collaborators0 converged0_facts WaitActionStart_def)
       (simp add: sched_waiting_def converged0_facts)
  have w2: "fst (Run pbm0 node0 env0 sched_timeout cmd0) =
       Return (Some (Wrapped (Wrapped ErrConvergeTimeOut ''convergeClusterWithTimeout'')
                       ''couldn't get response from all shards''))"
    using inst[where sch = sched_timeout
        and pre = "[Tick view_nolock, Elapsed 1000000000, Tick view_nolock]"
        and d = 30000000000 and rest = "[]", THEN conjunct2, THEN conjunct1]
    by (simp add: scheds_reach run0_facts(10) collaborators0 converged0_facts WaitActionStart_def)
       (simp add: sched_timeout_def)
  have w3: "fst (Run pbm0 node0 env0 sched_dump_waiting cmd0) = Blocked"
    using inst[where sch = sched_dump_waiting, THEN conjunct2, THEN conjunct2, THEN conjunct1]
    by (simp add: scheds_reach run0_facts(10) collaborators0)
       (simp add: sched_dump_waiting_def converged_at)
  have w4: "fst (Run pbm0 node0 env0 sched_dump_lost cmd0) =
       Return (Some (Wrapped (Wrapped (Errorf ''lost shard %s, last beat ts: %d''
                                         [AStr ''rs0'', AU32 900])
                                ''convergeCluster'')
                       ''check cluster for restore dump done''))"
    using inst[where sch = sched_dump_lost and pre = "[Elapsed 40000000000]"
        and v = "view_lost_at StatusRunning StatusRunning" and rest = "[]"
        and err = "Errorf ''lost shard %s, last beat ts: %d'' [AStr ''rs0'', AU32 900]",
        THEN conjunct2, THEN conjunct2, THEN conjunct2, THEN conjunct1]
    by (simp add: scheds_reach run0_facts(10) collaborators0 converged_lost_at)
       (simp add: sched_dump_lost_def)
  have w5: "fst (Run pbm0 node0 env0 sched_done_lost cmd0) = Blocked"
    using inst[where sch = sched_done_lost,
        THEN conjunct2, THEN conjunct2, THEN conjunct2, THEN conjunct2, THEN conjunct1]
    by (simp add: scheds_reach run0_facts(10) collaborators0)
       (simp add: sched_done_lost_def converged_lost_at converged_at)
  have w6: "fst (Run pbm0 node0 env0 sched_ok cmd0) = Return None"
    using inst[where sch = sched_ok and pre = "[Elapsed 30000000000, Elapsed 60000000000]"
        and ev = "Tick (view_at StatusDumpDone StatusDone)" and rest = "[]",
        THEN conjunct2, THEN conjunct2, THEN conjunct2, THEN conjunct2,
        THEN conjunct2, THEN conjunct1]
    by (simp add: scheds_reach run0_facts(10) collaborators0 converged_at)
       (simp add: sched_ok_def)
  have w7: "fst (Run pbm0 node0 env0 sched_done_failed cmd0) =
       Return (Some (Wrapped (Wrapped (Errorf ''restore on the shard %s failed with: %s''
                                         [AStr ''rs0'', AStr []])
                                ''convergeCluster'')
                       ''check cluster for the restore done''))"
    using inst[where sch = sched_done_failed and pre = "[Elapsed 60000000000]"
        and ev = "Tick (view_at StatusDumpDone StatusError)" and rest = "[]",
        THEN conjunct2, THEN conjunct2, THEN conjunct2, THEN conjunct2,
        THEN conjunct2, THEN conjunct1]
    by (simp add: scheds_reach run0_facts(10) collaborators0 converged_at)
       (simp add: sched_done_failed_def)
  have w8: "fst (Run pbm0 node0 env0 sched_done_cancelled cmd0) = Return None"
    using inst[where sch = sched_done_cancelled and pre = "[Elapsed 60000000000]"
        and ev = Cancelled and rest = "[]",
        THEN conjunct2, THEN conjunct2, THEN conjunct2, THEN conjunct2,
        THEN conjunct2, THEN conjunct1]
    by (simp add: scheds_reach run0_facts(10) collaborators0)
       (simp add: sched_done_cancelled_def)
  have w9: "reconcileStatus pbm0 ''r1'' StatusRunning im0 (Some WaitActionStart)
        [Tick (view_at StatusStarting StatusStarting), Elapsed 29999999999,
         Tick (view_at StatusStarting StatusRunning), Elapsed 30000000000]
       = Some (None, [ChangeRestoreStateCall ''r1'' StatusRunning NoMsg])"
    using inst[where st = StatusRunning
        and pre = "[Tick (view_at StatusStarting StatusStarting), Elapsed 29999999999]"
        and ev = "Tick (view_at StatusStarting StatusRunning)"
        and rest = "[Elapsed 30000000000]",
        THEN conjunct2, THEN conjunct2, THEN conjunct2, THEN conjunct2,
        THEN conjunct2, THEN conjunct2, THEN conjunct1]
    by (simp add: run0_facts(10) converged_at WaitActionStart_def)
  have w10: "reconcileStatus pbm0 ''r1'' StatusRunning im0 (Some WaitActionStart)
        [Tick (view_at StatusStarting StatusStarting), Elapsed 29999999999, Cancelled]
       = Some (None, [])"
    using inst[where st = StatusRunning
        and pre = "[Tick (view_at StatusStarting StatusStarting), Elapsed 29999999999]"
        and ev = Cancelled and rest = "[]",
        THEN conjunct2, THEN conjunct2, THEN conjunct2, THEN conjunct2,
        THEN conjunct2, THEN conjunct2, THEN conjunct1]
    by (simp add: run0_facts(10) converged_at WaitActionStart_def)
  have w11: "reconcileStatus pbm0 ''r1'' StatusDumpDone im0 None
        [Tick (view_at StatusRunning StatusRunning), Elapsed 40000000000, Cancelled]
       = Some (None, [])"
    using inst[where st = StatusDumpDone
        and pre = "[Tick (view_at StatusRunning StatusRunning), Elapsed 40000000000]"
        and ev = Cancelled and rest = "[]",
        THEN conjunct2, THEN conjunct2, THEN conjunct2, THEN conjunct2,
        THEN conjunct2, THEN conjunct2, THEN conjunct2, THEN conjunct1]
    by (simp add: run0_facts(10) converged_at)
  have w12: "fst (Run pbm0 node0 env0 (untimed sched_ok) cmd0) = Return None"
    using inst[where sch = sched_ok,
        THEN conjunct2, THEN conjunct2, THEN conjunct2, THEN conjunct2,
        THEN conjunct2, THEN conjunct2, THEN conjunct2, THEN conjunct2, THEN conjunct1] w6
    by simp
  have w13: "converged pbm0 (view_lost_at StatusDumpDone StatusDumpDone) ''r1'' shards0 StatusDone =
       converged pbm0 (view_at StatusDumpDone StatusDumpDone) ''r1'' shards0 StatusDone"
    using inst[where v = "view_at StatusDumpDone StatusDumpDone"
        and locks = "\<lambda>h. Inr \<lparr>Heartbeat = \<lparr>T = 900, I = 0\<rparr>\<rparr>",
        THEN conjunct2, THEN conjunct2, THEN conjunct2, THEN conjunct2,
        THEN conjunct2, THEN conjunct2, THEN conjunct2, THEN conjunct2, THEN conjunct2]
    by (simp add: view_lost_at_def)
  show ?thesis
    using w1 w2 w3 w4 w5 w6 w7 w8 w9 w10 w11 w12 w13
    by (simp add: scheds_reach run0_facts(10) converged0_facts converged_at converged_lost_at
          WaitActionStart_def)
       (simp add: sched_waiting_def sched_timeout_def sched_dump_waiting_def sched_dump_lost_def
          sched_ok_def sched_done_failed_def sched_done_cancelled_def)
qed

end
